theory Spec2Isabelle
  imports Complex_Main "HOL-Library.Sublist"
begin

section \<open>Script values\<close>

text \<open>
  The configuration engine of essh receives its input as values of an embedded Lua
  interpreter (gopher-lua).  The interpreter is an external collaborator; what the Go
  code observes of it is the dynamic type of a value and, for tables, the four accessors
  \<open>MaxN\<close>, \<open>RawGetInt\<close>, \<open>RawGetString\<close> and \<open>ForEach\<close>.

  A table is an array part and a keyed part.  The keyed part is an association list in
  the order in which \<open>ForEach\<close> visits it.  Numbers are float64 in Lua; no property
  below depends on rounding, so they are reals here.  Function values and the pointers
  behind userdata are identified by natural numbers (an address in the respective
  arena).
\<close>

datatype gofunction =
    HostQueryFilter | HostQueryGet | HostQueryFirstOuter | HostQueryFirstInner

datatype fn = LuaFn nat | GoFn gofunction

datatype udata =
    UHost nat | UTask nat | UDriver nat | UJob nat | UHostQuery nat | URegistry nat

datatype lvalue =
    LNil
  | LBool bool
  | LString string
  | LNumber real
  | LTable "lvalue list" "(lvalue \<times> lvalue) list"
  | LFunction fn
  | LUserData udata

text \<open>
  The failures of the Go code: \<open>panic(msg)\<close>, \<open>L.RaiseError(msg)\<close> and an \<open>error\<close>
  value returned with \<open>fmt.Errorf(msg)\<close>.  A failure ends the call, and the load with
  it unless the script catches the error.  The three are kept apart because the callers
  treat them differently (\<open>updateTask\<close> re-raises a returned error).
\<close>

datatype error = Panic string | RaiseError string | Errorf string

fun message :: "error \<Rightarrow> string" where
  "message (Panic m) = m"
| "message (RaiseError m) = m"
| "message (Errorf m) = m"

definition q :: string where
  "q = [CHR 0x27]"

subsection \<open>Table accessors of the interpreter\<close>

text \<open>
  \<open>MaxN\<close>: the index of the last non-nil entry of the array part, 0 if there is none.
  \<open>RawGetInt\<close> reads the array part and yields nil outside it; \<open>RawGetString\<close> reads
  the keyed part and yields nil for a missing key.
\<close>

definition MaxN :: "lvalue list \<Rightarrow> nat" where
  "MaxN arr = length (dropWhile (\<lambda>v. v = LNil) (rev arr))"

fun lookup_key :: "(lvalue \<times> lvalue) list \<Rightarrow> lvalue \<Rightarrow> lvalue" where
  "lookup_key [] k = LNil"
| "lookup_key ((k', v) # kvs) k = (if k' = k then v else lookup_key kvs k)"

definition RawGetInt :: "lvalue list \<Rightarrow> nat \<Rightarrow> lvalue" where
  "RawGetInt arr i = (if 1 \<le> i \<and> i \<le> length arr then arr ! (i - 1) else LNil)"

definition RawGetString :: "(lvalue \<times> lvalue) list \<Rightarrow> string \<Rightarrow> lvalue" where
  "RawGetString dict k = lookup_key dict (LString k)"

text \<open>\<open>ForEach\<close> visits the non-nil entries: the array part by index, then the keyed part.\<close>

fun array_entries :: "nat \<Rightarrow> lvalue list \<Rightarrow> (lvalue \<times> lvalue) list" where
  "array_entries i [] = []"
| "array_entries i (v # vs) =
     (if v = LNil then array_entries (Suc i) vs
      else (LNumber (real i), v) # array_entries (Suc i) vs)"

definition ForEach :: "lvalue list \<Rightarrow> (lvalue \<times> lvalue) list \<Rightarrow> (lvalue \<times> lvalue) list" where
  "ForEach arr dict = array_entries 1 arr @ filter (\<lambda>(k, v). v \<noteq> LNil) dict"

subsection \<open>Type tests of the bridge\<close>

fun toBool :: "lvalue \<Rightarrow> bool option" where
  "toBool (LBool b) = Some b"
| "toBool _ = None"

fun toString :: "lvalue \<Rightarrow> string option" where
  "toString (LString s) = Some s"
| "toString _ = None"

fun toLFunction :: "lvalue \<Rightarrow> fn option" where
  "toLFunction (LFunction f) = Some f"
| "toLFunction _ = None"

fun toLTable :: "lvalue \<Rightarrow> (lvalue list \<times> (lvalue \<times> lvalue) list) option" where
  "toLTable (LTable arr dict) = Some (arr, dict)"
| "toLTable _ = None"

fun toLUserData :: "lvalue \<Rightarrow> udata option" where
  "toLUserData (LUserData u) = Some u"
| "toLUserData _ = None"

fun toFloat64 :: "lvalue \<Rightarrow> real option" where
  "toFloat64 (LNumber n) = Some n"
| "toFloat64 _ = None"

subsection \<open>The value bridge\<close>

text \<open>
  \<open>toGoValue\<close> turns a script value into a Go container: a table whose \<open>MaxN\<close> is 0
  becomes a \<open>map[string]interface{}\<close>, any other table the slice of its entries
  \<open>1..MaxN\<close>.  \<open>fmt.Sprint\<close>, which renders the keys of a map, belongs to the Go library
  and is a parameter.  The entries \<open>1..MaxN\<close> all lie in the array part, so the loop over
  \<open>RawGetInt\<close> reads the first \<open>MaxN\<close> positions of it; when \<open>MaxN\<close> is 0 the array part
  holds no non-nil entry and \<open>ForEach\<close> visits the keyed part only.
\<close>

datatype govalue =
    GoNil
  | GoBool bool
  | GoString string
  | GoFloat64 real
  | GoMap "string \<Rightarrow> govalue option"
  | GoSlice "govalue list"
  | GoOpaque lvalue

fun toGoValue :: "(govalue \<Rightarrow> string) \<Rightarrow> lvalue \<Rightarrow> govalue" where
  "toGoValue sp LNil = GoNil"
| "toGoValue sp (LBool b) = GoBool b"
| "toGoValue sp (LString s) = GoString s"
| "toGoValue sp (LNumber n) = GoFloat64 n"
| "toGoValue sp (LTable arr dict) =
     (if MaxN arr = 0 then
        GoMap (fold (\<lambda>(key, v) ret. ret(sp key \<mapsto> v))
                 (map (\<lambda>(key, v). (toGoValue sp key, toGoValue sp v))
                      (filter (\<lambda>(k, v). v \<noteq> LNil) dict)) Map.empty)
      else GoSlice (take (MaxN arr) (map (toGoValue sp) arr)))"
| "toGoValue sp v = GoOpaque v"

definition toSlice :: "(govalue \<Rightarrow> string) \<Rightarrow> lvalue \<Rightarrow> govalue list option" where
  "toSlice sp v =
     (case toGoValue sp v of
        GoSlice lv \<Rightarrow> Some lv
      | GoMap lv \<Rightarrow> (if lv = Map.empty then Some [] else None)
      | _ \<Rightarrow> None)"

text \<open>
  The loop \<open>for _, x := range slice { if s, ok := x.(string); ok { out = append(out, s) } }\<close>
  occurs, with the same body, in \<open>esshSelectHosts\<close>, in the \<open>filter\<close> method of a host
  query and in the \<open>targets\<close>, \<open>filters\<close> and \<open>args\<close> cases of \<open>updateTask\<close>.
\<close>

fun append_strings :: "string list \<Rightarrow> govalue list \<Rightarrow> string list" where
  "append_strings out [] = out"
| "append_strings out (GoString s # xs) = append_strings (out @ [s]) xs"
| "append_strings out (_ # xs) = append_strings out xs"

section \<open>Entities and registries\<close>

text \<open>
  Modelled from the spec: the struct declarations and constructors of Host, Task,
  Driver and Job are not among the sources.  The records below hold the fields of
  section 3 of the specification under the names by which the code at hand reads and
  writes them; a host, a task and a driver carry the override links \<open>Child\<close> and
  \<open>Parent\<close>, a job carries none.  The constructors give every field its Go zero value
  (maps and slices empty).

  Objects live in one arena per kind and a pointer is an index into it.  The closures
  stored in \<open>task.Prepare\<close>, \<open>job.Prepare\<close> and \<open>driver.Engine\<close> are represented by
  what they capture; \<open>runPrepare\<close> and \<open>callEngine\<close> below are their bodies.
\<close>

record host =
  Host_Name :: string
  Host_Registry :: nat
  Host_Child :: "nat option"
  Host_Parent :: "nat option"
  Host_LValues :: "string \<rightharpoonup> lvalue"
  Host_SSHConfig :: "string \<rightharpoonup> string"
  Host_Props :: "string \<rightharpoonup> string"
  Host_Tags :: "string list"
  Host_HooksBeforeConnect :: "govalue list"
  Host_HooksAfterConnect :: "govalue list"
  Host_HooksAfterDisconnect :: "govalue list"
  Host_Description :: string
  Host_Hidden :: bool

record task =
  Task_Name :: string
  Task_Registry :: nat
  Task_Child :: "nat option"
  Task_Parent :: "nat option"
  Task_LValues :: "string \<rightharpoonup> lvalue"
  Task_Backend :: string
  Task_Targets :: "string list"
  Task_Filters :: "string list"
  Task_Description :: string
  Task_Pty :: bool
  Task_Driver :: string
  Task_Parallel :: bool
  Task_Privileged :: bool
  Task_Disabled :: bool
  Task_Hidden :: bool
  Task_Script :: "(string \<rightharpoonup> string) list"
  Task_File :: string
  Task_UsePrefix :: bool
  Task_Prefix :: string
  Task_Prepare :: "fn option"
  Task_Props :: "string \<rightharpoonup> string"
  Task_Args :: "string list"

datatype engine = EngineCallback fn | EngineFixed string

record driver =
  Driver_Name :: string
  Driver_Registry :: nat
  Driver_Child :: "nat option"
  Driver_Parent :: "nat option"
  Driver_LValues :: "string \<rightharpoonup> lvalue"
  Driver_Engine :: "engine option"

record job =
  Job_Name :: string
  Job_Description :: string
  Job_Hidden :: bool
  Job_Prepare :: "fn option"
  Job_Hosts :: "string \<rightharpoonup> nat"
  Job_Tasks :: "string \<rightharpoonup> nat"
  Job_Drivers :: "string \<rightharpoonup> nat"
  Job_LValues :: "string \<rightharpoonup> lvalue"

definition NewHost :: host where
  "NewHost = \<lparr> Host_Name = [], Host_Registry = 0, Host_Child = None, Host_Parent = None,
     Host_LValues = Map.empty, Host_SSHConfig = Map.empty, Host_Props = Map.empty,
     Host_Tags = [], Host_HooksBeforeConnect = [], Host_HooksAfterConnect = [],
     Host_HooksAfterDisconnect = [], Host_Description = [], Host_Hidden = False \<rparr>"

definition NewTask :: task where
  "NewTask = \<lparr> Task_Name = [], Task_Registry = 0, Task_Child = None, Task_Parent = None,
     Task_LValues = Map.empty, Task_Backend = [], Task_Targets = [], Task_Filters = [],
     Task_Description = [], Task_Pty = False, Task_Driver = [], Task_Parallel = False,
     Task_Privileged = False, Task_Disabled = False, Task_Hidden = False, Task_Script = [],
     Task_File = [], Task_UsePrefix = False, Task_Prefix = [], Task_Prepare = None,
     Task_Props = Map.empty, Task_Args = [] \<rparr>"

definition NewDriver :: driver where
  "NewDriver = \<lparr> Driver_Name = [], Driver_Registry = 0, Driver_Child = None,
     Driver_Parent = None, Driver_LValues = Map.empty, Driver_Engine = None \<rparr>"

definition NewJob :: job where
  "NewJob = \<lparr> Job_Name = [], Job_Description = [], Job_Hidden = False, Job_Prepare = None,
     Job_Hosts = Map.empty, Job_Tasks = Map.empty, Job_Drivers = Map.empty,
     Job_LValues = Map.empty \<rparr>"

text \<open>
  The process-wide variables \<open>Hosts\<close>, \<open>Tasks\<close>, \<open>Drivers\<close>, \<open>Jobs\<close> map a name to a
  pointer; \<open>CurrentRegistry\<close> points at the registry in force.
\<close>

record world =
  hostHeap :: "host list"
  taskHeap :: "task list"
  driverHeap :: "driver list"
  jobHeap :: "job list"
  Hosts :: "string \<rightharpoonup> nat"
  Tasks :: "string \<rightharpoonup> nat"
  Drivers :: "string \<rightharpoonup> nat"
  Jobs :: "string \<rightharpoonup> nat"
  CurrentRegistry :: nat

definition init_world :: world where
  "init_world = \<lparr> hostHeap = [], taskHeap = [], driverHeap = [], jobHeap = [],
     Hosts = Map.empty, Tasks = Map.empty, Drivers = Map.empty, Jobs = Map.empty,
     CurrentRegistry = 0 \<rparr>"

subsection \<open>Registration\<close>

text \<open>
  \<open>registerHost\<close> allocates the new host \<open>h\<close>; if the name is taken by \<open>host\<close> it sets
  \<open>h.Child = host\<close> and \<open>host.Parent = h\<close>; then it stores \<open>h\<close> under the name.  The
  result is the new pointer and the new world.  (The line printed under the debug flag
  is left out.)  \<open>registerTask\<close> and \<open>registerDriver\<close> are the same code on their own
  types; \<open>registerJob\<close> only allocates and stores.
\<close>

definition registerHost :: "string \<Rightarrow> world \<Rightarrow> nat \<times> world" where
  "registerHost name w =
     (let p = length (hostHeap w);
          h = NewHost\<lparr> Host_Name := name, Host_Registry := CurrentRegistry w \<rparr>;
          heap = (case Hosts w name of
                    Some host \<Rightarrow>
                      ((hostHeap w)[host := (hostHeap w ! host)\<lparr> Host_Parent := Some p \<rparr>])
                        @ [h\<lparr> Host_Child := Some host \<rparr>]
                  | None \<Rightarrow> hostHeap w @ [h])
      in (p, w\<lparr> hostHeap := heap, Hosts := (Hosts w)(name \<mapsto> p) \<rparr>))"

definition registerTask :: "string \<Rightarrow> world \<Rightarrow> nat \<times> world" where
  "registerTask name w =
     (let p = length (taskHeap w);
          t = NewTask\<lparr> Task_Name := name, Task_Registry := CurrentRegistry w \<rparr>;
          heap = (case Tasks w name of
                    Some task \<Rightarrow>
                      ((taskHeap w)[task := (taskHeap w ! task)\<lparr> Task_Parent := Some p \<rparr>])
                        @ [t\<lparr> Task_Child := Some task \<rparr>]
                  | None \<Rightarrow> taskHeap w @ [t])
      in (p, w\<lparr> taskHeap := heap, Tasks := (Tasks w)(name \<mapsto> p) \<rparr>))"

definition registerDriver :: "string \<Rightarrow> world \<Rightarrow> nat \<times> world" where
  "registerDriver name w =
     (let p = length (driverHeap w);
          d = NewDriver\<lparr> Driver_Name := name, Driver_Registry := CurrentRegistry w \<rparr>;
          heap = (case Drivers w name of
                    Some driver \<Rightarrow>
                      ((driverHeap w)[driver := (driverHeap w ! driver)\<lparr> Driver_Parent := Some p \<rparr>])
                        @ [d\<lparr> Driver_Child := Some driver \<rparr>]
                  | None \<Rightarrow> driverHeap w @ [d])
      in (p, w\<lparr> driverHeap := heap, Drivers := (Drivers w)(name \<mapsto> p) \<rparr>))"

definition registerJob :: "string \<Rightarrow> world \<Rightarrow> nat \<times> world" where
  "registerJob name w =
     (let p = length (jobHeap w);
          j = NewJob\<lparr> Job_Name := name \<rparr>
      in (p, w\<lparr> jobHeap := jobHeap w @ [j], Jobs := (Jobs w)(name \<mapsto> p) \<rparr>))"

text \<open>
  The four kinds side by side: registration, lookup by name, and the override link of an
  instance (its \<open>Child\<close> field).  A job has no such field.
\<close>

datatype kind = KHost | KTask | KDriver | KJob

fun register :: "kind \<Rightarrow> string \<Rightarrow> world \<Rightarrow> nat \<times> world" where
  "register KHost = registerHost"
| "register KTask = registerTask"
| "register KDriver = registerDriver"
| "register KJob = registerJob"

fun lookup :: "kind \<Rightarrow> world \<Rightarrow> string \<Rightarrow> nat option" where
  "lookup KHost w = Hosts w"
| "lookup KTask w = Tasks w"
| "lookup KDriver w = Drivers w"
| "lookup KJob w = Jobs w"

fun allocated :: "kind \<Rightarrow> world \<Rightarrow> nat" where
  "allocated KHost w = length (hostHeap w)"
| "allocated KTask w = length (taskHeap w)"
| "allocated KDriver w = length (driverHeap w)"
| "allocated KJob w = length (jobHeap w)"

fun override_predecessor :: "kind \<Rightarrow> world \<Rightarrow> nat \<Rightarrow> nat option" where
  "override_predecessor KHost w p = Host_Child (hostHeap w ! p)"
| "override_predecessor KTask w p = Task_Child (taskHeap w ! p)"
| "override_predecessor KDriver w p = Driver_Child (driverHeap w ! p)"
| "override_predecessor KJob w p = None"

text \<open>Every pointer stored in a registry points into its arena.\<close>

definition registry_ok :: "kind \<Rightarrow> world \<Rightarrow> bool" where
  "registry_ok k w = (\<forall>n p. lookup k w n = Some p \<longrightarrow> p < allocated k w)"

fun name_of :: "kind \<Rightarrow> world \<Rightarrow> nat \<Rightarrow> string" where
  "name_of KHost w p = Host_Name (hostHeap w ! p)"
| "name_of KTask w p = Task_Name (taskHeap w ! p)"
| "name_of KDriver w p = Driver_Name (driverHeap w ! p)"
| "name_of KJob w p = Job_Name (jobHeap w ! p)"

section \<open>Outcomes and the interpreter interface\<close>

text \<open>
  A computation that calls back into the script may not return.  Its outcome is \<open>None\<close>
  when the recursion bound given to it is used up, \<open>Some (Inl e)\<close> when it fails with
  \<open>e\<close>, and \<open>Some (Inr x)\<close> when it returns \<open>x\<close>.
\<close>

type_synonym 'a outcome = "(error + 'a) option"

definition ok :: "'a \<Rightarrow> 'a outcome" where
  "ok x = Some (Inr x)"

definition fail :: "error \<Rightarrow> 'a outcome" where
  "fail e = Some (Inl e)"

fun bindR :: "'a outcome \<Rightarrow> ('a \<Rightarrow> 'b outcome) \<Rightarrow> 'b outcome" where
  "bindR None f = None"
| "bindR (Some (Inl e)) f = Some (Inl e)"
| "bindR (Some (Inr x)) f = f x"

text \<open>A callback applied to each visited entry in turn, stopping at the first failure.\<close>

fun forEachR :: "'e list \<Rightarrow> ('e \<Rightarrow> 'a \<Rightarrow> 'a outcome) \<Rightarrow> 'a \<Rightarrow> 'a outcome" where
  "forEachR [] f a = ok a"
| "forEachR (e # es) f a = bindR (f e a) (forEachR es f)"

text \<open>
  What the code uses of the interpreter state \<open>L\<close> and of the Go library, as parameters:
  \<open>CallByParam\<close> runs a function value on arguments in the interpreter state \<open>'s\<close> and
  yields its single result or its failure; \<open>Sprint\<close> is \<open>fmt.Sprint\<close> on a bridged
  value; \<open>Format\<close> is the \<open>%v\<close> rendering of a script value; \<open>IsUpper\<close> tells whether the
  first rune of a key is an upper-case letter (\<open>unicode.IsUpper\<close>).  A callback acts on
  the interpreter state only: it does not re-enter the declaration functions while one
  of them is running.
\<close>

record 's lstate =
  CallByParam :: "fn \<Rightarrow> lvalue list \<Rightarrow> 's \<Rightarrow> error + (lvalue \<times> 's)"
  Sprint :: "govalue \<Rightarrow> string"
  Format :: "lvalue \<Rightarrow> string"
  IsUpper :: "string \<Rightarrow> bool"

text \<open>
  Constants and variables of the package that are declared outside the sources at
  hand: the default names and the default driver are parameters.

  Modelled from the spec: the constants \<open>TASK_BACKEND_LOCAL\<close> and
  \<open>TASK_BACKEND_REMOTE\<close> are not among the sources; the specification names the two
  backends \<open>local\<close> and \<open>remote\<close>.
\<close>

record defaults =
  DefaultTaskName :: string
  DefaultDriverName :: string
  DefaultDriver :: nat

definition TASK_BACKEND_LOCAL :: string where
  "TASK_BACKEND_LOCAL = ''local''"

definition TASK_BACKEND_REMOTE :: string where
  "TASK_BACKEND_REMOTE = ''remote''"

section \<open>The script normalizer\<close>

type_synonym segment = "string \<rightharpoonup> string"

text \<open>The callback that \<open>toScript\<close> passes to \<open>ForEach\<close> on a table without array part.\<close>

definition script_value :: "lvalue \<Rightarrow> string option" where
  "script_value v =
     (case toString v of
        Some vs \<Rightarrow> Some vs
      | None \<Rightarrow> (case toBool v of
                   None \<Rightarrow> None
                 | Some vb \<Rightarrow> Some (if vb then ''true'' else ''false'')))"

fun script_entries :: "(lvalue \<times> lvalue) list \<Rightarrow> segment \<Rightarrow> error + segment" where
  "script_entries [] m = Inr m"
| "script_entries ((k, v) # kvs) m =
     (case script_value v of
        None \<Rightarrow> Inl (Panic ''if a 'script' entry is table, it's value has to be string or bool.'')
      | Some vs \<Rightarrow>
          (case toString k of
             None \<Rightarrow> Inl (Panic ''if a 'script' entry is table, it's property has to be string.'')
           | Some ks \<Rightarrow> script_entries kvs (m(ks \<mapsto> vs))))"

text \<open>
  The loop over the array part.  \<open>rec\<close> is the recursive call of \<open>toScript\<close>; the list
  holds \<open>RawGetInt(1)\<close>, ..., \<open>RawGetInt(maxn)\<close>.
\<close>

fun script_array ::
  "(lvalue \<Rightarrow> 's \<Rightarrow> (segment list \<times> 's) outcome) \<Rightarrow> 's lstate \<Rightarrow> lvalue list \<Rightarrow>
     segment list \<Rightarrow> 's \<Rightarrow> (segment list \<times> 's) outcome" where
  "script_array rec L [] ret s = ok (ret, s)"
| "script_array rec L (v # rest) ret s =
     (case toLFunction v of
        Some fn \<Rightarrow>
          (case CallByParam L fn [] s of
             Inl err \<Rightarrow> fail err
           | Inr (funcRet, s') \<Rightarrow>
               bindR (rec funcRet s') (\<lambda>(script, s''). script_array rec L rest (ret @ script) s''))
      | None \<Rightarrow>
          bindR (rec v s) (\<lambda>(script, s''). script_array rec L rest (ret @ script) s''))"

primrec toScript :: "nat \<Rightarrow> 's lstate \<Rightarrow> lvalue \<Rightarrow> 's \<Rightarrow> (segment list \<times> 's) outcome" where
  "toScript 0 L v s = None"
| "toScript (Suc n) L v s =
     (case toLTable v of
        Some (arr, dict) \<Rightarrow>
          (if MaxN arr = 0 then
             (if RawGetString dict ''code'' = LNil
              then fail (Errorf ''if a 'script' entry is table, it has to have 'code' property.'')
              else (case script_entries (ForEach arr dict) Map.empty of
                      Inl e \<Rightarrow> fail e
                    | Inr m \<Rightarrow> ok ([m], s)))
           else script_array (toScript n L) L
                  (map (RawGetInt arr) [1 ..< Suc (MaxN arr)]) [] s)
      | None \<Rightarrow>
          (case toString v of
             Some str \<Rightarrow> ok ([[''code'' \<mapsto> str]], s)
           | None \<Rightarrow> fail (Errorf (q @ ''script'' @ q @ '' got a invalid value.''))))"

section \<open>Field updaters\<close>

text \<open>The \<open>props\<close> loop shared by \<open>updateHost\<close> and \<open>updateTask\<close>.\<close>

fun props_entries ::
  "'s lstate \<Rightarrow> (lvalue \<times> lvalue) list \<Rightarrow> (string \<rightharpoonup> string) \<Rightarrow> error + (string \<rightharpoonup> string)" where
  "props_entries L [] m = Inr m"
| "props_entries L ((propsKey, propsValue) # kvs) m =
     (case toString propsKey of
        None \<Rightarrow> Inl (RaiseError (''props table's key must be a string: '' @ Format L propsKey))
      | Some propsKeyStr \<Rightarrow>
          (case toString propsValue of
             None \<Rightarrow> Inl (RaiseError (''props table's value must be a string: '' @ Format L propsValue))
           | Some propsValueStr \<Rightarrow> props_entries L kvs (m(propsKeyStr \<mapsto> propsValueStr))))"

definition invalid_task_field :: "string \<Rightarrow> error" where
  "invalid_task_field key = Panic (''invalid value of a task's field '' @ q @ key @ q @ ''.'')"

definition unsupported_task_field :: "string \<Rightarrow> error" where
  "unsupported_task_field key = Panic (''unsupported task's field '' @ q @ key @ q @ ''.'')"

definition script_and_file :: error where
  "script_and_file = RaiseError
     (''invalid task definition: can't use 'script_file' and 'script' at the same time.'')"

text \<open>
  The \<open>props\<close> loop of \<open>updateTask\<close> writes into the map of the task itself: when it
  raises, the entries before the failing one have been written.
\<close>

fun props_written :: "(lvalue \<times> lvalue) list \<Rightarrow> (string \<rightharpoonup> string) \<Rightarrow> (string \<rightharpoonup> string)" where
  "props_written [] m = m"
| "props_written ((propsKey, propsValue) # kvs) m =
     (case toString propsKey of
        None \<Rightarrow> m
      | Some propsKeyStr \<Rightarrow>
          (case toString propsValue of
             None \<Rightarrow> m
           | Some propsValueStr \<Rightarrow> props_written kvs (m(propsKeyStr \<mapsto> propsValueStr))))"

text \<open>
  \<open>updateTask\<close> works on the task object in place: it first records the raw value under
  the key, then dispatches on the key.  \<open>updateTask_in_place\<close> gives the task as the call
  leaves it, together with the way the call ends: it returns, it raises, or the
  normalizer runs out of fuel.  What has been assigned before a raise stays assigned:
  \<open>backend\<close>, \<open>script\<close> and \<open>script_file\<close> are assigned before they are checked.
\<close>

definition updateTask_in_place ::
  "nat \<Rightarrow> 's lstate \<Rightarrow> string \<Rightarrow> lvalue \<Rightarrow> task \<times> 's \<Rightarrow> task \<times> 's outcome" where
  "updateTask_in_place n L key v ts =
     (let task = (fst ts)\<lparr> Task_LValues := (Task_LValues (fst ts))(key \<mapsto> v) \<rparr>; s = snd ts in
      if key = ''backend'' then
        (case toString v of
           Some backendStr \<Rightarrow>
             (let task' = task\<lparr> Task_Backend := backendStr \<rparr> in
              if backendStr \<noteq> TASK_BACKEND_LOCAL \<and> backendStr \<noteq> TASK_BACKEND_REMOTE
              then (task', fail (RaiseError (''backend must be '' @ q @ TASK_BACKEND_LOCAL @ q @ '' or ''
                                              @ q @ TASK_BACKEND_REMOTE @ q @ ''.'')))
              else (task', ok s))
         | None \<Rightarrow> (task, ok s))
      else if key = ''targets'' then
        (case toString v of
           Some targetsStr \<Rightarrow> (task\<lparr> Task_Targets := [targetsStr] \<rparr>, ok s)
         | None \<Rightarrow>
             (case toSlice (Sprint L) v of
                Some targetsSlice \<Rightarrow> (task\<lparr> Task_Targets := append_strings [] targetsSlice \<rparr>, ok s)
              | None \<Rightarrow> (task, fail (invalid_task_field key))))
      else if key = ''filters'' then
        (case toString v of
           Some filtersStr \<Rightarrow> (task\<lparr> Task_Filters := [filtersStr] \<rparr>, ok s)
         | None \<Rightarrow>
             (case toSlice (Sprint L) v of
                Some filtersSlice \<Rightarrow> (task\<lparr> Task_Filters := append_strings [] filtersSlice \<rparr>, ok s)
              | None \<Rightarrow> (task, fail (invalid_task_field key))))
      else if key = ''description'' then
        (case toString v of
           Some descStr \<Rightarrow> (task\<lparr> Task_Description := descStr \<rparr>, ok s)
         | None \<Rightarrow> (task, fail (invalid_task_field key)))
      else if key = ''pty'' then
        (case toBool v of
           Some ptyBool \<Rightarrow> (task\<lparr> Task_Pty := ptyBool \<rparr>, ok s)
         | None \<Rightarrow> (task, fail (invalid_task_field key)))
      else if key = ''driver'' then
        (case toString v of
           Some driverStr \<Rightarrow> (task\<lparr> Task_Driver := driverStr \<rparr>, ok s)
         | None \<Rightarrow> (task, fail (invalid_task_field key)))
      else if key = ''parallel'' then
        (case toBool v of
           Some parallelBool \<Rightarrow> (task\<lparr> Task_Parallel := parallelBool \<rparr>, ok s)
         | None \<Rightarrow> (task, fail (invalid_task_field key)))
      else if key = ''privileged'' then
        (case toBool v of
           Some privilegedBool \<Rightarrow> (task\<lparr> Task_Privileged := privilegedBool \<rparr>, ok s)
         | None \<Rightarrow> (task, fail (invalid_task_field key)))
      else if key = ''disabled'' then
        (case toBool v of
           Some disabledBool \<Rightarrow> (task\<lparr> Task_Disabled := disabledBool \<rparr>, ok s)
         | None \<Rightarrow> (task, fail (invalid_task_field key)))
      else if key = ''hidden'' then
        (case toBool v of
           Some hiddenBool \<Rightarrow> (task\<lparr> Task_Hidden := hiddenBool \<rparr>, ok s)
         | None \<Rightarrow> (task, fail (invalid_task_field key)))
      else if key = ''script'' then
        (case toScript n L v s of
           None \<Rightarrow> (task, None)
         | Some (Inl (Errorf m)) \<Rightarrow> (task, fail (RaiseError m))
         | Some (Inl e) \<Rightarrow> (task, fail e)
         | Some (Inr (script, s')) \<Rightarrow>
             (let task' = task\<lparr> Task_Script := script \<rparr> in
              if Task_File task' \<noteq> [] \<and> length (Task_Script task') > 0
              then (task', fail script_and_file)
              else (task', ok s')))
      else if key = ''script_file'' then
        (case toString v of
           Some fileStr \<Rightarrow>
             (let task' = task\<lparr> Task_File := fileStr \<rparr> in
              if Task_File task' \<noteq> [] \<and> length (Task_Script task') > 0
              then (task', fail script_and_file)
              else (task', ok s))
         | None \<Rightarrow> (task, fail (invalid_task_field key)))
      else if key = ''prefix'' then
        (case toBool v of
           Some prefixBool \<Rightarrow> (task\<lparr> Task_UsePrefix := prefixBool \<rparr>, ok s)
         | None \<Rightarrow>
             (case toString v of
                Some prefixStr \<Rightarrow> (task\<lparr> Task_UsePrefix := True, Task_Prefix := prefixStr \<rparr>, ok s)
              | None \<Rightarrow> (task, fail (invalid_task_field key))))
      else if key = ''prepare'' then
        (case toLFunction v of
           Some prepareFn \<Rightarrow> (task\<lparr> Task_Prepare := Some prepareFn \<rparr>, ok s)
         | None \<Rightarrow> (task, fail (RaiseError ''prepare have to be a function.'')))
      else if key = ''props'' then
        (case toLTable v of
           Some (arr, dict) \<Rightarrow>
             (case props_entries L (ForEach arr dict) Map.empty of
                Inl e \<Rightarrow> (task\<lparr> Task_Props := props_written (ForEach arr dict) Map.empty \<rparr>, fail e)
              | Inr props \<Rightarrow> (task\<lparr> Task_Props := props \<rparr>, ok s))
         | None \<Rightarrow> (task, fail (invalid_task_field key)))
      else if key = ''args'' then
        (case toSlice (Sprint L) v of
           Some argsSlice \<Rightarrow> (task\<lparr> Task_Args := append_strings [] argsSlice \<rparr>, ok s)
         | None \<Rightarrow> (task, fail (invalid_task_field key)))
      else (task, fail (unsupported_task_field key)))"

text \<open>
  \<open>updateTask\<close> as its caller sees it when the load goes on: the task and the state of
  the interpreter if the call returns, the error alone if it raises.
\<close>

definition caller_view :: "task \<times> 's outcome \<Rightarrow> (task \<times> 's) outcome" where
  "caller_view p = (case p of (task, r) \<Rightarrow> bindR r (\<lambda>s. ok (task, s)))"

definition updateTask ::
  "nat \<Rightarrow> 's lstate \<Rightarrow> string \<Rightarrow> lvalue \<Rightarrow> task \<times> 's \<Rightarrow> (task \<times> 's) outcome" where
  "updateTask n L key v ts = caller_view (updateTask_in_place n L key v ts)"

text \<open>\<open>setupTask\<close>: every entry of the table whose key is a string, in \<open>ForEach\<close> order.\<close>

definition setupTask_entry ::
  "nat \<Rightarrow> 's lstate \<Rightarrow> lvalue \<times> lvalue \<Rightarrow> task \<times> 's \<Rightarrow> (task \<times> 's) outcome" where
  "setupTask_entry n L kv ts =
     (case toString (fst kv) of
        Some kstr \<Rightarrow> updateTask n L kstr (snd kv) ts
      | None \<Rightarrow> ok ts)"

definition setupTask ::
  "nat \<Rightarrow> 's lstate \<Rightarrow> lvalue list \<times> (lvalue \<times> lvalue) list \<Rightarrow> task \<times> 's \<Rightarrow> (task \<times> 's) outcome" where
  "setupTask n L config ts =
     forEachR (ForEach (fst config) (snd config)) (setupTask_entry n L) ts"

text \<open>The body of the closure kept in \<open>task.Prepare\<close>, run with the task's pointer.\<close>

definition runPrepare :: "'s lstate \<Rightarrow> fn \<Rightarrow> udata \<Rightarrow> 's \<Rightarrow> error + 's" where
  "runPrepare L prepareFn self s =
     (case CallByParam L prepareFn [LUserData self] s of
        Inl err \<Rightarrow> Inl err
      | Inr (ret, s') \<Rightarrow>
          (if ret = LNil then Inr s'
           else case ret of
                  LBool retB \<Rightarrow>
                    (if retB then Inr s'
                     else Inl (Errorf ''returned false from the prepare function.''))
                | _ \<Rightarrow> Inr s'))"

subsection \<open>Drivers\<close>

text \<open>
  \<open>updateDriver\<close> records the raw value and has a single case, \<open>engine\<close>; its \<open>switch\<close>
  has no default branch.  \<open>callEngine\<close> is the body of the closure stored in
  \<open>driver.Engine\<close>, applied to the pointer of the driver being resolved.
\<close>

definition updateDriver :: "string \<Rightarrow> lvalue \<Rightarrow> driver \<Rightarrow> error + driver" where
  "updateDriver key v d =
     (let driver = d\<lparr> Driver_LValues := (Driver_LValues d)(key \<mapsto> v) \<rparr> in
      if key = ''engine'' then
        (case toLFunction v of
           Some engineFn \<Rightarrow> Inr (driver\<lparr> Driver_Engine := Some (EngineCallback engineFn) \<rparr>)
         | None \<Rightarrow>
             (case toString v of
                Some engineStr \<Rightarrow> Inr (driver\<lparr> Driver_Engine := Some (EngineFixed engineStr) \<rparr>)
              | None \<Rightarrow> Inl (RaiseError (''driver 'engine' have to be a function or string.''))))
      else Inr driver)"

fun callEngine :: "'s lstate \<Rightarrow> engine \<Rightarrow> nat \<Rightarrow> 's \<Rightarrow> error + (string \<times> 's)" where
  "callEngine L (EngineCallback engineFn) driver s =
     (case CallByParam L engineFn [LUserData (UDriver driver)] s of
        Inl err \<Rightarrow> Inl err
      | Inr (ret, s') \<Rightarrow>
          (case toString ret of
             Some retStr \<Rightarrow> Inr (retStr, s')
           | None \<Rightarrow> Inl (Errorf ''driver engine has to return a string.'')))"
| "callEngine L (EngineFixed engineStr) driver s = Inr (engineStr, s)"

definition setupDriver ::
  "lvalue list \<times> (lvalue \<times> lvalue) list \<Rightarrow> driver \<Rightarrow> error + driver" where
  "setupDriver config d =
     fold (\<lambda>(k, v) r. case r of
                         Inl e \<Rightarrow> Inl e
                       | Inr d' \<Rightarrow> (case toString k of
                                      Some kstr \<Rightarrow> updateDriver kstr v d'
                                    | None \<Rightarrow> Inr d'))
          (ForEach (fst config) (snd config)) (Inr d)"

subsection \<open>Hosts\<close>

fun tags_entries :: "(lvalue \<times> lvalue) list \<Rightarrow> string list \<Rightarrow> error + string list" where
  "tags_entries [] tags = Inr tags"
| "tags_entries ((k, v) # kvs) tags =
     (case toString v of
        Some vs \<Rightarrow> tags_entries kvs (tags @ [vs])
      | None \<Rightarrow> Inl (RaiseError ''unsupported format of tags.''))"

definition hooks_of :: "'s lstate \<Rightarrow> lvalue list \<Rightarrow> govalue list" where
  "hooks_of L arr =
     map (\<lambda>i. toGoValue (Sprint L) (RawGetInt arr i)) [1 ..< Suc (MaxN arr)]"

definition invalid_host_field :: "string \<Rightarrow> error" where
  "invalid_host_field key = Panic (''invalid value of a host's field '' @ q @ key @ q @ ''.'')"

definition unsupported_host_field :: "string \<Rightarrow> error" where
  "unsupported_host_field key = Panic (''unsupported host's field '' @ q @ key @ q @ ''.'')"

definition updateHost :: "'s lstate \<Rightarrow> string \<Rightarrow> lvalue \<Rightarrow> host \<Rightarrow> error + host" where
  "updateHost L key v h0 =
     (let h = h0\<lparr> Host_LValues := (Host_LValues h0)(key \<mapsto> v) \<rparr> in
      if IsUpper L key then
        (case toString v of
           Some valuestr \<Rightarrow> Inr (h\<lparr> Host_SSHConfig := (Host_SSHConfig h)(key \<mapsto> valuestr) \<rparr>)
         | None \<Rightarrow> Inl (Panic ''SSH property must be string''))
      else if key = ''props'' then
        (case toLTable v of
           Some (arr, dict) \<Rightarrow>
             (case props_entries L (ForEach arr dict) Map.empty of
                Inl e \<Rightarrow> Inl e
              | Inr props \<Rightarrow> Inr (h\<lparr> Host_Props := props \<rparr>))
         | None \<Rightarrow> Inl (invalid_host_field key))
      else if key = ''hooks_before_connect'' then
        (case toLTable v of
           Some (arr, dict) \<Rightarrow> Inr (h\<lparr> Host_HooksBeforeConnect := hooks_of L arr \<rparr>)
         | None \<Rightarrow> Inl (invalid_host_field key))
      else if key = ''hooks_after_connect'' then
        (case toLTable v of
           Some (arr, dict) \<Rightarrow> Inr (h\<lparr> Host_HooksAfterConnect := hooks_of L arr \<rparr>)
         | None \<Rightarrow> Inl (invalid_host_field key))
      else if key = ''hooks_after_disconnect'' then
        (case toLTable v of
           Some (arr, dict) \<Rightarrow> Inr (h\<lparr> Host_HooksAfterDisconnect := hooks_of L arr \<rparr>)
         | None \<Rightarrow> Inl (invalid_host_field key))
      else if key = ''description'' then
        (case toString v of
           Some descStr \<Rightarrow> Inr (h\<lparr> Host_Description := descStr \<rparr>)
         | None \<Rightarrow> Inl (invalid_host_field key))
      else if key = ''hidden'' then
        (case toBool v of
           Some hiddenBool \<Rightarrow> Inr (h\<lparr> Host_Hidden := hiddenBool \<rparr>)
         | None \<Rightarrow> Inl (invalid_host_field key))
      else if key = ''tags'' then
        (case toLTable v of
           Some (arr, dict) \<Rightarrow>
             (case tags_entries (ForEach arr dict) [] of
                Inl e \<Rightarrow> Inl e
              | Inr tags \<Rightarrow> Inr (h\<lparr> Host_Tags := tags \<rparr>))
         | None \<Rightarrow> Inl (invalid_host_field key))
      else Inl (unsupported_host_field key))"

definition setupHost ::
  "'s lstate \<Rightarrow> lvalue list \<times> (lvalue \<times> lvalue) list \<Rightarrow> host \<Rightarrow> error + host" where
  "setupHost L config h =
     fold (\<lambda>(k, v) r. case r of
                         Inl e \<Rightarrow> Inl e
                       | Inr h' \<Rightarrow> (case toString k of
                                      Some kstr \<Rightarrow> updateHost L kstr v h'
                                    | None \<Rightarrow> Inr h'))
          (ForEach (fst config) (snd config)) (Inr h)"

subsection \<open>Jobs\<close>

text \<open>
  Modelled from the spec: the methods \<open>RegisterHost\<close>, \<open>RegisterTask\<close> and
  \<open>RegisterDriver\<close> of a job are not among the sources; they enter the entity, by its
  name, into the job's matching sub-registry.
\<close>

definition Job_RegisterHost :: "string \<Rightarrow> nat \<Rightarrow> job \<Rightarrow> job" where
  "Job_RegisterHost name p j = j\<lparr> Job_Hosts := (Job_Hosts j)(name \<mapsto> p) \<rparr>"

definition Job_RegisterTask :: "string \<Rightarrow> nat \<Rightarrow> job \<Rightarrow> job" where
  "Job_RegisterTask name p j = j\<lparr> Job_Tasks := (Job_Tasks j)(name \<mapsto> p) \<rparr>"

definition Job_RegisterDriver :: "string \<Rightarrow> nat \<Rightarrow> job \<Rightarrow> job" where
  "Job_RegisterDriver name p j = j\<lparr> Job_Drivers := (Job_Drivers j)(name \<mapsto> p) \<rparr>"

text \<open>
  \<open>updateJob\<close> works on the job behind a pointer and, in its \<open>hosts\<close>, \<open>tasks\<close> and
  \<open>drivers\<close> cases, on the global registries as well: every entry of the map is
  registered as at top level, set up, and entered into the job's own map.
\<close>

definition expected_table :: "'s lstate \<Rightarrow> lvalue \<Rightarrow> error" where
  "expected_table L v = Panic (''expected table but got '' @ q @ Format L v @ q @ [CHR 0x0A])"

definition job_hosts_entry ::
  "'s lstate \<Rightarrow> lvalue \<times> lvalue \<Rightarrow> job \<times> world \<times> 's \<Rightarrow> (job \<times> world \<times> 's) outcome" where
  "job_hosts_entry L kv jws =
     (case toString (fst kv) of
        None \<Rightarrow> fail (Panic (''expected string of host's name but got '' @ q @ Format L (fst kv) @ q @ [CHR 0x0A]))
      | Some name \<Rightarrow>
          (case toLTable (snd kv) of
             None \<Rightarrow> fail (Panic (''expected table of host's config but got '' @ q @ Format L (snd kv) @ q @ [CHR 0x0A]))
           | Some config \<Rightarrow>
               (case jws of (j, w, s) \<Rightarrow>
                  (case registerHost name w of (p, w1) \<Rightarrow>
                     (case setupHost L config (hostHeap w1 ! p) of
                        Inl e \<Rightarrow> fail e
                      | Inr h \<Rightarrow>
                          ok (Job_RegisterHost name p j,
                              w1\<lparr> hostHeap := (hostHeap w1)[p := h] \<rparr>, s))))))"

definition job_tasks_entry ::
  "nat \<Rightarrow> 's lstate \<Rightarrow> lvalue \<times> lvalue \<Rightarrow> job \<times> world \<times> 's \<Rightarrow> (job \<times> world \<times> 's) outcome" where
  "job_tasks_entry n L kv jws =
     (case toString (fst kv) of
        None \<Rightarrow> fail (Panic (''expected string of task's name but got '' @ q @ Format L (fst kv) @ q @ [CHR 0x0A]))
      | Some name \<Rightarrow>
          (case toLTable (snd kv) of
             None \<Rightarrow> fail (Panic (''expected table of task's config but got '' @ q @ Format L (snd kv) @ q @ [CHR 0x0A]))
           | Some config \<Rightarrow>
               (case jws of (j, w, s) \<Rightarrow>
                  (case registerTask name w of (p, w1) \<Rightarrow>
                     bindR (setupTask n L config (taskHeap w1 ! p, s))
                       (\<lambda>(t, s'). ok (Job_RegisterTask name p j,
                                       w1\<lparr> taskHeap := (taskHeap w1)[p := t] \<rparr>, s'))))))"

definition job_drivers_entry ::
  "'s lstate \<Rightarrow> lvalue \<times> lvalue \<Rightarrow> job \<times> world \<times> 's \<Rightarrow> (job \<times> world \<times> 's) outcome" where
  "job_drivers_entry L kv jws =
     (case toString (fst kv) of
        None \<Rightarrow> fail (Panic (''expected string of driver's name but got '' @ q @ Format L (fst kv) @ q @ [CHR 0x0A]))
      | Some name \<Rightarrow>
          (case toLTable (snd kv) of
             None \<Rightarrow> fail (Panic (''expected table of driver's config but got '' @ q @ Format L (snd kv) @ q @ [CHR 0x0A]))
           | Some config \<Rightarrow>
               (case jws of (j, w, s) \<Rightarrow>
                  (case registerDriver name w of (p, w1) \<Rightarrow>
                     (case setupDriver config (driverHeap w1 ! p) of
                        Inl e \<Rightarrow> fail e
                      | Inr d \<Rightarrow>
                          ok (Job_RegisterDriver name p j,
                              w1\<lparr> driverHeap := (driverHeap w1)[p := d] \<rparr>, s))))))"

definition invalid_job_field :: "string \<Rightarrow> error" where
  "invalid_job_field key = Panic (''invalid value of a job's field '' @ q @ key @ q @ ''.'')"

definition unsupported_job_field :: "string \<Rightarrow> error" where
  "unsupported_job_field key = Panic (''unsupported job's field '' @ q @ key @ q @ ''.'')"

definition updateJob ::
  "nat \<Rightarrow> 's lstate \<Rightarrow> defaults \<Rightarrow> string \<Rightarrow> lvalue \<Rightarrow> job \<times> world \<times> 's \<Rightarrow>
     (job \<times> world \<times> 's) outcome" where
  "updateJob n L D key v jws =
     (case jws of (j0, w, s) \<Rightarrow>
      let job = j0\<lparr> Job_LValues := (Job_LValues j0)(key \<mapsto> v) \<rparr> in
      if key = ''description'' then
        (case toString v of
           Some descStr \<Rightarrow> ok (job\<lparr> Job_Description := descStr \<rparr>, w, s)
         | None \<Rightarrow> fail (invalid_job_field key))
      else if key = ''hidden'' then
        (case toBool v of
           Some hiddenBool \<Rightarrow> ok (job\<lparr> Job_Hidden := hiddenBool \<rparr>, w, s)
         | None \<Rightarrow> fail (invalid_job_field key))
      else if key = ''prepare'' then
        (case toLFunction v of
           Some prepareFn \<Rightarrow> ok (job\<lparr> Job_Prepare := Some prepareFn \<rparr>, w, s)
         | None \<Rightarrow> fail (RaiseError ''prepare have to be a function.''))
      else if key = ''hosts'' then
        (case toLTable v of
           Some (arr, dict) \<Rightarrow>
             forEachR (ForEach arr dict) (job_hosts_entry L)
               (job\<lparr> Job_Hosts := Map.empty \<rparr>, w, s)
         | None \<Rightarrow> fail (expected_table L v))
      else if key = ''tasks'' then
        (case toLTable v of
           Some (arr, dict) \<Rightarrow>
             forEachR (ForEach arr dict) (job_tasks_entry n L)
               (job\<lparr> Job_Tasks := Map.empty \<rparr>, w, s)
         | None \<Rightarrow> fail (expected_table L v))
      else if key = ''drivers'' then
        (case toLTable v of
           Some (arr, dict) \<Rightarrow>
             forEachR (ForEach arr dict) (job_drivers_entry L)
               (job\<lparr> Job_Drivers := [DefaultDriverName D \<mapsto> DefaultDriver D] \<rparr>, w, s)
         | None \<Rightarrow> fail (expected_table L v))
      else fail (unsupported_job_field key))"

section \<open>Declaring a task\<close>

text \<open>
  A Go function called from the script finds its arguments on the stack: \<open>L.GetTop()\<close>
  is their number.  \<open>CheckAny\<close>, \<open>CheckString\<close> and \<open>CheckTable\<close> raise an argument error
  when the argument is missing or has another type; \<open>CheckString\<close> also accepts a
  number, which it renders as a string.
\<close>

definition CheckAny :: "lvalue list \<Rightarrow> nat \<Rightarrow> error + lvalue" where
  "CheckAny args i =
     (if 1 \<le> i \<and> i \<le> length args then Inr (args ! (i - 1))
      else Inl (RaiseError ''bad argument (value expected)''))"

definition CheckString :: "'s lstate \<Rightarrow> lvalue list \<Rightarrow> nat \<Rightarrow> error + string" where
  "CheckString L args i =
     (if 1 \<le> i \<and> i \<le> length args then
        (case args ! (i - 1) of
           LString str \<Rightarrow> Inr str
         | LNumber x \<Rightarrow> Inr (Format L (LNumber x))
         | _ \<Rightarrow> Inl (RaiseError ''bad argument (string expected)''))
      else Inl (RaiseError ''bad argument (string expected)''))"

definition CheckTable :: "lvalue list \<Rightarrow> nat \<Rightarrow> error + lvalue list \<times> (lvalue \<times> lvalue) list" where
  "CheckTable args i =
     (if 1 \<le> i \<and> i \<le> length args then
        (case toLTable (args ! (i - 1)) of
           Some tb \<Rightarrow> Inr tb
         | None \<Rightarrow> Inl (RaiseError ''bad argument (table expected)''))
      else Inl (RaiseError ''bad argument (table expected)''))"

text \<open>
  \<open>registerTask\<close> followed by \<open>setupTask\<close> on the task just allocated, as \<open>esshTask\<close>
  does in its first and third branch.  The result is the userdata that wraps the task.
\<close>

definition register_and_setup ::
  "nat \<Rightarrow> 's lstate \<Rightarrow> string \<Rightarrow> lvalue list \<times> (lvalue \<times> lvalue) list \<Rightarrow> world \<times> 's \<Rightarrow>
     (lvalue \<times> world \<times> 's) outcome" where
  "register_and_setup n L name tb ws =
     (case registerTask name (fst ws) of (p, w1) \<Rightarrow>
        bindR (setupTask n L tb (taskHeap w1 ! p, snd ws))
          (\<lambda>(t, s'). ok (LUserData (UTask p), w1\<lparr> taskHeap := (taskHeap w1)[p := t] \<rparr>, s')))"

definition esshTask ::
  "nat \<Rightarrow> 's lstate \<Rightarrow> defaults \<Rightarrow> lvalue list \<Rightarrow> world \<times> 's \<Rightarrow> (lvalue \<times> world \<times> 's) outcome" where
  "esshTask n L D args ws =
     (case CheckAny args 1 of
        Inl e \<Rightarrow> fail e
      | Inr first \<Rightarrow>
          (case toLTable first of
             Some tb \<Rightarrow> register_and_setup n L (DefaultTaskName D) tb ws
           | None \<Rightarrow>
               (case CheckString L args 1 of
                  Inl e \<Rightarrow> fail e
                | Inr name \<Rightarrow>
                    (if length args = 1 then
                       (case registerTask name (fst ws) of (p, w1) \<Rightarrow>
                          ok (LUserData (UTask p), w1, snd ws))
                     else if length args = 2 then
                       (case CheckTable args 2 of
                          Inl e \<Rightarrow> fail e
                        | Inr tb \<Rightarrow> register_and_setup n L name tb ws)
                     else fail (Panic ''task requires 1 or 2 arguments'')))))"

subsection \<open>Assigning a field of a declared task\<close>

text \<open>
  \<open>checkTask\<close>: argument 1 has to be a userdata that wraps a task; the result is the
  address of the task.
\<close>

definition checkTask :: "lvalue list \<Rightarrow> error + nat" where
  "checkTask args =
     (case args of
        LUserData (UTask p) # _ \<Rightarrow> Inr p
      | LUserData _ # _ \<Rightarrow> Inl (RaiseError ''bad argument (Task object expected)'')
      | _ \<Rightarrow> Inl (RaiseError ''bad argument (userdata expected)''))"

text \<open>
  \<open>taskNewindex\<close> is the \<open>__newindex\<close> metamethod of a task: the script statement
  \<open>t.key = value\<close>.  It runs \<open>updateTask\<close> on the registered task itself, so the
  result gives the world as the call leaves it, whether it returns or raises.  An error
  raised with \<open>L.RaiseError\<close> can be caught by the script (\<open>pcall\<close>), which then goes on
  with that world.
\<close>

definition taskNewindex ::
  "nat \<Rightarrow> 's lstate \<Rightarrow> lvalue list \<Rightarrow> world \<times> 's \<Rightarrow> world \<times> 's outcome" where
  "taskNewindex n L args ws =
     (case checkTask args of
        Inl e \<Rightarrow> (fst ws, fail e)
      | Inr p \<Rightarrow>
          (case CheckString L args 2 of
             Inl e \<Rightarrow> (fst ws, fail e)
           | Inr index \<Rightarrow>
               (case CheckAny args 3 of
                  Inl e \<Rightarrow> (fst ws, fail e)
                | Inr v \<Rightarrow>
                    (case updateTask_in_place n L index v (taskHeap (fst ws) ! p, snd ws) of
                       (task, r) \<Rightarrow>
                         ((fst ws)\<lparr> taskHeap := (taskHeap (fst ws))[p := task] \<rparr>, r)))))"

section \<open>Host selection\<close>

text \<open>
  Modelled from the spec: the type \<open>HostQuery\<close> and its methods are not among the
  sources.  A query holds a datasource (the global host registry unless a job's host
  sub-registry is set), an ordered list of selections and an ordered list of filters;
  \<open>AppendSelections\<close> and \<open>AppendFilters\<close> extend the lists and \<open>SetDatasource\<close> replaces
  the datasource.
\<close>

datatype datasource = GlobalHosts | HostsOf "string \<rightharpoonup> nat"

record hostquery =
  HQ_Datasource :: datasource
  HQ_Selections :: "string list"
  HQ_Filters :: "string list"

definition NewHostQuery :: hostquery where
  "NewHostQuery = \<lparr> HQ_Datasource = GlobalHosts, HQ_Selections = [], HQ_Filters = [] \<rparr>"

definition AppendSelections :: "string list \<Rightarrow> hostquery \<Rightarrow> hostquery" where
  "AppendSelections sel hq = hq\<lparr> HQ_Selections := HQ_Selections hq @ sel \<rparr>"

definition AppendFilters :: "string list \<Rightarrow> hostquery \<Rightarrow> hostquery" where
  "AppendFilters fs hq = hq\<lparr> HQ_Filters := HQ_Filters hq @ fs \<rparr>"

definition SetDatasource :: "(string \<rightharpoonup> nat) \<Rightarrow> hostquery \<Rightarrow> hostquery" where
  "SetDatasource ds hq = hq\<lparr> HQ_Datasource := HostsOf ds \<rparr>"

text \<open>The block that reads a selection argument; it occurs twice in \<open>esshSelectHosts\<close>.\<close>

definition read_selections :: "'s lstate \<Rightarrow> lvalue \<Rightarrow> error + string list" where
  "read_selections L v =
     (case toString v of
        Some selectionsStr \<Rightarrow> Inr [selectionsStr]
      | None \<Rightarrow>
          (case toSlice (Sprint L) v of
             Some selectionsSlice \<Rightarrow> Inr (append_strings [] selectionsSlice)
           | None \<Rightarrow> Inl (Panic ''select_hosts can receive string or array table of strings.'')))"

definition esshSelectHosts :: "'s lstate \<Rightarrow> world \<Rightarrow> lvalue list \<Rightarrow> error + hostquery" where
  "esshSelectHosts L w args =
     (let hostQuery = NewHostQuery in
      if length args > 2 then Inl (Panic ''select_hosts can receive max 2 argument.'')
      else
        (case (case args of
                 LUserData (UJob j) # _ \<Rightarrow> Inr (Some j)
               | LUserData _ # _ \<Rightarrow> Inl (Panic ''expected a job but got an other userdata.'')
               | _ \<Rightarrow> Inr None) of
           Inl e \<Rightarrow> Inl e
         | Inr job \<Rightarrow>
             (if length args = 1 then
                (case job of
                   None \<Rightarrow>
                     (case read_selections L (args ! 0) of
                        Inl e \<Rightarrow> Inl e
                      | Inr selections \<Rightarrow> Inr (AppendSelections selections hostQuery))
                 | Some j \<Rightarrow> Inr (SetDatasource (Job_Hosts (jobHeap w ! j)) hostQuery))
              else if length args = 2 then
                (case job of
                   Some j \<Rightarrow>
                     (case read_selections L (args ! 1) of
                        Inl e \<Rightarrow> Inl e
                      | Inr selections \<Rightarrow>
                          Inr (AppendSelections selections
                                 (SetDatasource (Job_Hosts (jobHeap w ! j)) hostQuery)))
                 | None \<Rightarrow> Inl (Panic ''expected a job but got an other userdata.''))
              else Inr hostQuery)))"

text \<open>
  \<open>checkHostQuery\<close>: argument 1 has to be a userdata (\<open>L.CheckUserData(1)\<close>) that wraps a
  query; otherwise an argument error is raised.  The result is the address of the query.
\<close>

definition checkHostQuery :: "lvalue list \<Rightarrow> error + nat" where
  "checkHostQuery args =
     (case args of
        LUserData (UHostQuery p) # _ \<Rightarrow> Inr p
      | LUserData _ # _ \<Rightarrow> Inl (RaiseError ''bad argument (HostQuery object expected)'')
      | _ \<Rightarrow> Inl (RaiseError ''bad argument (userdata expected)''))"

text \<open>
  The closure behind the \<open>filter\<close> method: the query is argument 1, the filters argument 2.
  The query is checked first, then the number of arguments.  The filters are appended to
  the query in place (\<open>queries\<close> gives the query at each address), and argument 1 is
  pushed as the result.
\<close>

definition hostQueryFilter ::
  "'s lstate \<Rightarrow> (nat \<Rightarrow> hostquery) \<Rightarrow> lvalue list \<Rightarrow> error + (nat \<Rightarrow> hostquery) \<times> lvalue" where
  "hostQueryFilter L queries args =
     (case checkHostQuery args of
        Inl e \<Rightarrow> Inl e
      | Inr p \<Rightarrow>
          (let hostQuery = queries p; ud = args ! 0 in
           if length args \<noteq> 2 then Inl (Panic ''filter must receive max 2 argument.'')
           else
             (let v = args ! 1 in
              case toString v of
                Some filtersStr \<Rightarrow>
                  Inr (queries(p := AppendFilters [filtersStr] hostQuery), ud)
              | None \<Rightarrow>
                  (case toSlice (Sprint L) v of
                     Some filtersSlice \<Rightarrow>
                       Inr (queries(p := AppendFilters (append_strings [] filtersSlice) hostQuery), ud)
                   | None \<Rightarrow>
                       Inl (Panic ''filter can receive string or array table of strings.'')))))"

text \<open>
  The innermost closure of the \<open>first\<close> case: the first host of the evaluated query as
  userdata, or nil.  \<open>hosts\<close> is the result of \<open>GetHosts\<close>.
\<close>

definition hostQueryFirstInner :: "nat list \<Rightarrow> lvalue" where
  "hostQueryFirstInner hosts =
     (if length hosts > 0 then LUserData (UHost (hosts ! 0)) else LNil)"

text \<open>
  A Go function leaves its results on the stack and returns their number \<open>n\<close>; the
  interpreter takes the topmost \<open>n\<close> values pushed.
\<close>

definition returned :: "nat \<Rightarrow> lvalue list \<Rightarrow> lvalue list" where
  "returned n pushed = drop (length pushed - n) pushed"

text \<open>
  \<open>hostQueryIndex\<close> is the \<open>__index\<close> metamethod of a query: argument 2 is the name
  looked up.  In the \<open>first\<close> case it pushes a function and then nil, and returns 1.
\<close>

definition hostQueryIndex :: "'s lstate \<Rightarrow> lvalue list \<Rightarrow> error + lvalue list" where
  "hostQueryIndex L args =
     (case CheckString L args 2 of
        Inl e \<Rightarrow> Inl e
      | Inr index \<Rightarrow>
          (if index = ''filter'' then Inr (returned 1 [LFunction (GoFn HostQueryFilter)])
           else if index = ''get'' then Inr (returned 1 [LFunction (GoFn HostQueryGet)])
           else if index = ''first'' then
             Inr (returned 1 [LFunction (GoFn HostQueryFirstOuter), LNil])
           else Inr (returned 1 [LNil])))"

text \<open>
  The script expression \<open>query:first()\<close> looks \<open>first\<close> up through \<open>__index\<close> and calls
  what it finds with the query as argument; calling a value that is not a function is
  an error of the interpreter.  \<open>run\<close> stands for the call of a function value.
\<close>

definition call_method ::
  "'s lstate \<Rightarrow> (fn \<Rightarrow> lvalue list \<Rightarrow> error + lvalue list) \<Rightarrow> lvalue \<Rightarrow> string \<Rightarrow>
     error + lvalue list" where
  "call_method L run self name =
     (case hostQueryIndex L [self, LString name] of
        Inl e \<Rightarrow> Inl e
      | Inr [LFunction f] \<Rightarrow> run f [self]
      | Inr _ \<Rightarrow> Inl (RaiseError ''attempt to call a non-function object''))"

section \<open>The module importer\<close>

text \<open>
  The state that \<open>esshImport\<close> reads and writes: whether the global variable \<open>essh\<close>
  still holds the table made at start-up, the \<open>module\<close> field of that table (the
  marker of an import in progress), the modules loaded into the current registry, the
  type and directories of that registry, the two command-line flags, the file system
  as \<open>os.Stat\<close> sees it, the environment variable \<open>GIT_SSH\<close>, and in \<open>other\<close> everything
  else an entrypoint may change.  Evaluating an entrypoint (\<open>L.DoFile\<close>) and fetching a
  source (\<open>client.Get\<close> of go-getter) are external: \<open>DoFile\<close> yields the values the
  chunk returns and the state it leaves, \<open>client_Get\<close> the file system after the fetch.
  The path functions of the Go library are parameters as well.

  Each function returns, next to its result, the list of I/O operations it performed
  itself, in order.
\<close>

datatype registry_type = RegistryTypeGlobal | RegistryTypeLocal

datatype stat_result = Exists | NotExist | StatFailed string

datatype io_event =
    Getenv string
  | Setenv string string
  | Stat string
  | Stdout string
  | Getwd
  | Fetch string string
  | Eval string

record module =
  Module_Name :: string
  Module_Value :: lvalue

record 'x istate =
  essh_global :: bool
  essh_module :: lvalue
  LoadedModules :: "string \<rightharpoonup> module"
  RegistryType :: registry_type
  DataDir :: string
  PackagesDir :: string
  updateFlag :: bool
  withGlobalFlag :: bool
  fs :: "string \<Rightarrow> stat_result"
  GIT_SSH :: string
  other :: 'x

record 'x sys =
  DoFile :: "string \<Rightarrow> 'x istate \<Rightarrow> error + (lvalue list \<times> 'x istate)"
  client_Get :: "string \<Rightarrow> string \<Rightarrow> string \<Rightarrow> (string \<Rightarrow> stat_result) \<Rightarrow>
                   error + (string \<Rightarrow> stat_result)"
  os_Getwd :: "error + string"
  path_Join :: "string \<Rightarrow> string \<Rightarrow> string"
  filepath_Dir :: "string \<Rightarrow> string"
  filepath_Base :: "string \<Rightarrow> string"

text \<open>
  Modelled from the spec: \<open>esshImport\<close> calls \<open>NewModule\<close>, \<open>Load\<close> and \<open>IndexFile\<close> of a
  module type that is not among the sources.  The specification describes for it the
  behaviour that \<open>Package\<close> of \<open>package.go\<close> implements (skip the fetch if the cache
  directory of the sanitized name exists and no refresh is forced, otherwise fetch
  into it; a fixed entrypoint file name), so the functions of \<open>package.go\<close>, modelled
  here from their source, stand for them.
\<close>

definition NewPackage :: "string \<Rightarrow> module" where
  "NewPackage name = \<lparr> Module_Name = name, Module_Value = LNil \<rparr>"

definition Key :: "string \<Rightarrow> string" where
  "Key name = map (\<lambda>c. if c = CHR ''/'' \<or> c = CHR '':'' then CHR ''-'' else c) name"

definition Dir :: "'x sys \<Rightarrow> 'x istate \<Rightarrow> string \<Rightarrow> string" where
  "Dir sys s name = path_Join sys (PackagesDir s) (Key name)"

definition IndexFile :: "'x sys \<Rightarrow> 'x istate \<Rightarrow> string \<Rightarrow> string" where
  "IndexFile sys s name = path_Join sys (Dir sys s name) ''index.lua''"

text \<open>
  \<open>Load\<close> of \<open>package.go\<close>.  With \<open>update\<close> false an existing directory ends the load
  at once.  The restoring of \<open>GIT_SSH\<close> is deferred, so it is the last operation on every
  path.  (The line printed under the debug flag and the colouring of the message are
  left out.)
\<close>

definition Load ::
  "'x sys \<Rightarrow> string \<Rightarrow> bool \<Rightarrow> 'x istate \<Rightarrow> io_event list \<times> (error + 'x istate)" where
  "Load sys name update s =
     (let gitssh = GIT_SSH s;
          swap = (filepath_Base sys gitssh = ''essh'');
          start = Getenv ''GIT_SSH'' # (if swap then [Setenv ''GIT_SSH'' ''ssh''] else []);
          restore = (if swap then [Setenv ''GIT_SSH'' gitssh] else []);
          src = name;
          dst = Dir sys s name
      in
      if \<not> update \<and> fs s dst = Exists then (start @ [Stat dst] @ restore, Inr s)
      else if \<not> update \<and> fs s dst \<noteq> NotExist then
        (start @ [Stat dst] @ restore,
         Inl (Errorf (''Error reading directory: ''
                @ (case fs s dst of StatFailed m \<Rightarrow> m | _ \<Rightarrow> []))))
      else
        (let verb = (if update \<and> fs s dst = Exists then ''Updating'' else ''Installing'');
             msg = ''This functionality deprecated! '' @ verb @ '' package: '' @ q @ name @ q
                     @ '' (into '' @ DataDir s @ '')'' @ [CHR 0x0A];
             evs = start @ [Stat dst] @ [Stdout msg, Getwd]
         in
         case os_Getwd sys of
           Inl err \<Rightarrow> (evs @ restore, Inl err)
         | Inr pwd \<Rightarrow>
             (case client_Get sys src dst pwd (fs s) of
                Inl err \<Rightarrow> (evs @ [Fetch src dst] @ restore, Inl err)
              | Inr fs' \<Rightarrow> (evs @ [Fetch src dst] @ restore, Inr (s\<lparr> fs := fs' \<rparr>)))))"

definition nested_import :: string where
  "nested_import =
     q @ ''essh.module'' @ q @ '' is existed. does not support nested module importing.''"

text \<open>
  \<open>esshImport\<close>.  The value returned by the first import is the top of the stack after
  the entrypoint has run (\<open>L.Get(-1)\<close>): the last value the chunk returned, or the last
  argument of the call if it returned none.
\<close>

definition esshImport ::
  "'x sys \<Rightarrow> 's lstate \<Rightarrow> lvalue list \<Rightarrow> 'x istate \<Rightarrow>
     io_event list \<times> (error + lvalue \<times> 'x istate)" where
  "esshImport sys L args s =
     (case CheckString L args 1 of
        Inl e \<Rightarrow> ([], Inl e)
      | Inr name \<Rightarrow>
          if \<not> essh_global s then
            ([], Inl (RaiseError (q @ ''essh'' @ q @ '' global variable is broken'')))
          else if essh_module s \<noteq> LNil then ([], Inl (RaiseError nested_import))
          else
            (case LoadedModules s name of
               Some loaded \<Rightarrow> ([], Inr (Module_Value loaded, s))
             | None \<Rightarrow>
                 (let fresh = NewPackage name;
                      update = (if RegistryType s = RegistryTypeGlobal \<and> \<not> withGlobalFlag s
                                then False else updateFlag s)
                  in
                  case Load sys name update s of
                    (evs, Inl err) \<Rightarrow> (evs, Inl (RaiseError (message err)))
                  | (evs, Inr s1) \<Rightarrow>
                      (let indexFile = IndexFile sys s1 name in
                       if fs s1 indexFile \<noteq> Exists then
                         (evs @ [Stat indexFile],
                          Inl (RaiseError (''invalid module: ''
                                 @ (case fs s1 indexFile of StatFailed m \<Rightarrow> m | _ \<Rightarrow> indexFile))))
                       else
                         (let modulevar = LTable []
                                [(LString ''path'', LString (filepath_Dir sys indexFile)),
                                 (LString ''import_path'', LString name)];
                              s2 = s1\<lparr> essh_module := modulevar \<rparr>
                          in
                          case DoFile sys indexFile s2 of
                            Inl err \<Rightarrow>
                              (evs @ [Stat indexFile, Eval indexFile], Inl (Panic (message err)))
                          | Inr (rets, s3) \<Rightarrow>
                              (let s4 = s3\<lparr> essh_module := LNil \<rparr>;
                                   ret = last (args @ rets);
                                   loaded = fresh\<lparr> Module_Value := ret \<rparr>
                               in
                               (evs @ [Stat indexFile, Eval indexFile],
                                Inr (ret, s4\<lparr> LoadedModules := (LoadedModules s4)(name \<mapsto> loaded) \<rparr>))))))))"

section \<open>Notions used to state the properties\<close>

text \<open>
  The schema of section 6 of the specification: for each kind the recognized field
  names, each with the shape of value it expects.  \<open>backend\<close> of a task is listed among
  the names only.  An error names a field when the field's name occurs in its message.
\<close>

datatype shape =
    StringShape | BoolShape | TableShape | FunctionShape | FunctionOrString
  | StringOrList | ListShape | BoolOrString | ScriptShape

fun has_shape :: "'s lstate \<Rightarrow> shape \<Rightarrow> lvalue \<Rightarrow> bool" where
  "has_shape L StringShape v = (toString v \<noteq> None)"
| "has_shape L BoolShape v = (toBool v \<noteq> None)"
| "has_shape L TableShape v = (toLTable v \<noteq> None)"
| "has_shape L FunctionShape v = (toLFunction v \<noteq> None)"
| "has_shape L FunctionOrString v = (toLFunction v \<noteq> None \<or> toString v \<noteq> None)"
| "has_shape L StringOrList v = (toString v \<noteq> None \<or> toSlice (Sprint L) v \<noteq> None)"
| "has_shape L ListShape v = (toSlice (Sprint L) v \<noteq> None)"
| "has_shape L BoolOrString v = (toBool v \<noteq> None \<or> toString v \<noteq> None)"
| "has_shape L ScriptShape v = (toLTable v \<noteq> None \<or> toString v \<noteq> None)"

definition task_schema :: "(string \<times> shape) list" where
  "task_schema =
     [(''targets'', StringOrList), (''filters'', StringOrList), (''description'', StringShape),
      (''pty'', BoolShape), (''driver'', StringShape), (''parallel'', BoolShape),
      (''privileged'', BoolShape), (''disabled'', BoolShape), (''hidden'', BoolShape),
      (''script'', ScriptShape), (''script_file'', StringShape), (''prefix'', BoolOrString),
      (''prepare'', FunctionShape), (''props'', TableShape), (''args'', ListShape)]"

definition task_fields :: "string list" where
  "task_fields = ''backend'' # map fst task_schema"

definition host_schema :: "(string \<times> shape) list" where
  "host_schema =
     [(''props'', TableShape), (''hooks_before_connect'', TableShape),
      (''hooks_after_connect'', TableShape), (''hooks_after_disconnect'', TableShape),
      (''description'', StringShape), (''hidden'', BoolShape), (''tags'', TableShape)]"

definition job_schema :: "(string \<times> shape) list" where
  "job_schema =
     [(''description'', StringShape), (''hidden'', BoolShape), (''prepare'', FunctionShape),
      (''hosts'', TableShape), (''tasks'', TableShape), (''drivers'', TableShape)]"

definition names_field :: "error \<Rightarrow> string \<Rightarrow> bool" where
  "names_field e key = sublist key (message e)"

text \<open>The string elements of a list of values, in their order.\<close>

fun string_elements :: "lvalue list \<Rightarrow> string list" where
  "string_elements [] = []"
| "string_elements (LString s # vs) = s # string_elements vs"
| "string_elements (_ # vs) = string_elements vs"

text \<open>
  An interpreter to try the functions on: its only script function counts its calls in
  the interpreter state and answers \<open>bash\<close> on the first call and \<open>sh\<close> afterwards; keys
  are ASCII.
\<close>

definition example_L :: "nat lstate" where
  "example_L = \<lparr>
     CallByParam = (\<lambda>f args s. Inr (LString (if s = 0 then ''bash'' else ''sh''), Suc s)),
     Sprint = (\<lambda>v. case v of GoString str \<Rightarrow> str | _ \<Rightarrow> ''?''),
     Format = (\<lambda>v. case v of LString str \<Rightarrow> str | _ \<Rightarrow> ''?''),
     IsUpper = (\<lambda>key. case key of [] \<Rightarrow> False
                        | c # _ \<Rightarrow> (65::nat) \<le> of_char c \<and> of_char c \<le> (90::nat)) \<rparr>"

definition example_D :: defaults where
  "example_D = \<lparr> DefaultTaskName = ''default'', DefaultDriverName = ''default'',
     DefaultDriver = 0 \<rparr>"

text \<open>A task holds both when its script-file path and its script are non-empty.\<close>

definition holds_both :: "task \<Rightarrow> bool" where
  "holds_both t = (Task_File t \<noteq> [] \<and> Task_Script t \<noteq> [])"

text \<open>
  The worlds after \<open>task "deploy" { script = "echo hi" }\<close> and after
  \<open>task "deploy" { script_file = "deploy.sh" }\<close>, each starting from the empty world.
\<close>

definition scripted_world :: world where
  "scripted_world = init_world\<lparr>
     taskHeap := [NewTask\<lparr> Task_Name := ''deploy'',
                            Task_LValues := [''script'' \<mapsto> LString ''echo hi''],
                            Task_Script := [[''code'' \<mapsto> ''echo hi'']] \<rparr>],
     Tasks := [''deploy'' \<mapsto> 0] \<rparr>"

definition filed_world :: world where
  "filed_world = init_world\<lparr>
     taskHeap := [NewTask\<lparr> Task_Name := ''deploy'',
                            Task_LValues := [''script_file'' \<mapsto> LString ''deploy.sh''],
                            Task_File := ''deploy.sh'' \<rparr>],
     Tasks := [''deploy'' \<mapsto> 0] \<rparr>"

text \<open>
  The worlds after \<open>task { description = "first" }\<close> and after a following
  \<open>task { description = "second" }\<close>, starting from the empty world.
\<close>

definition anonymous_once :: world where
  "anonymous_once = init_world\<lparr>
     taskHeap := [NewTask\<lparr> Task_Name := ''default'',
                            Task_LValues := [''description'' \<mapsto> LString ''first''],
                            Task_Description := ''first'' \<rparr>],
     Tasks := [''default'' \<mapsto> 0] \<rparr>"

definition anonymous_twice :: world where
  "anonymous_twice = init_world\<lparr>
     taskHeap := [NewTask\<lparr> Task_Name := ''default'', Task_Parent := Some 1,
                            Task_LValues := [''description'' \<mapsto> LString ''first''],
                            Task_Description := ''first'' \<rparr>,
                  NewTask\<lparr> Task_Name := ''default'', Task_Child := Some 0,
                            Task_LValues := [''description'' \<mapsto> LString ''second''],
                            Task_Description := ''second'' \<rparr>],
     Tasks := [''default'' \<mapsto> 1] \<rparr>"

subsection \<open>The script normalizer in the words of the specification\<close>

text \<open>
  A value of a record is coerced to a string: a string is itself, a boolean is \<open>true\<close>
  or \<open>false\<close>, no other value can be coerced.  A record whose keys are strings and
  whose values can be coerced merges into one segment that maps each key to its
  coerced value.
\<close>

fun coerce :: "lvalue \<Rightarrow> string option" where
  "coerce (LString str) = Some str"
| "coerce (LBool b) = Some (if b then ''true'' else ''false'')"
| "coerce _ = None"

definition merged_segment :: "(lvalue \<times> lvalue) list \<Rightarrow> segment option" where
  "merged_segment entries =
     (if list_all (\<lambda>(k, v). toString k \<noteq> None \<and> coerce v \<noteq> None) entries
      then Some (map_of (rev (map (\<lambda>(k, v). (the (toString k), the (coerce v))) entries)))
      else None)"

text \<open>
  \<open>normalizes L v s segs s'\<close>: in interpreter state \<open>s\<close> the value \<open>v\<close> normalizes to the
  segments \<open>segs\<close>, leaving the state \<open>s'\<close>.  A string is one segment; a record with
  \<open>code\<close> is one merged segment; an array is processed in index order, a callable
  element being called without arguments and the segments of its result spliced in
  place, any other element being normalized itself.
\<close>

inductive normalizes :: "'s lstate \<Rightarrow> lvalue \<Rightarrow> 's \<Rightarrow> segment list \<Rightarrow> 's \<Rightarrow> bool"
  and normalizes_elements :: "'s lstate \<Rightarrow> lvalue list \<Rightarrow> 's \<Rightarrow> segment list \<Rightarrow> 's \<Rightarrow> bool"
where
  of_string: "normalizes L (LString str) s [[''code'' \<mapsto> str]] s"
| of_record:
    "MaxN arr = 0 \<Longrightarrow> RawGetString dict ''code'' \<noteq> LNil \<Longrightarrow>
     merged_segment (ForEach arr dict) = Some m \<Longrightarrow>
     normalizes L (LTable arr dict) s [m] s"
| of_array:
    "0 < MaxN arr \<Longrightarrow>
     normalizes_elements L (map (RawGetInt arr) [1 ..< Suc (MaxN arr)]) s segs s' \<Longrightarrow>
     normalizes L (LTable arr dict) s segs s'"
| no_element: "normalizes_elements L [] s [] s"
| callable_element:
    "CallByParam L f [] s = Inr (ret, s1) \<Longrightarrow> normalizes L ret s1 segs1 s2 \<Longrightarrow>
     normalizes_elements L rest s2 segs2 s3 \<Longrightarrow>
     normalizes_elements L (LFunction f # rest) s (segs1 @ segs2) s3"
| plain_element:
    "toLFunction v = None \<Longrightarrow> normalizes L v s segs1 s2 \<Longrightarrow>
     normalizes_elements L rest s2 segs2 s3 \<Longrightarrow>
     normalizes_elements L (v # rest) s (segs1 @ segs2) s3"

subsection \<open>Notions for the importer\<close>

text \<open>
  The fetches and the evaluations among a list of I/O operations; whether a refresh
  is forced in a state (the update flag, suppressed for the global registry unless the
  override flag is set); and a script that consists of one import, as the entrypoint
  of a module.
\<close>

fun fetches :: "io_event list \<Rightarrow> (string \<times> string) list" where
  "fetches [] = []"
| "fetches (Fetch src dst # evs) = (src, dst) # fetches evs"
| "fetches (_ # evs) = fetches evs"

fun evaluations :: "io_event list \<Rightarrow> string list" where
  "evaluations [] = []"
| "evaluations (Eval file # evs) = file # evaluations evs"
| "evaluations (_ # evs) = evaluations evs"

definition refresh_forced :: "'x istate \<Rightarrow> bool" where
  "refresh_forced s =
     (if RegistryType s = RegistryTypeGlobal \<and> \<not> withGlobalFlag s then False else updateFlag s)"

definition importing_script ::
  "'x sys \<Rightarrow> 's lstate \<Rightarrow> lvalue list \<Rightarrow> 'x istate \<Rightarrow> error + (lvalue list \<times> 'x istate)" where
  "importing_script sys L args st =
     (case snd (esshImport sys L args st) of
        Inl e \<Rightarrow> Inl e
      | Inr (v, st') \<Rightarrow> Inr ([v], st'))"

text \<open>
  A system to try the importer on: the fetch creates the directory and its entrypoint,
  every entrypoint returns the string \<open>exported\<close>; and the same system with an
  entrypoint that fails when it is run while the marker is set.  The start state has
  nothing cached and nothing loaded.
\<close>

definition example_sys :: "unit sys" where
  "example_sys = \<lparr>
     DoFile = (\<lambda>file st. Inr ([LString ''exported''], st)),
     client_Get = (\<lambda>src dst pwd f. Inr (f(dst := Exists, dst @ ''/index.lua'' := Exists))),
     os_Getwd = Inr ''/work'',
     path_Join = (\<lambda>a b. a @ ''/'' @ b),
     filepath_Dir = (\<lambda>file. take (length file - 10) file),
     filepath_Base = (\<lambda>file. file) \<rparr>"

definition nesting_sys :: "unit sys" where
  "nesting_sys = example_sys\<lparr>
     DoFile := (\<lambda>file st. if essh_global st \<and> essh_module st \<noteq> LNil
                           then Inl (RaiseError nested_import)
                           else Inr ([LString ''exported''], st)) \<rparr>"

definition example_state :: "unit istate" where
  "example_state = \<lparr>
     essh_global = True, essh_module = LNil, LoadedModules = Map.empty,
     RegistryType = RegistryTypeLocal, DataDir = ''/data'', PackagesDir = ''/data/packages'',
     updateFlag = False, withGlobalFlag = False, fs = (\<lambda>file. NotExist), GIT_SSH = [],
     other = () \<rparr>"

section \<open>The result of a field assignment\<close>

text \<open>
  The result of \<open>updateTask\<close> key by key: the task of \<open>updateTask_in_place\<close> when the call
  returns, the error when it raises.
\<close>

lemma caller_view_simps:
  "caller_view (t, ok s) = ok (t, s)"
  "caller_view (t, fail e) = fail e"
  "caller_view (t, None) = None"
  by (simp_all add: caller_view_def ok_def fail_def)

lemma updateTask_body:
  "updateTask n L key v ts =
     (let task = (fst ts)\<lparr> Task_LValues := (Task_LValues (fst ts))(key \<mapsto> v) \<rparr>; s = snd ts in
      if key = ''backend'' then
        (case toString v of
           Some backendStr \<Rightarrow>
             (let task' = task\<lparr> Task_Backend := backendStr \<rparr> in
              if backendStr \<noteq> TASK_BACKEND_LOCAL \<and> backendStr \<noteq> TASK_BACKEND_REMOTE
              then fail (RaiseError (''backend must be '' @ q @ TASK_BACKEND_LOCAL @ q @ '' or ''
                                      @ q @ TASK_BACKEND_REMOTE @ q @ ''.''))
              else ok (task', s))
         | None \<Rightarrow> ok (task, s))
      else if key = ''targets'' then
        (case toString v of
           Some targetsStr \<Rightarrow> ok (task\<lparr> Task_Targets := [targetsStr] \<rparr>, s)
         | None \<Rightarrow>
             (case toSlice (Sprint L) v of
                Some targetsSlice \<Rightarrow> ok (task\<lparr> Task_Targets := append_strings [] targetsSlice \<rparr>, s)
              | None \<Rightarrow> fail (invalid_task_field key)))
      else if key = ''filters'' then
        (case toString v of
           Some filtersStr \<Rightarrow> ok (task\<lparr> Task_Filters := [filtersStr] \<rparr>, s)
         | None \<Rightarrow>
             (case toSlice (Sprint L) v of
                Some filtersSlice \<Rightarrow> ok (task\<lparr> Task_Filters := append_strings [] filtersSlice \<rparr>, s)
              | None \<Rightarrow> fail (invalid_task_field key)))
      else if key = ''description'' then
        (case toString v of
           Some descStr \<Rightarrow> ok (task\<lparr> Task_Description := descStr \<rparr>, s)
         | None \<Rightarrow> fail (invalid_task_field key))
      else if key = ''pty'' then
        (case toBool v of
           Some ptyBool \<Rightarrow> ok (task\<lparr> Task_Pty := ptyBool \<rparr>, s)
         | None \<Rightarrow> fail (invalid_task_field key))
      else if key = ''driver'' then
        (case toString v of
           Some driverStr \<Rightarrow> ok (task\<lparr> Task_Driver := driverStr \<rparr>, s)
         | None \<Rightarrow> fail (invalid_task_field key))
      else if key = ''parallel'' then
        (case toBool v of
           Some parallelBool \<Rightarrow> ok (task\<lparr> Task_Parallel := parallelBool \<rparr>, s)
         | None \<Rightarrow> fail (invalid_task_field key))
      else if key = ''privileged'' then
        (case toBool v of
           Some privilegedBool \<Rightarrow> ok (task\<lparr> Task_Privileged := privilegedBool \<rparr>, s)
         | None \<Rightarrow> fail (invalid_task_field key))
      else if key = ''disabled'' then
        (case toBool v of
           Some disabledBool \<Rightarrow> ok (task\<lparr> Task_Disabled := disabledBool \<rparr>, s)
         | None \<Rightarrow> fail (invalid_task_field key))
      else if key = ''hidden'' then
        (case toBool v of
           Some hiddenBool \<Rightarrow> ok (task\<lparr> Task_Hidden := hiddenBool \<rparr>, s)
         | None \<Rightarrow> fail (invalid_task_field key))
      else if key = ''script'' then
        (case toScript n L v s of
           None \<Rightarrow> None
         | Some (Inl (Errorf m)) \<Rightarrow> fail (RaiseError m)
         | Some (Inl e) \<Rightarrow> fail e
         | Some (Inr (script, s')) \<Rightarrow>
             (let task' = task\<lparr> Task_Script := script \<rparr> in
              if Task_File task' \<noteq> [] \<and> length (Task_Script task') > 0
              then fail script_and_file
              else ok (task', s')))
      else if key = ''script_file'' then
        (case toString v of
           Some fileStr \<Rightarrow>
             (let task' = task\<lparr> Task_File := fileStr \<rparr> in
              if Task_File task' \<noteq> [] \<and> length (Task_Script task') > 0
              then fail script_and_file
              else ok (task', s))
         | None \<Rightarrow> fail (invalid_task_field key))
      else if key = ''prefix'' then
        (case toBool v of
           Some prefixBool \<Rightarrow> ok (task\<lparr> Task_UsePrefix := prefixBool \<rparr>, s)
         | None \<Rightarrow>
             (case toString v of
                Some prefixStr \<Rightarrow> ok (task\<lparr> Task_UsePrefix := True, Task_Prefix := prefixStr \<rparr>, s)
              | None \<Rightarrow> fail (invalid_task_field key)))
      else if key = ''prepare'' then
        (case toLFunction v of
           Some prepareFn \<Rightarrow> ok (task\<lparr> Task_Prepare := Some prepareFn \<rparr>, s)
         | None \<Rightarrow> fail (RaiseError ''prepare have to be a function.''))
      else if key = ''props'' then
        (case toLTable v of
           Some (arr, dict) \<Rightarrow>
             (case props_entries L (ForEach arr dict) Map.empty of
                Inl e \<Rightarrow> fail e
              | Inr props \<Rightarrow> ok (task\<lparr> Task_Props := props \<rparr>, s))
         | None \<Rightarrow> fail (invalid_task_field key))
      else if key = ''args'' then
        (case toSlice (Sprint L) v of
           Some argsSlice \<Rightarrow> ok (task\<lparr> Task_Args := append_strings [] argsSlice \<rparr>, s)
         | None \<Rightarrow> fail (invalid_task_field key))
      else fail (unsupported_task_field key))"
  unfolding updateTask_def updateTask_in_place_def Let_def
  by (simp only: if_distrib [of caller_view] option.case_distrib [of caller_view]
        sum.case_distrib [of caller_view] error.case_distrib [of caller_view]
        prod.case_distrib [of caller_view] caller_view_simps)

section \<open>Properties of the registries\<close>

lemma registry_ok_init: "registry_ok k init_world"
  by (cases k) (simp_all add: registry_ok_def init_world_def)

lemma register_fresh:
  "register k n w = (p, w') \<Longrightarrow>
     p = allocated k w \<and> allocated k w' = Suc p \<and> lookup k w' = (lookup k w)(n \<mapsto> p)"
  by (cases k)
     (auto simp: registerHost_def registerTask_def registerDriver_def registerJob_def Let_def
           split: option.splits)

lemma register_preserves_ok:
  "registry_ok k w \<Longrightarrow> register k n w = (p, w') \<Longrightarrow> registry_ok k w'"
  using register_fresh [of k n w p w']
  by (auto simp: registry_ok_def less_Suc_eq)

lemma register_link:
  "k \<noteq> KJob \<Longrightarrow> lookup k w n = Some p0 \<Longrightarrow> register k n w = (p, w') \<Longrightarrow>
     override_predecessor k w' p = Some p0"
  by (cases k)
     (auto simp: registerHost_def registerTask_def registerDriver_def Let_def nth_append)

lemma register_name:
  "register k n w = (p, w') \<Longrightarrow> name_of k w' p = n"
  by (cases k)
     (auto simp: registerHost_def registerTask_def registerDriver_def registerJob_def Let_def
           nth_append split: option.splits)

lemma nth_update_read:
  "j < length xs \<Longrightarrow> (xs[i := y]) ! j = (if i = j then y else xs ! j)"
  by (auto simp: nth_list_update)

lemma register_keeps_name:
  "p0 < allocated k w \<Longrightarrow> register k n w = (p, w') \<Longrightarrow> name_of k w' p0 = name_of k w p0"
  by (cases k)
     (auto simp: registerHost_def registerTask_def registerDriver_def registerJob_def Let_def
           nth_append nth_update_read split: option.splits)

lemma register_twice:
  assumes ok: "registry_ok k w"
    and r1: "register k n w = (p1, w1)"
    and r2: "register k n w1 = (p2, w2)"
  shows "lookup k w2 n = Some p2 \<and> p2 \<noteq> p1 \<and> (\<forall>m. lookup k w2 m \<noteq> Some p1)
         \<and> p1 < allocated k w2 \<and> name_of k w2 p1 = n
         \<and> override_predecessor k w2 p2 = (if k = KJob then None else Some p1)"
proof -
  from register_fresh [OF r1] have f1: "p1 = allocated k w" "allocated k w1 = Suc p1"
    "lookup k w1 = (lookup k w)(n \<mapsto> p1)" by simp_all
  from register_fresh [OF r2] have f2: "p2 = Suc p1" "allocated k w2 = Suc p2"
    "lookup k w2 = (lookup k w1)(n \<mapsto> p2)" using f1 by simp_all
  have a: "lookup k w2 n = Some p2" using f2 by simp
  have b: "p2 \<noteq> p1" using f2 by simp
  have c: "\<forall>m. lookup k w2 m \<noteq> Some p1"
  proof
    fix m
    show "lookup k w2 m \<noteq> Some p1"
    proof (cases "m = n")
      case True
      then show ?thesis using a b by simp
    next
      case False
      then have "lookup k w2 m = lookup k w m" using f1 f2 by simp
      moreover have "lookup k w m \<noteq> Some p1" using ok f1(1) by (auto simp: registry_ok_def)
      ultimately show ?thesis by simp
    qed
  qed
  have d: "p1 < allocated k w2" using f2 by simp
  have "name_of k w1 p1 = n" by (rule register_name [OF r1])
  moreover have "name_of k w2 p1 = name_of k w1 p1"
    by (rule register_keeps_name [OF _ r2]) (simp add: f1)
  ultimately have e: "name_of k w2 p1 = n" by simp
  have f: "override_predecessor k w2 p2 = (if k = KJob then None else Some p1)"
  proof (cases "k = KJob")
    case True
    then show ?thesis by simp
  next
    case False
    have "lookup k w1 n = Some p1" using f1 by simp
    from register_link [OF False this r2] False show ?thesis by simp
  qed
  from a b c d e f show ?thesis by blast
qed

text \<open>
  Claim C1, as the code has it.  Registering a name twice, with any kind of entity and
  in any world whose registry points into its arena: the name is mapped to the second
  instance, no name is mapped to the first any more, and the first is still in the
  arena under its name.  For a host, a task and a driver the override link of the
  second instance is the first instance; a job has no override link, so the first job
  is no longer reachable at all.
\<close>

theorem redeclaration_shadows:
  assumes "registry_ok k w"
    and "register k n w = (p1, w1)"
    and "register k n w1 = (p2, w2)"
  shows "lookup k w2 n = Some p2 \<and> p2 \<noteq> p1 \<and> (\<forall>m. lookup k w2 m \<noteq> Some p1)
         \<and> p1 < allocated k w2 \<and> name_of k w2 p1 = n
         \<and> override_predecessor k w2 p2 = (if k = KJob then None else Some p1)"
  using register_twice [OF assms] .

theorem redeclaration_shadows_witness:
  "registry_ok KHost init_world
   \<and> register KHost ''web01'' init_world = (0, snd (register KHost ''web01'' init_world))
   \<and> register KHost ''web01'' (snd (register KHost ''web01'' init_world))
       = (1, snd (register KHost ''web01'' (snd (register KHost ''web01'' init_world))))
   \<and> lookup KHost (snd (register KHost ''web01'' (snd (register KHost ''web01'' init_world))))
        ''web01'' = Some 1
   \<and> override_predecessor KHost
        (snd (register KHost ''web01'' (snd (register KHost ''web01'' init_world)))) 1 = Some 0"
proof -
  have h1: "registry_ok KHost init_world"
    by (simp add: registry_ok_def init_world_def)
  have h2: "register KHost ''web01'' init_world = (0, snd (register KHost ''web01'' init_world))"
    by (simp add: init_world_def registerHost_def Let_def)
  have h3: "register KHost ''web01'' (snd (register KHost ''web01'' init_world))
       = (1, snd (register KHost ''web01'' (snd (register KHost ''web01'' init_world))))"
    by (simp add: init_world_def registerHost_def Let_def)
  from redeclaration_shadows [OF h1 h2 h3] h1 h2 h3 show ?thesis by simp
qed

text \<open>
  Claim C1 as stated fails for jobs: after two registrations of the job \<open>deploy\<close> the
  second job (pointer 1) is the one found by name, and its override link is not the
  first job (pointer 0).
\<close>

theorem job_redeclaration_counterexample:
  "fst (register KJob ''deploy'' init_world) = 0
   \<and> fst (register KJob ''deploy'' (snd (register KJob ''deploy'' init_world))) = 1
   \<and> lookup KJob (snd (register KJob ''deploy'' (snd (register KJob ''deploy'' init_world))))
        ''deploy'' = Some 1
   \<and> override_predecessor KJob
        (snd (register KJob ''deploy'' (snd (register KJob ''deploy'' init_world)))) 1 \<noteq> Some 0"
  by (simp add: init_world_def registerJob_def Let_def)

section \<open>Properties of host selection\<close>

text \<open>
  Claim C3 says that \<open>.first()\<close> returns the first matching host or an empty result
  and never raises.  The code does not do that: for the name \<open>first\<close> the metamethod
  pushes a function and then nil and returns the topmost value, so the lookup yields
  nil and the call \<open>query:first()\<close> is an error of the interpreter, for every query.
  The sibling \<open>get\<close> yields its function.
\<close>

theorem first_is_not_callable:
  "hostQueryIndex L [self, LString ''first''] = Inr [LNil]
   \<and> call_method L run self ''first'' = Inl (RaiseError ''attempt to call a non-function object'')
   \<and> hostQueryIndex L [self, LString ''get''] = Inr [LFunction (GoFn HostQueryGet)]"
  by (simp add: call_method_def hostQueryIndex_def CheckString_def returned_def)

section \<open>Properties of drivers\<close>

text \<open>
  Claim C8.  After \<open>engine\<close> is set to a string, every resolution of the engine, for
  any driver pointer and in any interpreter state, yields that string and leaves the
  state alone.  After \<open>engine\<close> is set to a function, every resolution calls that
  function on the userdata of the driver in the state at hand; a string result is the
  resolved engine, any other result is the error
  \<open>driver engine has to return a string.\<close>, and a failure of the call is passed on.
  Nothing is stored by a resolution.
\<close>

theorem driver_engine_resolution:
  "(\<exists>d' eng. updateDriver ''engine'' (LString e) d = Inr d' \<and> Driver_Engine d' = Some eng
       \<and> (\<forall>L p s. callEngine L eng p s = Inr (e, s)))
   \<and> (\<exists>d' eng. updateDriver ''engine'' (LFunction f) d = Inr d' \<and> Driver_Engine d' = Some eng
       \<and> (\<forall>L p s. callEngine L eng p s =
             (case CallByParam L f [LUserData (UDriver p)] s of
                Inl err \<Rightarrow> Inl err
              | Inr (LString r, s') \<Rightarrow> Inr (r, s')
              | Inr (_, s') \<Rightarrow> Inl (Errorf ''driver engine has to return a string.''))))"
  by (auto simp: updateDriver_def split: sum.splits lvalue.splits)

theorem driver_engine_resolution_witness:
  "\<exists>d' eng. updateDriver ''engine'' (LFunction (LuaFn 0)) NewDriver = Inr d'
      \<and> Driver_Engine d' = Some eng
      \<and> callEngine example_L eng 0 0 = Inr (''bash'', 1)
      \<and> callEngine example_L eng 0 1 = Inr (''sh'', 2)"
proof -
  from driver_engine_resolution [of "[]" NewDriver "LuaFn 0"] obtain d' eng where
    u: "updateDriver ''engine'' (LFunction (LuaFn 0)) NewDriver = Inr d'"
    and e: "Driver_Engine d' = Some eng"
    and c: "\<forall>(L :: nat lstate) p s. callEngine L eng p s =
             (case CallByParam L (LuaFn 0) [LUserData (UDriver p)] s of
                Inl err \<Rightarrow> Inl err
              | Inr (LString r, s') \<Rightarrow> Inr (r, s')
              | Inr (_, s') \<Rightarrow> Inl (Errorf ''driver engine has to return a string.''))"
    by blast
  have c0: "CallByParam example_L (LuaFn 0) [LUserData (UDriver 0)] 0 = Inr (LString ''bash'', 1)"
    by (simp add: example_L_def)
  have c1: "CallByParam example_L (LuaFn 0) [LUserData (UDriver 0)] (Suc 0) = Inr (LString ''sh'', 2)"
    by (simp add: example_L_def)
  from c have "callEngine example_L eng 0 0 =
             (case CallByParam example_L (LuaFn 0) [LUserData (UDriver 0)] 0 of
                Inl err \<Rightarrow> Inl err
              | Inr (LString r, s') \<Rightarrow> Inr (r, s')
              | Inr (_, s') \<Rightarrow> Inl (Errorf ''driver engine has to return a string.''))"
    by blast
  then have r0: "callEngine example_L eng 0 0 = Inr (''bash'', 1)"
    by (simp add: c0)
  from c have "callEngine example_L eng 0 1 =
             (case CallByParam example_L (LuaFn 0) [LUserData (UDriver 0)] 1 of
                Inl err \<Rightarrow> Inl err
              | Inr (LString r, s') \<Rightarrow> Inr (r, s')
              | Inr (_, s') \<Rightarrow> Inl (Errorf ''driver engine has to return a string.''))"
    by blast
  then have r1: "callEngine example_L eng 0 1 = Inr (''sh'', 2)"
    by (simp add: c1)
  from u e r0 r1 show ?thesis by blast
qed

section \<open>Properties of string lists\<close>

lemma append_strings_bridge:
  "append_strings out (map (toGoValue sp) xs) = out @ string_elements xs"
proof (induction xs arbitrary: out)
  case Nil
  then show ?case by simp
next
  case (Cons x xs)
  then show ?case by (cases x) simp_all
qed

lemma string_elements_append:
  "string_elements (xs @ ys) = string_elements xs @ string_elements ys"
  by (induction xs rule: string_elements.induct) simp_all

lemma MaxN_snoc: "MaxN (xs @ [x]) = (if x = LNil then MaxN xs else Suc (length xs))"
  by (simp add: MaxN_def)

lemma MaxN_le: "MaxN xs \<le> length xs"
  by (simp add: MaxN_def length_dropWhile_le [of _ "rev xs", simplified])

lemma string_elements_MaxN: "string_elements (take (MaxN xs) xs) = string_elements xs"
proof (induction xs rule: rev_induct)
  case Nil
  then show ?case by simp
next
  case (snoc x xs)
  show ?case
  proof (cases "x = LNil")
    case True
    with snoc MaxN_le [of xs] show ?thesis
      by (simp add: MaxN_snoc string_elements_append)
  next
    case False
    then show ?thesis by (simp add: MaxN_snoc)
  qed
qed

lemma toSlice_array:
  "0 < MaxN arr \<Longrightarrow> toSlice sp (LTable arr dict) = Some (map (toGoValue sp) (take (MaxN arr) arr))"
  by (simp add: toSlice_def take_map)

lemma strings_of_slice:
  assumes "0 < MaxN arr"
  shows "\<exists>sl. toSlice sp (LTable arr dict) = Some sl \<and> append_strings [] sl = string_elements arr"
  using toSlice_array [OF assms] by (simp add: append_strings_bridge string_elements_MaxN)

text \<open>
  Claim C9.  A table with a non-empty array part, given as the selection of
  \<open>select_hosts\<close> (alone, or after a job), as the argument of the \<open>filter\<close> method of a
  query, or as \<open>targets\<close>, \<open>filters\<close> or \<open>args\<close> of a task, is accepted without error,
  and the list appended to the query, or stored in the task, is the list of the string
  elements of the array part in their order.
\<close>

theorem non_strings_skipped:
  assumes "0 < MaxN arr"
  shows "esshSelectHosts L w [LTable arr dict]
           = Inr (AppendSelections (string_elements arr) NewHostQuery)
     \<and> esshSelectHosts L w [LUserData (UJob j), LTable arr dict]
           = Inr (AppendSelections (string_elements arr)
                    (SetDatasource (Job_Hosts (jobHeap w ! j)) NewHostQuery))
     \<and> read_selections L (LTable arr dict) = Inr (string_elements arr)
     \<and> hostQueryFilter L queries [LUserData (UHostQuery p), LTable arr dict]
           = Inr (queries(p := AppendFilters (string_elements arr) (queries p)),
                  LUserData (UHostQuery p))
     \<and> updateTask n L ''targets'' (LTable arr dict) (t, s)
         = ok (t\<lparr> Task_LValues := (Task_LValues t)(''targets'' \<mapsto> LTable arr dict),
                   Task_Targets := string_elements arr \<rparr>, s)
     \<and> updateTask n L ''filters'' (LTable arr dict) (t, s)
         = ok (t\<lparr> Task_LValues := (Task_LValues t)(''filters'' \<mapsto> LTable arr dict),
                   Task_Filters := string_elements arr \<rparr>, s)
     \<and> updateTask n L ''args'' (LTable arr dict) (t, s)
         = ok (t\<lparr> Task_LValues := (Task_LValues t)(''args'' \<mapsto> LTable arr dict),
                   Task_Args := string_elements arr \<rparr>, s)"
proof -
  from strings_of_slice [OF assms] obtain sl where
    sl: "toSlice (Sprint L) (LTable arr dict) = Some sl" "append_strings [] sl = string_elements arr"
    by blast
  have a: "read_selections L (LTable arr dict) = Inr (string_elements arr)"
    using sl by (simp add: read_selections_def)
  have a1: "esshSelectHosts L w [LTable arr dict]
           = Inr (AppendSelections (string_elements arr) NewHostQuery)"
    using a by (simp add: esshSelectHosts_def)
  have a2: "esshSelectHosts L w [LUserData (UJob j), LTable arr dict]
           = Inr (AppendSelections (string_elements arr)
                    (SetDatasource (Job_Hosts (jobHeap w ! j)) NewHostQuery))"
    using a by (simp add: esshSelectHosts_def)
  have b: "hostQueryFilter L queries [LUserData (UHostQuery p), LTable arr dict]
           = Inr (queries(p := AppendFilters (string_elements arr) (queries p)),
                  LUserData (UHostQuery p))"
    using sl by (simp add: hostQueryFilter_def checkHostQuery_def)
  have c: "updateTask n L ''targets'' (LTable arr dict) (t, s)
         = ok (t\<lparr> Task_LValues := (Task_LValues t)(''targets'' \<mapsto> LTable arr dict),
                   Task_Targets := string_elements arr \<rparr>, s)"
    using sl by (simp add: updateTask_body)
  have d: "updateTask n L ''filters'' (LTable arr dict) (t, s)
         = ok (t\<lparr> Task_LValues := (Task_LValues t)(''filters'' \<mapsto> LTable arr dict),
                   Task_Filters := string_elements arr \<rparr>, s)"
    using sl by (simp add: updateTask_body)
  have e: "updateTask n L ''args'' (LTable arr dict) (t, s)
         = ok (t\<lparr> Task_LValues := (Task_LValues t)(''args'' \<mapsto> LTable arr dict),
                   Task_Args := string_elements arr \<rparr>, s)"
    using sl by (simp add: updateTask_body)
  show ?thesis by (intro conjI a1 a2 a b c d e)
qed

theorem non_strings_skipped_witness:
  "0 < MaxN [LString ''web'', LNumber 7, LNil, LBool True, LString ''db'']
   \<and> esshSelectHosts example_L init_world
         [LTable [LString ''web'', LNumber 7, LNil, LBool True, LString ''db''] []]
       = Inr \<lparr> HQ_Datasource = GlobalHosts, HQ_Selections = [''web'', ''db''], HQ_Filters = [] \<rparr>
   \<and> hostQueryFilter example_L (\<lambda>p. NewHostQuery)
         [LUserData (UHostQuery 0),
          LTable [LString ''web'', LNumber 7, LNil, LBool True, LString ''db''] []]
       = Inr ((\<lambda>p. NewHostQuery)
                (0 := \<lparr> HQ_Datasource = GlobalHosts, HQ_Selections = [],
                         HQ_Filters = [''web'', ''db''] \<rparr>),
              LUserData (UHostQuery 0))"
  using non_strings_skipped
          [where arr = "[LString ''web'', LNumber 7, LNil, LBool True, LString ''db'']"
             and L = example_L and w = init_world and dict = "[]"
             and queries = "\<lambda>p. NewHostQuery" and p = 0]
  by (simp add: MaxN_def AppendSelections_def AppendFilters_def NewHostQuery_def)

section \<open>Properties of the field updaters\<close>

lemma names_quoted: "names_field (Panic (a @ q @ key @ q @ b)) key"
  using sublist_appendI [of key "a @ q" "q @ b"] by (simp add: names_field_def)

lemma names_unsupported:
  "names_field (unsupported_task_field key) key"
  "names_field (unsupported_host_field key) key"
  "names_field (unsupported_job_field key) key"
  unfolding unsupported_task_field_def unsupported_host_field_def unsupported_job_field_def
  by (rule names_quoted)+

lemma names_invalid:
  "names_field (invalid_task_field key) key"
  "names_field (invalid_host_field key) key"
  "names_field (invalid_job_field key) key"
  unfolding invalid_task_field_def invalid_host_field_def invalid_job_field_def
  by (rule names_quoted)+

lemma names_script: "names_field (RaiseError (q @ ''script'' @ q @ b)) ''script''"
  using sublist_appendI [of "''script''" q "q @ b"] by (simp add: names_field_def)

lemma names_prepare: "names_field (RaiseError ''prepare have to be a function.'') ''prepare''"
  by (simp add: names_field_def sublist_code(3))

lemma names_engine:
  "names_field (RaiseError ''driver 'engine' have to be a function or string.'') ''engine''"
  by (simp add: names_field_def sublist_code(3))

lemma names_backend:
  "names_field (RaiseError (''backend must be '' @ b)) ''backend''"
  using sublist_appendI [of "''backend''" "[]" "'' must be '' @ b"] by (simp add: names_field_def)

lemma task_unknown:
  assumes "key \<notin> set task_fields"
  shows "updateTask n L key v ts = fail (unsupported_task_field key)"
proof -
  from assms have ne: "key \<noteq> ''backend''" "key \<noteq> ''targets''" "key \<noteq> ''filters''"
    "key \<noteq> ''description''" "key \<noteq> ''pty''" "key \<noteq> ''driver''" "key \<noteq> ''parallel''"
    "key \<noteq> ''privileged''" "key \<noteq> ''disabled''" "key \<noteq> ''hidden''" "key \<noteq> ''script''"
    "key \<noteq> ''script_file''" "key \<noteq> ''prefix''" "key \<noteq> ''prepare''" "key \<noteq> ''props''"
    "key \<noteq> ''args''"
    by (simp_all add: task_fields_def task_schema_def)
  show ?thesis
    unfolding updateTask_body Let_def by (simp only: ne if_False)
qed

lemma task_shape_invalid:
  "\<not> has_shape L StringOrList v \<Longrightarrow> updateTask n L ''targets'' v ts = fail (invalid_task_field ''targets'')"
  "\<not> has_shape L StringOrList v \<Longrightarrow> updateTask n L ''filters'' v ts = fail (invalid_task_field ''filters'')"
  "\<not> has_shape L StringShape v \<Longrightarrow> updateTask n L ''description'' v ts = fail (invalid_task_field ''description'')"
  "\<not> has_shape L BoolShape v \<Longrightarrow> updateTask n L ''pty'' v ts = fail (invalid_task_field ''pty'')"
  "\<not> has_shape L StringShape v \<Longrightarrow> updateTask n L ''driver'' v ts = fail (invalid_task_field ''driver'')"
  "\<not> has_shape L BoolShape v \<Longrightarrow> updateTask n L ''parallel'' v ts = fail (invalid_task_field ''parallel'')"
  "\<not> has_shape L BoolShape v \<Longrightarrow> updateTask n L ''privileged'' v ts = fail (invalid_task_field ''privileged'')"
  "\<not> has_shape L BoolShape v \<Longrightarrow> updateTask n L ''disabled'' v ts = fail (invalid_task_field ''disabled'')"
  "\<not> has_shape L BoolShape v \<Longrightarrow> updateTask n L ''hidden'' v ts = fail (invalid_task_field ''hidden'')"
  "\<not> has_shape L StringShape v \<Longrightarrow> updateTask n L ''script_file'' v ts = fail (invalid_task_field ''script_file'')"
  "\<not> has_shape L BoolOrString v \<Longrightarrow> updateTask n L ''prefix'' v ts = fail (invalid_task_field ''prefix'')"
  "\<not> has_shape L TableShape v \<Longrightarrow> updateTask n L ''props'' v ts = fail (invalid_task_field ''props'')"
  "\<not> has_shape L ListShape v \<Longrightarrow> updateTask n L ''args'' v ts = fail (invalid_task_field ''args'')"
  by (simp_all add: updateTask_body Let_def split: option.splits)

lemma task_shape_script:
  "\<not> has_shape L ScriptShape v \<Longrightarrow>
     updateTask (Suc m) L ''script'' v ts
       = fail (RaiseError (q @ ''script'' @ q @ '' got a invalid value.''))"
  by (cases v) (simp_all add: updateTask_body Let_def fail_def)

lemma task_shape_prepare:
  "\<not> has_shape L FunctionShape v \<Longrightarrow>
     updateTask n L ''prepare'' v ts = fail (RaiseError ''prepare have to be a function.'')"
  by (simp add: updateTask_body Let_def)

lemma task_backend_value:
  "toString v = Some b \<Longrightarrow> b \<noteq> TASK_BACKEND_LOCAL \<Longrightarrow> b \<noteq> TASK_BACKEND_REMOTE \<Longrightarrow>
     updateTask n L ''backend'' v ts
       = fail (RaiseError (''backend must be '' @ q @ TASK_BACKEND_LOCAL @ q @ '' or ''
                             @ q @ TASK_BACKEND_REMOTE @ q @ ''.''))"
  by (simp add: updateTask_body Let_def)

lemma task_shape:
  assumes "(key, sh) \<in> set task_schema" "\<not> has_shape L sh v" "0 < n"
  shows "\<exists>e. updateTask n L key v ts = fail e \<and> names_field e key"
proof -
  obtain m where n: "n = Suc m" using assms(3) by (cases n) auto
  from assms(1) have
    "key = ''targets'' \<and> sh = StringOrList \<or> key = ''filters'' \<and> sh = StringOrList
     \<or> key = ''description'' \<and> sh = StringShape \<or> key = ''pty'' \<and> sh = BoolShape
     \<or> key = ''driver'' \<and> sh = StringShape \<or> key = ''parallel'' \<and> sh = BoolShape
     \<or> key = ''privileged'' \<and> sh = BoolShape \<or> key = ''disabled'' \<and> sh = BoolShape
     \<or> key = ''hidden'' \<and> sh = BoolShape \<or> key = ''script'' \<and> sh = ScriptShape
     \<or> key = ''script_file'' \<and> sh = StringShape \<or> key = ''prefix'' \<and> sh = BoolOrString
     \<or> key = ''prepare'' \<and> sh = FunctionShape \<or> key = ''props'' \<and> sh = TableShape
     \<or> key = ''args'' \<and> sh = ListShape"
    by (simp add: task_schema_def)
  then show ?thesis
    using assms(2)
    by (elim disjE conjE)
       (simp_all only: n task_shape_invalid task_shape_script task_shape_prepare
          names_invalid names_script names_prepare
          simp_thms ex_simps fail_def option.inject sum.inject)
qed


lemma host_unknown:
  assumes "\<not> IsUpper L key" "key \<notin> set (map fst host_schema)"
  shows "updateHost L key v h = Inl (unsupported_host_field key)"
proof -
  from assms(2) have ne: "key \<noteq> ''props''" "key \<noteq> ''hooks_before_connect''"
    "key \<noteq> ''hooks_after_connect''" "key \<noteq> ''hooks_after_disconnect''"
    "key \<noteq> ''description''" "key \<noteq> ''hidden''" "key \<noteq> ''tags''"
    by (simp_all add: host_schema_def)
  from assms(1) have up: "IsUpper L key = False" by simp
  show ?thesis
    unfolding updateHost_def Let_def by (simp only: ne up if_False)
qed

lemma host_shape_invalid:
  "\<not> IsUpper L ''props'' \<Longrightarrow> \<not> has_shape L TableShape v \<Longrightarrow>
     updateHost L ''props'' v h = Inl (invalid_host_field ''props'')"
  "\<not> IsUpper L ''hooks_before_connect'' \<Longrightarrow> \<not> has_shape L TableShape v \<Longrightarrow>
     updateHost L ''hooks_before_connect'' v h = Inl (invalid_host_field ''hooks_before_connect'')"
  "\<not> IsUpper L ''hooks_after_connect'' \<Longrightarrow> \<not> has_shape L TableShape v \<Longrightarrow>
     updateHost L ''hooks_after_connect'' v h = Inl (invalid_host_field ''hooks_after_connect'')"
  "\<not> IsUpper L ''hooks_after_disconnect'' \<Longrightarrow> \<not> has_shape L TableShape v \<Longrightarrow>
     updateHost L ''hooks_after_disconnect'' v h = Inl (invalid_host_field ''hooks_after_disconnect'')"
  "\<not> IsUpper L ''description'' \<Longrightarrow> \<not> has_shape L StringShape v \<Longrightarrow>
     updateHost L ''description'' v h = Inl (invalid_host_field ''description'')"
  "\<not> IsUpper L ''hidden'' \<Longrightarrow> \<not> has_shape L BoolShape v \<Longrightarrow>
     updateHost L ''hidden'' v h = Inl (invalid_host_field ''hidden'')"
  "\<not> IsUpper L ''tags'' \<Longrightarrow> \<not> has_shape L TableShape v \<Longrightarrow>
     updateHost L ''tags'' v h = Inl (invalid_host_field ''tags'')"
  by (simp_all add: updateHost_def Let_def split: option.splits)

lemma host_shape:
  assumes "\<not> IsUpper L key" "(key, sh) \<in> set host_schema" "\<not> has_shape L sh v"
  shows "\<exists>e. updateHost L key v h = Inl e \<and> names_field e key"
proof -
  from assms(2) have
    "key = ''props'' \<and> sh = TableShape \<or> key = ''hooks_before_connect'' \<and> sh = TableShape
     \<or> key = ''hooks_after_connect'' \<and> sh = TableShape
     \<or> key = ''hooks_after_disconnect'' \<and> sh = TableShape
     \<or> key = ''description'' \<and> sh = StringShape \<or> key = ''hidden'' \<and> sh = BoolShape
     \<or> key = ''tags'' \<and> sh = TableShape"
    by (simp add: host_schema_def)
  then show ?thesis
    using assms(1,3)
    by (elim disjE conjE)
       (simp_all only: host_shape_invalid names_invalid
          simp_thms ex_simps sum.inject)
qed

lemma host_ssh_shape:
  "IsUpper L key \<Longrightarrow> \<not> has_shape L StringShape v \<Longrightarrow>
     updateHost L key v h = Inl (Panic ''SSH property must be string'')"
  by (simp add: updateHost_def Let_def)

lemma job_unknown:
  assumes "key \<notin> set (map fst job_schema)"
  shows "updateJob n L D key v jws = fail (unsupported_job_field key)"
proof -
  from assms have ne: "key \<noteq> ''description''" "key \<noteq> ''hidden''" "key \<noteq> ''prepare''"
    "key \<noteq> ''hosts''" "key \<noteq> ''tasks''" "key \<noteq> ''drivers''"
    by (simp_all add: job_schema_def)
  obtain j0 w s where jws: "jws = (j0, w, s)" by (cases jws) auto
  show ?thesis
    unfolding updateJob_def Let_def jws by (simp only: ne if_False prod.case)
qed

lemma job_shape_invalid:
  "\<not> has_shape L StringShape v \<Longrightarrow>
     updateJob n L D ''description'' v jws = fail (invalid_job_field ''description'')"
  "\<not> has_shape L BoolShape v \<Longrightarrow>
     updateJob n L D ''hidden'' v jws = fail (invalid_job_field ''hidden'')"
  "\<not> has_shape L FunctionShape v \<Longrightarrow>
     updateJob n L D ''prepare'' v jws = fail (RaiseError ''prepare have to be a function.'')"
  "\<not> has_shape L TableShape v \<Longrightarrow> updateJob n L D ''hosts'' v jws = fail (expected_table L v)"
  "\<not> has_shape L TableShape v \<Longrightarrow> updateJob n L D ''tasks'' v jws = fail (expected_table L v)"
  "\<not> has_shape L TableShape v \<Longrightarrow> updateJob n L D ''drivers'' v jws = fail (expected_table L v)"
  by (cases jws; simp add: updateJob_def Let_def split: option.splits)+

lemma job_shape:
  assumes "(key, sh) \<in> set job_schema" "\<not> has_shape L sh v"
  shows "\<exists>e. updateJob n L D key v jws = fail e
            \<and> (if sh = TableShape then e = expected_table L v else names_field e key)"
proof -
  from assms(1) have
    "key = ''description'' \<and> sh = StringShape \<or> key = ''hidden'' \<and> sh = BoolShape
     \<or> key = ''prepare'' \<and> sh = FunctionShape \<or> key = ''hosts'' \<and> sh = TableShape
     \<or> key = ''tasks'' \<and> sh = TableShape \<or> key = ''drivers'' \<and> sh = TableShape"
    by (simp add: job_schema_def)
  then show ?thesis
    using assms(2)
    by (elim disjE conjE)
       (simp_all only: job_shape_invalid names_invalid names_prepare
          simp_thms ex_simps fail_def option.inject sum.inject shape.distinct if_True if_False)
qed

lemma driver_shape:
  "\<not> has_shape L FunctionOrString v \<Longrightarrow>
     updateDriver ''engine'' v d
       = Inl (RaiseError ''driver 'engine' have to be a function or string.'')"
  by (simp add: updateDriver_def Let_def)

text \<open>
  Where the updaters check.  For a task, a host (keys that do not start with an
  upper-case letter) and a job, an unknown field name fails with an error that names
  the field.  A value whose type is not the one of a recognized field fails with an
  error that names the field, or, for a pass-through key of a host (upper-case first
  letter) and for \<open>hosts\<close>, \<open>tasks\<close> and \<open>drivers\<close> of a job, with another message.  A
  \<open>backend\<close> string other than the two backends fails naming \<open>backend\<close>, and an
  \<open>engine\<close> of a driver that is neither function nor string fails naming \<open>engine\<close>.
\<close>

lemma checked_fields:
  "(key \<notin> set task_fields \<longrightarrow>
      (\<exists>e. updateTask n L key v ts = fail e \<and> names_field e key))
   \<and> ((key, sh) \<in> set task_schema \<and> \<not> has_shape L sh v \<and> 0 < n \<longrightarrow>
      (\<exists>e. updateTask n L key v ts = fail e \<and> names_field e key))
   \<and> (toString v = Some b \<and> b \<noteq> TASK_BACKEND_LOCAL \<and> b \<noteq> TASK_BACKEND_REMOTE \<longrightarrow>
      (\<exists>e. updateTask n L ''backend'' v ts = fail e \<and> names_field e ''backend''))
   \<and> (\<not> IsUpper L key \<and> key \<notin> set (map fst host_schema) \<longrightarrow>
      (\<exists>e. updateHost L key v h = Inl e \<and> names_field e key))
   \<and> (\<not> IsUpper L key \<and> (key, sh) \<in> set host_schema \<and> \<not> has_shape L sh v \<longrightarrow>
      (\<exists>e. updateHost L key v h = Inl e \<and> names_field e key))
   \<and> (IsUpper L key \<and> \<not> has_shape L StringShape v \<longrightarrow>
      updateHost L key v h = Inl (Panic ''SSH property must be string''))
   \<and> (key \<notin> set (map fst job_schema) \<longrightarrow>
      (\<exists>e. updateJob n L D key v jws = fail e \<and> names_field e key))
   \<and> ((key, sh) \<in> set job_schema \<and> \<not> has_shape L sh v \<longrightarrow>
      (\<exists>e. updateJob n L D key v jws = fail e
            \<and> (if sh = TableShape then e = expected_table L v else names_field e key)))
   \<and> (\<not> has_shape L FunctionOrString v \<longrightarrow>
      (\<exists>e. updateDriver ''engine'' v d = Inl e \<and> names_field e ''engine''))"
proof -
  have c1: "key \<notin> set task_fields \<longrightarrow>
      (\<exists>e. updateTask n L key v ts = fail e \<and> names_field e key)"
    by (simp add: task_unknown names_unsupported fail_def)
  have c2: "(key, sh) \<in> set task_schema \<and> \<not> has_shape L sh v \<and> 0 < n \<longrightarrow>
      (\<exists>e. updateTask n L key v ts = fail e \<and> names_field e key)"
    using task_shape [of key sh L v n ts] by blast
  have c3: "toString v = Some b \<and> b \<noteq> TASK_BACKEND_LOCAL \<and> b \<noteq> TASK_BACKEND_REMOTE \<longrightarrow>
      (\<exists>e. updateTask n L ''backend'' v ts = fail e \<and> names_field e ''backend'')"
    using task_backend_value [of v b n L ts] names_backend by (simp add: fail_def)
  have c4: "\<not> IsUpper L key \<and> key \<notin> set (map fst host_schema) \<longrightarrow>
      (\<exists>e. updateHost L key v h = Inl e \<and> names_field e key)"
    using host_unknown [of L key v h] names_unsupported by simp
  have c5: "\<not> IsUpper L key \<and> (key, sh) \<in> set host_schema \<and> \<not> has_shape L sh v \<longrightarrow>
      (\<exists>e. updateHost L key v h = Inl e \<and> names_field e key)"
    using host_shape [of L key sh v h] by blast
  have c6: "IsUpper L key \<and> \<not> has_shape L StringShape v \<longrightarrow>
      updateHost L key v h = Inl (Panic ''SSH property must be string'')"
    using host_ssh_shape [of L key v h] by blast
  have c7: "key \<notin> set (map fst job_schema) \<longrightarrow>
      (\<exists>e. updateJob n L D key v jws = fail e \<and> names_field e key)"
    using job_unknown [of key n L D v jws] names_unsupported by (simp add: fail_def)
  have c8: "(key, sh) \<in> set job_schema \<and> \<not> has_shape L sh v \<longrightarrow>
      (\<exists>e. updateJob n L D key v jws = fail e
            \<and> (if sh = TableShape then e = expected_table L v else names_field e key))"
    using job_shape [of key sh L v n D jws] by blast
  have c9: "\<not> has_shape L FunctionOrString v \<longrightarrow>
      (\<exists>e. updateDriver ''engine'' v d = Inl e \<and> names_field e ''engine'')"
    using driver_shape [of L v d] names_engine by simp
  show ?thesis
    by (intro conjI c1 c2 c3 c4 c5 c6 c7 c8 c9)
qed

text \<open>
  Claim C2, at the assignments that the code does not check, or rejects without the
  name of the field.  The number 1 as \<open>backend\<close> of a task is accepted: the raw value
  is recorded and the backend is left as it was.  The unknown field \<open>image\<close> of a driver
  is accepted.  The error for \<open>HostName\<close> of a host set to a number does not name the
  field, nor do the errors for \<open>hosts\<close> of a job set to a string and set to a table
  whose entry \<open>web\<close> is a string.
\<close>

theorem unchecked_fields:
  "updateTask 1 example_L ''backend'' (LNumber 1) (NewTask, 0)
     = ok (NewTask\<lparr> Task_LValues := [''backend'' \<mapsto> LNumber 1] \<rparr>, 0)
   \<and> updateDriver ''image'' (LString ''alpine'') NewDriver
       = Inr (NewDriver\<lparr> Driver_LValues := [''image'' \<mapsto> LString ''alpine''] \<rparr>)
   \<and> updateHost example_L ''HostName'' (LNumber 22) NewHost
       = Inl (Panic ''SSH property must be string'')
   \<and> \<not> names_field (Panic ''SSH property must be string'') ''HostName''
   \<and> updateJob 1 example_L example_D ''hosts'' (LString ''web'') (NewJob, init_world, 0)
       = fail (Panic (''expected table but got '' @ q @ ''web'' @ q @ [CHR 0x0A]))
   \<and> \<not> names_field (Panic (''expected table but got '' @ q @ ''web'' @ q @ [CHR 0x0A])) ''hosts''
   \<and> updateJob 1 example_L example_D ''hosts'' (LTable [] [(LString ''web'', LString ''x'')])
         (NewJob, init_world, 0)
       = fail (Panic (''expected table of host's config but got '' @ q @ ''x'' @ q @ [CHR 0x0A]))
   \<and> \<not> names_field
         (Panic (''expected table of host's config but got '' @ q @ ''x'' @ q @ [CHR 0x0A]))
         ''hosts''"
proof -
  have a: "updateTask 1 example_L ''backend'' (LNumber 1) (NewTask, 0)
       = ok (NewTask\<lparr> Task_LValues := [''backend'' \<mapsto> LNumber 1] \<rparr>, 0)"
    by (simp add: updateTask_body NewTask_def)
  have b: "updateDriver ''image'' (LString ''alpine'') NewDriver
       = Inr (NewDriver\<lparr> Driver_LValues := [''image'' \<mapsto> LString ''alpine''] \<rparr>)"
    by (simp add: updateDriver_def NewDriver_def)
  have c: "updateHost example_L ''HostName'' (LNumber 22) NewHost
     = Inl (Panic ''SSH property must be string'')"
    by (simp add: updateHost_def example_L_def)
  have d: "\<not> names_field (Panic ''SSH property must be string'') ''HostName''"
    by (simp add: names_field_def sublist_code(3))
  have e: "updateJob 1 example_L example_D ''hosts'' (LString ''web'') (NewJob, init_world, 0)
       = fail (Panic (''expected table but got '' @ q @ ''web'' @ q @ [CHR 0x0A]))"
    by (simp add: updateJob_def expected_table_def example_L_def)
  have f: "\<not> names_field (Panic (''expected table but got '' @ q @ ''web'' @ q @ [CHR 0x0A])) ''hosts''"
    by (simp add: names_field_def sublist_code(3) q_def)
  have g: "updateJob 1 example_L example_D ''hosts'' (LTable [] [(LString ''web'', LString ''x'')])
         (NewJob, init_world, 0)
       = fail (Panic (''expected table of host's config but got '' @ q @ ''x'' @ q @ [CHR 0x0A]))"
    by (simp add: updateJob_def ForEach_def job_hosts_entry_def example_L_def fail_def)
  have h: "\<not> names_field
         (Panic (''expected table of host's config but got '' @ q @ ''x'' @ q @ [CHR 0x0A]))
         ''hosts''"
    by (simp add: names_field_def sublist_code(3) q_def)
  show ?thesis
    by (intro conjI a b c d e f g h)
qed

section \<open>Properties of the script normalizer\<close>

lemma script_value_coerce: "script_value v = coerce v"
  by (cases v) (simp_all add: script_value_def)

lemma script_entries_merge:
  "script_entries es m0 = Inr m \<longleftrightarrow>
     list_all (\<lambda>(k, v). toString k \<noteq> None \<and> coerce v \<noteq> None) es
     \<and> m = m0 ++ map_of (rev (map (\<lambda>(k, v). (the (toString k), the (coerce v))) es))"
proof (induction es arbitrary: m0)
  case Nil
  then show ?case by auto
next
  case (Cons e es)
  obtain k v where e: "e = (k, v)" by (cases e) auto
  show ?case
  proof (cases "coerce v")
    case None
    then show ?thesis by (simp add: e script_value_coerce)
  next
    case vs: (Some vs)
    show ?thesis
    proof (cases "toString k")
      case None
      then show ?thesis by (simp add: e script_value_coerce vs)
    next
      case (Some ks)
      have step: "script_entries (e # es) m0 = script_entries es (m0(ks \<mapsto> vs))"
        by (simp add: e script_value_coerce vs Some)
      have la: "list_all (\<lambda>(k, v). toString k \<noteq> None \<and> coerce v \<noteq> None) (e # es)
                = list_all (\<lambda>(k, v). toString k \<noteq> None \<and> coerce v \<noteq> None) es"
        by (simp add: e vs Some)
      have mp: "m0 ++ map_of (rev (map (\<lambda>(k, v). (the (toString k), the (coerce v))) (e # es)))
            = m0(ks \<mapsto> vs) ++ map_of (rev (map (\<lambda>(k, v). (the (toString k), the (coerce v))) es))"
        by (simp add: e vs Some map_add_upd_left)
      show ?thesis
        unfolding step la mp by (rule Cons.IH)
    qed
  qed
qed

lemma script_entries_fails:
  "(\<exists>e. script_entries es m0 = Inl e) \<longleftrightarrow>
     \<not> list_all (\<lambda>(k, v). toString k \<noteq> None \<and> coerce v \<noteq> None) es"
proof -
  have "(\<exists>e. script_entries es m0 = Inl e) \<longleftrightarrow> \<not> (\<exists>m. script_entries es m0 = Inr m)"
    by (cases "script_entries es m0") auto
  then show ?thesis by (simp add: script_entries_merge)
qed

lemma merged_segment_code:
  "merged_segment es = Some m \<longleftrightarrow> script_entries es Map.empty = Inr m"
  by (auto simp: merged_segment_def script_entries_merge)

lemma merged_segment_none:
  "merged_segment es = None \<longleftrightarrow> (\<exists>e. script_entries es Map.empty = Inl e)"
  by (simp add: script_entries_fails merged_segment_def)


lemma bindR_ok:
  "bindR m f = Some (Inr y) \<Longrightarrow> \<exists>x. m = Some (Inr x) \<and> f x = Some (Inr y)"
  by (cases m; simp; case_tac a; simp)

lemma script_array_sound:
  assumes rec: "\<And>v s segs s'. rec v s = Some (Inr (segs, s')) \<Longrightarrow> normalizes L v s segs s'"
  shows "script_array rec L vs ret s = Some (Inr (segs, s')) \<Longrightarrow>
           \<exists>more. segs = ret @ more \<and> normalizes_elements L vs s more s'"
proof (induction vs arbitrary: ret s)
  case Nil
  then show ?case by (auto simp: ok_def intro: no_element)
next
  case (Cons v rest)
  show ?case
  proof (cases "toLFunction v")
    case None
    with Cons.prems obtain script s2 where
      r: "rec v s = Some (Inr (script, s2))"
      and k: "script_array rec L rest (ret @ script) s2 = Some (Inr (segs, s'))"
      by (auto dest!: bindR_ok)
    from Cons.IH [OF k] obtain more where
      m: "segs = (ret @ script) @ more" "normalizes_elements L rest s2 more s'" by blast
    from plain_element [OF None rec [OF r] m(2)] m(1) show ?thesis by simp
  next
    case (Some f)
    then have v: "v = LFunction f" by (cases v) simp_all
    from Cons.prems Some obtain funcRet s1 script s2 where
      c: "CallByParam L f [] s = Inr (funcRet, s1)"
      and r: "rec funcRet s1 = Some (Inr (script, s2))"
      and k: "script_array rec L rest (ret @ script) s2 = Some (Inr (segs, s'))"
      by (auto simp: fail_def dest!: bindR_ok split: sum.splits)
    from Cons.IH [OF k] obtain more where
      m: "segs = (ret @ script) @ more" "normalizes_elements L rest s2 more s'" by blast
    from callable_element [OF c rec [OF r] m(2)] m(1) v show ?thesis by simp
  qed
qed

lemma toScript_sound:
  "toScript n L v s = Some (Inr (segs, s')) \<Longrightarrow> normalizes L v s segs s'"
proof (induction n arbitrary: v s segs s')
  case 0
  then show ?case by simp
next
  case (Suc n)
  show ?case
  proof (cases v)
    case (LString str)
    with Suc.prems show ?thesis by (auto simp: ok_def intro: of_string)
  next
    case (LTable arr dict)
    show ?thesis
    proof (cases "MaxN arr = 0")
      case True
      with Suc.prems LTable obtain m where
        "RawGetString dict ''code'' \<noteq> LNil" "script_entries (ForEach arr dict) Map.empty = Inr m"
        "segs = [m]" "s' = s"
        by (auto simp: ok_def fail_def split: if_splits sum.splits)
      with True LTable show ?thesis
        by (auto simp: merged_segment_code intro: of_record)
    next
      case False
      with Suc.prems LTable have
        "script_array (toScript n L) L (map (RawGetInt arr) [1 ..< Suc (MaxN arr)]) [] s
           = Some (Inr (segs, s'))"
        by simp
      from script_array_sound [where rec = "toScript n L", OF Suc.IH this]
      have "normalizes_elements L (map (RawGetInt arr) [1 ..< Suc (MaxN arr)]) s segs s'"
        by simp
      with False LTable show ?thesis by (auto intro: of_array)
    qed
  qed (use Suc.prems in \<open>auto simp: ok_def fail_def\<close>)
qed

lemma script_array_mono:
  assumes rec: "\<And>v s r. rec1 v s = Some r \<Longrightarrow> rec2 v s = Some r"
  shows "script_array rec1 L vs ret s = Some r \<Longrightarrow> script_array rec2 L vs ret s = Some r"
proof (induction vs arbitrary: ret s)
  case Nil
  then show ?case by simp
next
  case (Cons v rest)
  have step: "\<And>x s0. bindR (rec1 x s0) (\<lambda>(script, s2). script_array rec1 L rest (ret @ script) s2) = Some r
       \<Longrightarrow> bindR (rec2 x s0) (\<lambda>(script, s2). script_array rec2 L rest (ret @ script) s2) = Some r"
  proof -
    fix x s0
    assume b: "bindR (rec1 x s0) (\<lambda>(script, s2). script_array rec1 L rest (ret @ script) s2) = Some r"
    show "bindR (rec2 x s0) (\<lambda>(script, s2). script_array rec2 L rest (ret @ script) s2) = Some r"
    proof (cases "rec1 x s0")
      case None
      with b show ?thesis by simp
    next
      case (Some a)
      from rec [OF Some] have r2: "rec2 x s0 = Some a" .
      show ?thesis
      proof (cases a)
        case (Inl e)
        with b Some have "r = Inl e" by simp
        with Inl r2 show ?thesis by simp
      next
        case (Inr p)
        obtain script s2 where p: "p = (script, s2)" by (cases p) auto
        from b Some Inr p have "script_array rec1 L rest (ret @ script) s2 = Some r" by simp
        from Cons.IH [OF this] r2 Inr p show ?thesis by simp
      qed
    qed
  qed
  from Cons.prems step show ?case
    by (auto split: option.splits sum.splits)
qed

lemma toScript_mono_Suc:
  "toScript n L v s = Some r \<Longrightarrow> toScript (Suc n) L v s = Some r"
proof (induction n arbitrary: v s r)
  case 0
  then show ?case by simp
next
  case (Suc n)
  show ?case
  proof (cases v)
    case (LTable arr dict)
    show ?thesis
    proof (cases "MaxN arr = 0")
      case True
      with Suc.prems LTable show ?thesis by simp
    next
      case False
      with Suc.prems LTable have
        "script_array (toScript n L) L (map (RawGetInt arr) [1 ..< Suc (MaxN arr)]) [] s = Some r"
        by simp
      from script_array_mono [where ?rec1.0 = "toScript n L" and ?rec2.0 = "toScript (Suc n) L",
             OF Suc.IH this]
      show ?thesis using False LTable by simp
    qed
  qed (use Suc.prems in simp_all)
qed

lemma toScript_mono:
  "n \<le> m \<Longrightarrow> toScript n L v s = Some r \<Longrightarrow> toScript m L v s = Some r"
  by (induction m) (auto simp: le_Suc_eq dest: toScript_mono_Suc simp del: toScript.simps)

lemma toScript_complete:
  "normalizes L v s segs s' \<Longrightarrow> \<exists>n. toScript n L v s = Some (Inr (segs, s'))"
  and script_array_complete:
  "normalizes_elements L vs s segs s' \<Longrightarrow>
     \<exists>n. \<forall>ret. script_array (toScript n L) L vs ret s = Some (Inr (ret @ segs, s'))"
proof (induction rule: normalizes_normalizes_elements.inducts)
  case (of_string L str s)
  have "toScript (Suc 0) L (LString str) s = Some (Inr ([[''code'' \<mapsto> str]], s))"
    by (simp add: ok_def)
  then show ?case by blast
next
  case (of_record arr dict m L s)
  then have "toScript (Suc 0) L (LTable arr dict) s = Some (Inr ([m], s))"
    by (simp add: merged_segment_code ok_def)
  then show ?case by blast
next
  case (of_array arr L s segs s' dict)
  then obtain n where
    "script_array (toScript n L) L (map (RawGetInt arr) [1 ..< Suc (MaxN arr)]) [] s
       = Some (Inr ([] @ segs, s'))"
    by blast
  with of_array.hyps(1) have "toScript (Suc n) L (LTable arr dict) s = Some (Inr (segs, s'))"
    by simp
  then show ?case by blast
next
  case (no_element L s)
  show ?case by (simp add: ok_def)
next
  case (callable_element L f s ret s1 segs1 s2 rest segs2 s3)
  from callable_element.IH obtain n1 n2 where
    a: "toScript n1 L ret s1 = Some (Inr (segs1, s2))"
    and b: "\<forall>r0. script_array (toScript n2 L) L rest r0 s2 = Some (Inr (r0 @ segs2, s3))"
    by blast
  let ?n = "max n1 n2"
  from toScript_mono [OF _ a, of ?n] have a': "toScript ?n L ret s1 = Some (Inr (segs1, s2))"
    by simp
  have b': "\<forall>r0. script_array (toScript ?n L) L rest r0 s2 = Some (Inr (r0 @ segs2, s3))"
  proof
    fix r0
    from b have "script_array (toScript n2 L) L rest r0 s2 = Some (Inr (r0 @ segs2, s3))" by blast
    then show "script_array (toScript ?n L) L rest r0 s2 = Some (Inr (r0 @ segs2, s3))"
      by (rule script_array_mono [rotated]) (rule toScript_mono [of n2 ?n], simp_all)
  qed
  have "\<forall>r0. script_array (toScript ?n L) L (LFunction f # rest) r0 s
          = Some (Inr (r0 @ segs1 @ segs2, s3))"
    using callable_element.hyps(1) a' b' by simp
  then show ?case by blast
next
  case (plain_element v L s segs1 s2 rest segs2 s3)
  from plain_element.IH obtain n1 n2 where
    a: "toScript n1 L v s = Some (Inr (segs1, s2))"
    and b: "\<forall>r0. script_array (toScript n2 L) L rest r0 s2 = Some (Inr (r0 @ segs2, s3))"
    by blast
  let ?n = "max n1 n2"
  from toScript_mono [OF _ a, of ?n] have a': "toScript ?n L v s = Some (Inr (segs1, s2))"
    by simp
  have b': "\<forall>r0. script_array (toScript ?n L) L rest r0 s2 = Some (Inr (r0 @ segs2, s3))"
  proof
    fix r0
    from b have "script_array (toScript n2 L) L rest r0 s2 = Some (Inr (r0 @ segs2, s3))" by blast
    then show "script_array (toScript ?n L) L rest r0 s2 = Some (Inr (r0 @ segs2, s3))"
      by (rule script_array_mono [rotated]) (rule toScript_mono [of n2 ?n], simp_all)
  qed
  have "\<forall>r0. script_array (toScript ?n L) L (v # rest) r0 s
          = Some (Inr (r0 @ segs1 @ segs2, s3))"
    using plain_element.hyps(1) a' b' by simp
  then show ?case by blast
qed

lemma record_bad_entry:
  assumes "(k, x) \<in> set es" "toString k = None \<or> coerce x = None"
  shows "merged_segment es = None"
proof -
  from assms have "\<not> (case (k, x) of (k, v) \<Rightarrow> toString k \<noteq> None \<and> coerce v \<noteq> None)"
    by auto
  with assms(1) have "\<not> list_all (\<lambda>(k, v). toString k \<noteq> None \<and> coerce v \<noteq> None) es"
    unfolding list_all_iff by blast
  then show ?thesis by (simp add: merged_segment_def)
qed


lemma merged_segment_entry:
  assumes "merged_segment es = Some seg" "distinct (map fst es)" "(LString ks, x) \<in> set es"
  shows "seg ks = coerce x"
proof -
  let ?f = "\<lambda>(k, v). (the (toString k), the (coerce v))"
  from assms(1) have all: "list_all (\<lambda>(k, v). toString k \<noteq> None \<and> coerce v \<noteq> None) es"
    and seg: "seg = map_of (rev (map ?f es))"
    by (auto simp: merged_segment_def split: if_splits)
  have str: "\<And>k. k \<in> fst ` set es \<Longrightarrow> k = LString (the (toString k))"
  proof -
    fix k assume "k \<in> fst ` set es"
    then obtain v where "(k, v) \<in> set es" by auto
    with all have "toString k \<noteq> None" by (auto simp: list_all_iff)
    then show "k = LString (the (toString k))" by (cases k) simp_all
  qed
  have inj: "inj_on (\<lambda>k. the (toString k)) (fst ` set es)"
  proof (rule inj_onI)
    fix a b assume "a \<in> fst ` set es" "b \<in> fst ` set es" "the (toString a) = the (toString b)"
    with str [of a] str [of b] show "a = b" by simp
  qed
  have eq: "map fst (map ?f es) = map (\<lambda>k. the (toString k)) (map fst es)"
    by (induction es) auto
  have "distinct (map (\<lambda>k. the (toString k)) (map fst es))"
    unfolding distinct_map [of "\<lambda>k. the (toString k)" "map fst es"]
    using assms(2) inj by simp
  then have "distinct (rev (map fst (map ?f es)))"
    unfolding eq by (simp only: distinct_rev)
  then have d: "distinct (map fst (rev (map ?f es)))"
    by (simp only: rev_map)
  from assms(3) have "?f (LString ks, x) \<in> set (rev (map ?f es))"
    by (simp only: set_rev set_map) (rule imageI)
  then have "(ks, the (coerce x)) \<in> set (rev (map ?f es))" by simp
  from map_of_is_SomeI [OF d this] seg have "seg ks = Some (the (coerce x))" by simp
  moreover from all assms(3) have "coerce x \<noteq> None" by (auto simp: list_all_iff)
  ultimately show ?thesis by auto
qed

text \<open>
  Claim C4.  The recursion of \<open>toScript\<close> is bounded in the model by a depth; a result
  found at one depth is found at every greater depth.  With that, \<open>toScript\<close> returns
  segments for a value exactly when the value normalizes to them in the words of the
  specification: a string gives the single segment \<open>{code: value}\<close>; a record with
  \<open>code\<close> gives the one segment that merges its entries, each value coerced to a string
  (with distinct keys, the segment maps every key to the coerced value of its entry);
  an array is processed in index order, callable elements are called without arguments
  and the segments of their results spliced in place, other elements normalized
  themselves.  The fatal cases: a record without \<open>code\<close>, a record with a value that is
  neither string nor boolean (or with a key that is not a string), and any value that
  is neither table nor string.
\<close>

theorem script_normalizer:
  "((\<exists>n. toScript n L v s = Some (Inr (segs, s'))) \<longleftrightarrow> normalizes L v s segs s')
   \<and> (n \<le> m \<and> toScript n L v s = Some r \<longrightarrow> toScript m L v s = Some r)
   \<and> toScript (Suc n) L (LString str) s = ok ([[''code'' \<mapsto> str]], s)
   \<and> (MaxN arr = 0 \<and> RawGetString dict ''code'' = LNil \<longrightarrow>
        toScript (Suc n) L (LTable arr dict) s
          = fail (Errorf ''if a 'script' entry is table, it has to have 'code' property.''))
   \<and> (MaxN arr = 0 \<and> RawGetString dict ''code'' \<noteq> LNil
        \<and> merged_segment (ForEach arr dict) = Some seg \<longrightarrow>
        toScript (Suc n) L (LTable arr dict) s = ok ([seg], s))
   \<and> (merged_segment (ForEach arr dict) = Some seg \<and> distinct (map fst (ForEach arr dict))
        \<and> (LString ks, x) \<in> set (ForEach arr dict) \<longrightarrow> seg ks = coerce x)
   \<and> (MaxN arr = 0 \<and> RawGetString dict ''code'' \<noteq> LNil
        \<and> (k, x) \<in> set (ForEach arr dict) \<and> (toString k = None \<or> coerce x = None) \<longrightarrow>
        (\<exists>e. toScript (Suc n) L (LTable arr dict) s = fail e))
   \<and> (toLTable v = None \<and> toString v = None \<longrightarrow>
        toScript (Suc n) L v s = fail (Errorf (q @ ''script'' @ q @ '' got a invalid value.'')))"
proof -
  have c1: "(\<exists>n. toScript n L v s = Some (Inr (segs, s'))) \<longleftrightarrow> normalizes L v s segs s'"
    using toScript_sound [of _ L v s segs s'] toScript_complete [of L v s segs s'] by blast
  have c2: "n \<le> m \<and> toScript n L v s = Some r \<longrightarrow> toScript m L v s = Some r"
    using toScript_mono [of n m L v s r] by blast
  have c3: "toScript (Suc n) L (LString str) s = ok ([[''code'' \<mapsto> str]], s)"
    by simp
  have c4: "MaxN arr = 0 \<and> RawGetString dict ''code'' = LNil \<longrightarrow>
        toScript (Suc n) L (LTable arr dict) s
          = fail (Errorf ''if a 'script' entry is table, it has to have 'code' property.'')"
    by simp
  have c5: "MaxN arr = 0 \<and> RawGetString dict ''code'' \<noteq> LNil
        \<and> merged_segment (ForEach arr dict) = Some seg \<longrightarrow>
        toScript (Suc n) L (LTable arr dict) s = ok ([seg], s)"
    by (simp add: merged_segment_code)
  have c6: "merged_segment (ForEach arr dict) = Some seg \<and> distinct (map fst (ForEach arr dict))
        \<and> (LString ks, x) \<in> set (ForEach arr dict) \<longrightarrow> seg ks = coerce x"
    using merged_segment_entry [of "ForEach arr dict" seg ks x] by blast
  have c7: "MaxN arr = 0 \<and> RawGetString dict ''code'' \<noteq> LNil
        \<and> (k, x) \<in> set (ForEach arr dict) \<and> (toString k = None \<or> coerce x = None) \<longrightarrow>
        (\<exists>e. toScript (Suc n) L (LTable arr dict) s = fail e)"
  proof (intro impI, elim conjE)
    assume a: "MaxN arr = 0" "RawGetString dict ''code'' \<noteq> LNil"
      "(k, x) \<in> set (ForEach arr dict)" "toString k = None \<or> coerce x = None"
    from record_bad_entry [OF a(3,4)] obtain e where
      "script_entries (ForEach arr dict) Map.empty = Inl e"
      by (auto simp: merged_segment_none)
    with a(1,2) have "toScript (Suc n) L (LTable arr dict) s = fail e" by simp
    then show "\<exists>e. toScript (Suc n) L (LTable arr dict) s = fail e" by blast
  qed
  have c8: "toLTable v = None \<and> toString v = None \<longrightarrow>
        toScript (Suc n) L v s = fail (Errorf (q @ ''script'' @ q @ '' got a invalid value.''))"
    by (cases v) simp_all
  show ?thesis
    by (intro conjI c1 c2 c3 c4 c5 c6 c7 c8)
qed

theorem script_normalizer_witness:
  "toScript (Suc (Suc 0)) example_L
     (LTable [LString ''a'', LTable [] [(LString ''code'', LString ''b''), (LString ''sudo'', LBool True)]] [])
     0 = Some (Inr ([[''code'' \<mapsto> ''a''], [''code'' \<mapsto> ''b'', ''sudo'' \<mapsto> ''true'']], 0))
   \<and> normalizes example_L
     (LTable [LString ''a'', LTable [] [(LString ''code'', LString ''b''), (LString ''sudo'', LBool True)]] [])
     0 [[''code'' \<mapsto> ''a''], [''code'' \<mapsto> ''b'', ''sudo'' \<mapsto> ''true'']] 0
   \<and> toScript (Suc (Suc 0)) example_L (LTable [LFunction (LuaFn 0), LString ''x''] []) 0
       = Some (Inr ([[''code'' \<mapsto> ''bash''], [''code'' \<mapsto> ''x'']], 1))
   \<and> normalizes example_L (LTable [LFunction (LuaFn 0), LString ''x''] []) 0
       [[''code'' \<mapsto> ''bash''], [''code'' \<mapsto> ''x'']] 1
   \<and> MaxN [] = 0 \<and> RawGetString [(LString ''sudo'', LBool True)] ''code'' = LNil
   \<and> toScript (Suc 0) example_L (LTable [] [(LString ''sudo'', LBool True)]) 0
       = fail (Errorf ''if a 'script' entry is table, it has to have 'code' property.'')
   \<and> toLTable (LNumber 5) = None \<and> toString (LNumber 5) = None
   \<and> toScript (Suc 0) example_L (LNumber 5) 0
       = fail (Errorf (q @ ''script'' @ q @ '' got a invalid value.''))"
proof -
  let ?v = "LTable [LString ''a'', LTable [] [(LString ''code'', LString ''b''), (LString ''sudo'', LBool True)]] []"
  let ?segs = "[[''code'' \<mapsto> ''a''], [''code'' \<mapsto> ''b'', ''sudo'' \<mapsto> ''true'']]"
  let ?w = "LTable [LFunction (LuaFn 0), LString ''x''] []"
  let ?wsegs = "[[''code'' \<mapsto> ''bash''], [''code'' \<mapsto> ''x'']]"
  have h1: "toScript (Suc (Suc 0)) example_L ?v 0 = Some (Inr (?segs, 0))"
    by (simp add: MaxN_def RawGetInt_def RawGetString_def ForEach_def script_value_def ok_def)
  have h2: "toScript (Suc (Suc 0)) example_L ?w 0 = Some (Inr (?wsegs, 1))"
    by (simp add: MaxN_def RawGetInt_def ok_def example_L_def)
  have h3: "MaxN [] = 0" "RawGetString [(LString ''sudo'', LBool True)] ''code'' = LNil"
    by (simp_all add: MaxN_def RawGetString_def)
  have h4: "toLTable (LNumber 5) = None" "toString (LNumber 5) = None"
    by simp_all
  note a = script_normalizer [of example_L ?v 0 ?segs 0 0 0 _ "[]" "[]"
             "[(LString ''sudo'', LBool True)]"]
  note b = script_normalizer [of example_L ?w 0 ?wsegs 1]
  note c = script_normalizer [of example_L "LNumber 5" 0 _ _ 0]
  from a [THEN conjunct1] h1 have r1: "normalizes example_L ?v 0 ?segs 0" by blast
  from b [THEN conjunct1] h2 have r2: "normalizes example_L ?w 0 ?wsegs 1" by blast
  from a [THEN conjunct2, THEN conjunct2, THEN conjunct2, THEN conjunct1] h3
  have r3: "toScript (Suc 0) example_L (LTable [] [(LString ''sudo'', LBool True)]) 0
       = fail (Errorf ''if a 'script' entry is table, it has to have 'code' property.'')"
    by blast
  from c [THEN conjunct2, THEN conjunct2, THEN conjunct2, THEN conjunct2, THEN conjunct2,
          THEN conjunct2, THEN conjunct2] h4
  have r4: "toScript (Suc 0) example_L (LNumber 5) 0
       = fail (Errorf (q @ ''script'' @ q @ '' got a invalid value.''))"
    by blast
  show ?thesis
    by (intro conjI h1 r1 h2 r2 h3 r3 h4 r4)
qed

section \<open>Properties of the script of a task\<close>

lemma script_array_grows:
  assumes "\<And>v s segs s'. rec v s = Some (Inr (segs, s')) \<Longrightarrow> segs \<noteq> []"
  shows "script_array rec L vs ret s = Some (Inr (segs, s')) \<Longrightarrow> vs \<noteq> [] \<or> ret \<noteq> [] \<Longrightarrow> segs \<noteq> []"
proof (induction vs arbitrary: ret s)
  case Nil
  then show ?case by (simp add: ok_def)
next
  case (Cons v rest)
  show ?case
  proof (cases "toLFunction v")
    case None
    with Cons.prems(1) obtain script s'' where
      r: "rec v s = Some (Inr (script, s''))"
      and k: "script_array rec L rest (ret @ script) s'' = Some (Inr (segs, s'))"
      by (auto dest!: bindR_ok)
    from assms [OF r] have "ret @ script \<noteq> []" by simp
    with Cons.IH [OF k] show ?thesis by blast
  next
    case (Some fn)
    with Cons.prems(1) obtain funcRet s0 script s'' where
      r: "rec funcRet s0 = Some (Inr (script, s''))"
      and k: "script_array rec L rest (ret @ script) s'' = Some (Inr (segs, s'))"
      by (auto simp: fail_def dest!: bindR_ok split: sum.splits)
    from assms [OF r] have "ret @ script \<noteq> []" by simp
    with Cons.IH [OF k] show ?thesis by blast
  qed
qed

lemma toScript_nonempty:
  "toScript n L v s = Some (Inr (segs, s')) \<Longrightarrow> segs \<noteq> []"
proof (induction n arbitrary: v s segs s')
  case 0
  then show ?case by simp
next
  case (Suc n)
  show ?case
  proof (cases v)
    case (LTable arr dict)
    show ?thesis
    proof (cases "MaxN arr = 0")
      case True
      with Suc.prems LTable show ?thesis
        by (auto simp: ok_def fail_def split: if_splits sum.splits)
    next
      case False
      with Suc.prems LTable have
        k: "script_array (toScript n L) L (map (RawGetInt arr) [1 ..< Suc (MaxN arr)]) [] s
              = Some (Inr (segs, s'))"
        by simp
      have ne: "map (RawGetInt arr) [1 ..< Suc (MaxN arr)] \<noteq> []"
        using False by (auto simp: Suc_le_eq)
      show ?thesis
      proof (rule script_array_grows [where rec = "toScript n L", OF _ k])
        show "\<And>v s segs s'. toScript n L v s = Some (Inr (segs, s')) \<Longrightarrow> segs \<noteq> []"
          by (rule Suc.IH)
        show "map (RawGetInt arr) [1 ..< Suc (MaxN arr)] \<noteq> [] \<or> [] \<noteq> ([] :: segment list)"
          using ne by blast
      qed
    qed
  qed (use Suc.prems in \<open>auto simp: ok_def fail_def\<close>)
qed


lemma updateTask_frame_fields:
  "updateTask n L ''backend'' v (t, s) = ok (t', s') \<Longrightarrow>
     Task_File t' = Task_File t \<and> Task_Script t' = Task_Script t"
  "updateTask n L ''targets'' v (t, s) = ok (t', s') \<Longrightarrow>
     Task_File t' = Task_File t \<and> Task_Script t' = Task_Script t"
  "updateTask n L ''filters'' v (t, s) = ok (t', s') \<Longrightarrow>
     Task_File t' = Task_File t \<and> Task_Script t' = Task_Script t"
  "updateTask n L ''description'' v (t, s) = ok (t', s') \<Longrightarrow>
     Task_File t' = Task_File t \<and> Task_Script t' = Task_Script t"
  "updateTask n L ''pty'' v (t, s) = ok (t', s') \<Longrightarrow>
     Task_File t' = Task_File t \<and> Task_Script t' = Task_Script t"
  "updateTask n L ''driver'' v (t, s) = ok (t', s') \<Longrightarrow>
     Task_File t' = Task_File t \<and> Task_Script t' = Task_Script t"
  "updateTask n L ''parallel'' v (t, s) = ok (t', s') \<Longrightarrow>
     Task_File t' = Task_File t \<and> Task_Script t' = Task_Script t"
  "updateTask n L ''privileged'' v (t, s) = ok (t', s') \<Longrightarrow>
     Task_File t' = Task_File t \<and> Task_Script t' = Task_Script t"
  "updateTask n L ''disabled'' v (t, s) = ok (t', s') \<Longrightarrow>
     Task_File t' = Task_File t \<and> Task_Script t' = Task_Script t"
  "updateTask n L ''hidden'' v (t, s) = ok (t', s') \<Longrightarrow>
     Task_File t' = Task_File t \<and> Task_Script t' = Task_Script t"
  "updateTask n L ''prefix'' v (t, s) = ok (t', s') \<Longrightarrow>
     Task_File t' = Task_File t \<and> Task_Script t' = Task_Script t"
  "updateTask n L ''prepare'' v (t, s) = ok (t', s') \<Longrightarrow>
     Task_File t' = Task_File t \<and> Task_Script t' = Task_Script t"
  "updateTask n L ''props'' v (t, s) = ok (t', s') \<Longrightarrow>
     Task_File t' = Task_File t \<and> Task_Script t' = Task_Script t"
  "updateTask n L ''args'' v (t, s) = ok (t', s') \<Longrightarrow>
     Task_File t' = Task_File t \<and> Task_Script t' = Task_Script t"
  by (auto simp: updateTask_body Let_def ok_def fail_def split: option.splits sum.splits if_splits)

lemma updateTask_script:
  "updateTask n L ''script'' v (t, s) =
     (case toScript n L v s of
        None \<Rightarrow> None
      | Some (Inl (Errorf m)) \<Rightarrow> fail (RaiseError m)
      | Some (Inl e) \<Rightarrow> fail e
      | Some (Inr (script, s')) \<Rightarrow>
          (if Task_File t \<noteq> [] \<and> script \<noteq> [] then fail script_and_file
           else ok (t\<lparr> Task_LValues := (Task_LValues t)(''script'' \<mapsto> v), Task_Script := script \<rparr>, s')))"
  by (simp add: updateTask_body Let_def split: option.splits sum.splits error.splits prod.splits)

lemma updateTask_script_file:
  "updateTask n L ''script_file'' v (t, s) =
     (case toString v of
        Some fileStr \<Rightarrow>
          (if fileStr \<noteq> [] \<and> Task_Script t \<noteq> [] then fail script_and_file
           else ok (t\<lparr> Task_LValues := (Task_LValues t)(''script_file'' \<mapsto> v), Task_File := fileStr \<rparr>, s))
      | None \<Rightarrow> fail (invalid_task_field ''script_file''))"
  by (simp add: updateTask_body Let_def split: option.splits)


lemma script_then_file:
  "Task_Script t \<noteq> [] \<Longrightarrow> f \<noteq> [] \<Longrightarrow>
     updateTask n L ''script_file'' (LString f) (t, s) = fail script_and_file"
  by (simp add: updateTask_script_file)

lemma file_then_script:
  assumes "Task_File t \<noteq> []" "toScript n L v s = Some (Inr r)"
  shows "updateTask n L ''script'' v (t, s) = fail script_and_file"
proof -
  obtain script s' where r: "toScript n L v s = Some (Inr (script, s'))"
    using assms(2) by (cases r) auto
  from toScript_nonempty [OF r] have ne: "script \<noteq> []" .
  show ?thesis
    unfolding updateTask_script r using assms(1) ne by simp
qed

lemma script_sets:
  assumes "updateTask n L ''script'' v (t, s) = ok (t1, s1)"
  shows "Task_Script t1 \<noteq> [] \<and> Task_File t1 = []"
proof -
  from assms obtain script where
    r: "toScript n L v s = Some (Inr (script, s1))"
    and t1: "t1 = t\<lparr> Task_LValues := (Task_LValues t)(''script'' \<mapsto> v), Task_Script := script \<rparr>"
    and f: "\<not> (Task_File t \<noteq> [] \<and> script \<noteq> [])"
    by (auto simp: updateTask_script ok_def fail_def
             split: option.splits sum.splits error.splits if_splits)
  from toScript_nonempty [OF r] have "script \<noteq> []" .
  with f t1 show ?thesis by simp
qed

lemma file_sets:
  "updateTask n L ''script_file'' v (t, s) = ok (t1, s1) \<Longrightarrow>
     (\<exists>f. v = LString f \<and> Task_File t1 = f \<and> (f \<noteq> [] \<longrightarrow> Task_Script t1 = []))"
  by (cases v) (auto simp: updateTask_script_file ok_def fail_def split: if_splits)

lemma updateTask_key:
  "updateTask n L key v ts = ok r \<Longrightarrow> key \<in> set task_fields"
  using task_unknown [of key n L v ts] by (auto simp: ok_def fail_def)

lemma updateTask_frame:
  assumes "updateTask n L key v (t, s) = ok (t', s')" "key \<noteq> ''script''" "key \<noteq> ''script_file''"
  shows "Task_File t' = Task_File t \<and> Task_Script t' = Task_Script t"
proof -
  from updateTask_key [OF assms(1)] assms(2,3) have
    "key = ''backend'' \<or> key = ''targets'' \<or> key = ''filters'' \<or> key = ''description''
     \<or> key = ''pty'' \<or> key = ''driver'' \<or> key = ''parallel'' \<or> key = ''privileged''
     \<or> key = ''disabled'' \<or> key = ''hidden'' \<or> key = ''prefix'' \<or> key = ''prepare''
     \<or> key = ''props'' \<or> key = ''args''"
    by (simp add: task_fields_def task_schema_def)
  then show ?thesis
    using assms(1) by (elim disjE) (simp_all only: updateTask_frame_fields simp_thms)
qed

lemma never_both:
  assumes "\<not> holds_both t" "updateTask n L key v (t, s) = ok (t', s')"
  shows "\<not> holds_both t'"
proof (cases "key = ''script''")
  case True
  with script_sets [of n L v t s t' s'] assms(2) show ?thesis by (simp add: holds_both_def)
next
  case False
  show ?thesis
  proof (cases "key = ''script_file''")
    case True
    with file_sets [of n L v t s t' s'] assms(2) show ?thesis by (auto simp: holds_both_def)
  next
    case f: False
    from updateTask_frame [OF assms(2) False f] assms(1) show ?thesis
      by (simp add: holds_both_def)
  qed
qed

lemma forEachR_invariant:
  assumes step: "\<And>e a a'. P a \<Longrightarrow> f e a = Some (Inr a') \<Longrightarrow> P a'"
  shows "P a \<Longrightarrow> forEachR es f a = Some (Inr a') \<Longrightarrow> P a'"
proof (induction es arbitrary: a)
  case Nil
  then show ?case by (simp add: ok_def)
next
  case (Cons e es)
  from Cons.prems(2) obtain a1 where a1: "f e a = Some (Inr a1)"
    and rest: "forEachR es f a1 = Some (Inr a')"
    by (auto dest!: bindR_ok)
  from step [OF Cons.prems(1) a1] have "P a1" .
  from Cons.IH [OF this rest] show ?case .
qed

lemma setupTask_entry_never_both:
  assumes "\<not> holds_both (fst a)" and "setupTask_entry n L e a = Some (Inr a')"
  shows "\<not> holds_both (fst a')"
proof (cases "toString (fst e)")
  case None
  with assms show ?thesis by (simp add: setupTask_entry_def ok_def)
next
  case (Some kstr)
  obtain t0 s0 where a: "a = (t0, s0)" by (cases a) auto
  obtain t1 s1 where a': "a' = (t1, s1)" by (cases a') auto
  from Some assms(2) a a' have "updateTask n L kstr (snd e) (t0, s0) = ok (t1, s1)"
    by (simp add: setupTask_entry_def ok_def)
  from never_both [OF _ this] assms(1) a a' show ?thesis by simp
qed

lemma setupTask_never_both:
  assumes "\<not> holds_both t" "setupTask n L config (t, s) = ok (t', s')"
  shows "\<not> holds_both t'"
proof -
  have "\<not> holds_both (fst (t', s'))"
  proof (rule forEachR_invariant [where P = "\<lambda>a. \<not> holds_both (fst a)" and a = "(t, s)"
                                   and f = "setupTask_entry n L"])
    show "\<not> holds_both (fst (t, s))" using assms(1) by simp
    show "forEachR (ForEach (fst config) (snd config)) (setupTask_entry n L) (t, s)
            = Some (Inr (t', s'))"
      using assms(2) by (simp add: setupTask_def ok_def)
  qed (rule setupTask_entry_never_both)
  then show ?thesis by simp
qed

text \<open>
  When the assignment returns.  If \<open>script\<close> was assigned, assigning a non-empty
  \<open>script_file\<close> fails with the mutual-exclusion error; if a non-empty \<open>script_file\<close>
  was assigned, assigning a \<open>script\<close> that normalizes fails with the same error (a
  normalized script is never empty).  No other field touches the two.  A new task does
  not hold both a script and a script file, and neither does any task returned by a
  field assignment or by setting up from a table, if the task did not hold both before.
\<close>

lemma returning_updates_never_both:
  "(updateTask n L ''script'' v (t, s) = ok (t1, s1) \<and> f \<noteq> [] \<longrightarrow>
      updateTask m L ''script_file'' (LString f) (t1, s2) = fail script_and_file)
   \<and> (updateTask n L ''script_file'' (LString f) (t, s) = ok (t1, s1) \<and> f \<noteq> []
        \<and> toScript m L v s2 = Some (Inr r) \<longrightarrow>
      updateTask m L ''script'' v (t1, s2) = fail script_and_file)
   \<and> (updateTask n L key v (t, s) = ok (t1, s1) \<and> key \<noteq> ''script'' \<and> key \<noteq> ''script_file'' \<longrightarrow>
      Task_File t1 = Task_File t \<and> Task_Script t1 = Task_Script t)
   \<and> \<not> holds_both NewTask
   \<and> (\<not> holds_both t \<and> updateTask n L key v (t, s) = ok (t1, s1) \<longrightarrow> \<not> holds_both t1)
   \<and> (\<not> holds_both t \<and> setupTask n L config (t, s) = ok (t1, s1) \<longrightarrow> \<not> holds_both t1)"
proof -
  have a: "updateTask n L ''script'' v (t, s) = ok (t1, s1) \<and> f \<noteq> [] \<longrightarrow>
      updateTask m L ''script_file'' (LString f) (t1, s2) = fail script_and_file"
    using script_sets [of n L v t s t1 s1] script_then_file [of t1 f m L s2] by blast
  have b: "updateTask n L ''script_file'' (LString f) (t, s) = ok (t1, s1) \<and> f \<noteq> []
        \<and> toScript m L v s2 = Some (Inr r) \<longrightarrow>
      updateTask m L ''script'' v (t1, s2) = fail script_and_file"
    using file_sets [of n L "LString f" t s t1 s1] file_then_script [of t1 m L v s2 r] by auto
  have c: "updateTask n L key v (t, s) = ok (t1, s1) \<and> key \<noteq> ''script'' \<and> key \<noteq> ''script_file'' \<longrightarrow>
      Task_File t1 = Task_File t \<and> Task_Script t1 = Task_Script t"
    using updateTask_frame [of n L key v t s t1 s1] by blast
  have d: "\<not> holds_both NewTask"
    by (simp add: holds_both_def NewTask_def)
  have e: "\<not> holds_both t \<and> updateTask n L key v (t, s) = ok (t1, s1) \<longrightarrow> \<not> holds_both t1"
    using never_both [of t n L key v s t1 s1] by blast
  have g: "\<not> holds_both t \<and> setupTask n L config (t, s) = ok (t1, s1) \<longrightarrow> \<not> holds_both t1"
    using setupTask_never_both [of t n L config s t1 s1] by blast
  show ?thesis
    by (intro conjI a b c d e g)
qed

text \<open>
  When the assignment raises.  The two fields are assigned before they are checked, so
  the task that the rejected assignment leaves behind holds both a script and a script
  file, in either order.
\<close>

lemma updateTask_in_place_script_file:
  "updateTask_in_place n L ''script_file'' (LString f) (t, s)
     = (t\<lparr> Task_LValues := (Task_LValues t)(''script_file'' \<mapsto> LString f), Task_File := f \<rparr>,
        if f \<noteq> [] \<and> Task_Script t \<noteq> [] then fail script_and_file else ok s)"
  by (simp add: updateTask_in_place_def Let_def)

lemma updateTask_in_place_script:
  assumes "toScript n L v s = Some (Inr (script, s'))"
  shows "updateTask_in_place n L ''script'' v (t, s)
     = (t\<lparr> Task_LValues := (Task_LValues t)(''script'' \<mapsto> v), Task_Script := script \<rparr>,
        if Task_File t \<noteq> [] \<and> script \<noteq> [] then fail script_and_file else ok s')"
  using assms by (simp add: updateTask_in_place_def Let_def)

lemma file_after_script_keeps_both:
  assumes "Task_Script t \<noteq> []" "f \<noteq> []"
  shows "snd (updateTask_in_place n L ''script_file'' (LString f) (t, s)) = fail script_and_file
     \<and> holds_both (fst (updateTask_in_place n L ''script_file'' (LString f) (t, s)))"
  using assms by (simp add: updateTask_in_place_script_file holds_both_def)

lemma script_after_file_keeps_both:
  assumes "Task_File t \<noteq> []" "toScript n L v s = Some (Inr (script, s'))"
  shows "snd (updateTask_in_place n L ''script'' v (t, s)) = fail script_and_file
     \<and> holds_both (fst (updateTask_in_place n L ''script'' v (t, s)))"
proof -
  from assms(2) have "script \<noteq> []" by (rule toScript_nonempty)
  with assms(1) show ?thesis
    by (simp add: updateTask_in_place_script [OF assms(2)] holds_both_def)
qed

text \<open>
  Claim C7, at a task that the code leaves holding both.  After
  \<open>t = task "deploy" { script = "echo hi" }\<close> the statement \<open>t.script_file = "deploy.sh"\<close>
  raises the mutual-exclusion error, and the task registered under \<open>deploy\<close> then has
  the script and the script file.  It is the same in the other order: after
  \<open>t = task "deploy" { script_file = "deploy.sh" }\<close> the statement \<open>t.script = "echo hi"\<close>
  raises the error and leaves both.  A declaration whose table has both fields raises
  the error as well, whichever comes first.
\<close>

theorem rejected_assignment_keeps_both:
  "esshTask 1 example_L example_D
       [LString ''deploy'', LTable [] [(LString ''script'', LString ''echo hi'')]] (init_world, 0)
     = ok (LUserData (UTask 0), scripted_world, 0)
   \<and> (case taskNewindex 1 example_L
             [LUserData (UTask 0), LString ''script_file'', LString ''deploy.sh'']
             (scripted_world, 0) of
        (w, r) \<Rightarrow>
          r = fail script_and_file
          \<and> Tasks w ''deploy'' = Some 0
          \<and> Task_Script (taskHeap w ! 0) = [[''code'' \<mapsto> ''echo hi'']]
          \<and> Task_File (taskHeap w ! 0) = ''deploy.sh''
          \<and> holds_both (taskHeap w ! 0))
   \<and> esshTask 1 example_L example_D
       [LString ''deploy'', LTable [] [(LString ''script_file'', LString ''deploy.sh'')]]
       (init_world, 0)
     = ok (LUserData (UTask 0), filed_world, 0)
   \<and> (case taskNewindex 1 example_L
             [LUserData (UTask 0), LString ''script'', LString ''echo hi'']
             (filed_world, 0) of
        (w, r) \<Rightarrow>
          r = fail script_and_file
          \<and> Tasks w ''deploy'' = Some 0
          \<and> Task_Script (taskHeap w ! 0) = [[''code'' \<mapsto> ''echo hi'']]
          \<and> Task_File (taskHeap w ! 0) = ''deploy.sh''
          \<and> holds_both (taskHeap w ! 0))
   \<and> esshTask 1 example_L example_D
       [LString ''deploy'', LTable [] [(LString ''script'', LString ''echo hi''),
                                       (LString ''script_file'', LString ''deploy.sh'')]]
       (init_world, 0)
     = fail script_and_file
   \<and> esshTask 1 example_L example_D
       [LString ''deploy'', LTable [] [(LString ''script_file'', LString ''deploy.sh''),
                                       (LString ''script'', LString ''echo hi'')]]
       (init_world, 0)
     = fail script_and_file"
proof -
  have a: "esshTask 1 example_L example_D
       [LString ''deploy'', LTable [] [(LString ''script'', LString ''echo hi'')]] (init_world, 0)
     = ok (LUserData (UTask 0), scripted_world, 0)"
    by (simp add: esshTask_def CheckAny_def CheckString_def CheckTable_def
          register_and_setup_def registerTask_def setupTask_def setupTask_entry_def ForEach_def
          updateTask_script ok_def init_world_def scripted_world_def NewTask_def Let_def)
  have b: "case taskNewindex 1 example_L
             [LUserData (UTask 0), LString ''script_file'', LString ''deploy.sh'']
             (scripted_world, 0) of
        (w, r) \<Rightarrow>
          r = fail script_and_file
          \<and> Tasks w ''deploy'' = Some 0
          \<and> Task_Script (taskHeap w ! 0) = [[''code'' \<mapsto> ''echo hi'']]
          \<and> Task_File (taskHeap w ! 0) = ''deploy.sh''
          \<and> holds_both (taskHeap w ! 0)"
    by (simp add: taskNewindex_def checkTask_def CheckString_def CheckAny_def
          updateTask_in_place_script_file scripted_world_def init_world_def holds_both_def)
  have c: "esshTask 1 example_L example_D
       [LString ''deploy'', LTable [] [(LString ''script_file'', LString ''deploy.sh'')]]
       (init_world, 0)
     = ok (LUserData (UTask 0), filed_world, 0)"
    by (simp add: esshTask_def CheckAny_def CheckString_def CheckTable_def
          register_and_setup_def registerTask_def setupTask_def setupTask_entry_def ForEach_def
          updateTask_script_file ok_def init_world_def filed_world_def NewTask_def Let_def)
  have s: "toScript (Suc 0) example_L (LString ''echo hi'') 0
             = Some (Inr ([[''code'' \<mapsto> ''echo hi'']], 0))"
    by (simp add: ok_def)
  have d: "case taskNewindex 1 example_L
             [LUserData (UTask 0), LString ''script'', LString ''echo hi'']
             (filed_world, 0) of
        (w, r) \<Rightarrow>
          r = fail script_and_file
          \<and> Tasks w ''deploy'' = Some 0
          \<and> Task_Script (taskHeap w ! 0) = [[''code'' \<mapsto> ''echo hi'']]
          \<and> Task_File (taskHeap w ! 0) = ''deploy.sh''
          \<and> holds_both (taskHeap w ! 0)"
    by (simp add: taskNewindex_def checkTask_def CheckString_def CheckAny_def
          updateTask_in_place_script [OF s] filed_world_def init_world_def holds_both_def)
  have e: "esshTask 1 example_L example_D
       [LString ''deploy'', LTable [] [(LString ''script'', LString ''echo hi''),
                                       (LString ''script_file'', LString ''deploy.sh'')]]
       (init_world, 0)
     = fail script_and_file"
    by (simp add: esshTask_def CheckAny_def CheckString_def CheckTable_def
          register_and_setup_def registerTask_def setupTask_def setupTask_entry_def ForEach_def
          updateTask_script updateTask_script_file ok_def fail_def init_world_def NewTask_def
          Let_def)
  have f: "esshTask 1 example_L example_D
       [LString ''deploy'', LTable [] [(LString ''script_file'', LString ''deploy.sh''),
                                       (LString ''script'', LString ''echo hi'')]]
       (init_world, 0)
     = fail script_and_file"
    by (simp add: esshTask_def CheckAny_def CheckString_def CheckTable_def
          register_and_setup_def registerTask_def setupTask_def setupTask_entry_def ForEach_def
          updateTask_script updateTask_script_file ok_def fail_def init_world_def NewTask_def
          Let_def)
  show ?thesis
    by (intro conjI a b c d e f)
qed

section \<open>Properties of anonymous tasks\<close>

lemma updateTask_links_fields:
  "updateTask n L ''backend'' v (t, s) = ok (t', s') \<Longrightarrow>
     Task_Child t' = Task_Child t \<and> Task_Name t' = Task_Name t"
  "updateTask n L ''targets'' v (t, s) = ok (t', s') \<Longrightarrow>
     Task_Child t' = Task_Child t \<and> Task_Name t' = Task_Name t"
  "updateTask n L ''filters'' v (t, s) = ok (t', s') \<Longrightarrow>
     Task_Child t' = Task_Child t \<and> Task_Name t' = Task_Name t"
  "updateTask n L ''description'' v (t, s) = ok (t', s') \<Longrightarrow>
     Task_Child t' = Task_Child t \<and> Task_Name t' = Task_Name t"
  "updateTask n L ''pty'' v (t, s) = ok (t', s') \<Longrightarrow>
     Task_Child t' = Task_Child t \<and> Task_Name t' = Task_Name t"
  "updateTask n L ''driver'' v (t, s) = ok (t', s') \<Longrightarrow>
     Task_Child t' = Task_Child t \<and> Task_Name t' = Task_Name t"
  "updateTask n L ''parallel'' v (t, s) = ok (t', s') \<Longrightarrow>
     Task_Child t' = Task_Child t \<and> Task_Name t' = Task_Name t"
  "updateTask n L ''privileged'' v (t, s) = ok (t', s') \<Longrightarrow>
     Task_Child t' = Task_Child t \<and> Task_Name t' = Task_Name t"
  "updateTask n L ''disabled'' v (t, s) = ok (t', s') \<Longrightarrow>
     Task_Child t' = Task_Child t \<and> Task_Name t' = Task_Name t"
  "updateTask n L ''hidden'' v (t, s) = ok (t', s') \<Longrightarrow>
     Task_Child t' = Task_Child t \<and> Task_Name t' = Task_Name t"
  "updateTask n L ''script'' v (t, s) = ok (t', s') \<Longrightarrow>
     Task_Child t' = Task_Child t \<and> Task_Name t' = Task_Name t"
  "updateTask n L ''script_file'' v (t, s) = ok (t', s') \<Longrightarrow>
     Task_Child t' = Task_Child t \<and> Task_Name t' = Task_Name t"
  "updateTask n L ''prefix'' v (t, s) = ok (t', s') \<Longrightarrow>
     Task_Child t' = Task_Child t \<and> Task_Name t' = Task_Name t"
  "updateTask n L ''prepare'' v (t, s) = ok (t', s') \<Longrightarrow>
     Task_Child t' = Task_Child t \<and> Task_Name t' = Task_Name t"
  "updateTask n L ''props'' v (t, s) = ok (t', s') \<Longrightarrow>
     Task_Child t' = Task_Child t \<and> Task_Name t' = Task_Name t"
  "updateTask n L ''args'' v (t, s) = ok (t', s') \<Longrightarrow>
     Task_Child t' = Task_Child t \<and> Task_Name t' = Task_Name t"
  by (auto simp: updateTask_body Let_def ok_def fail_def
           split: option.splits sum.splits error.splits if_splits)

lemma updateTask_links:
  assumes "updateTask n L key v (t, s) = ok (t', s')"
  shows "Task_Child t' = Task_Child t \<and> Task_Name t' = Task_Name t"
proof -
  from updateTask_key [OF assms] have
    "key = ''backend'' \<or> key = ''targets'' \<or> key = ''filters'' \<or> key = ''description''
     \<or> key = ''pty'' \<or> key = ''driver'' \<or> key = ''parallel'' \<or> key = ''privileged''
     \<or> key = ''disabled'' \<or> key = ''hidden'' \<or> key = ''script'' \<or> key = ''script_file''
     \<or> key = ''prefix'' \<or> key = ''prepare'' \<or> key = ''props'' \<or> key = ''args''"
    by (simp add: task_fields_def task_schema_def)
  then show ?thesis
    using assms by (elim disjE) (simp_all only: updateTask_links_fields simp_thms)
qed

lemma setupTask_entry_links:
  assumes "Task_Child (fst a) = c \<and> Task_Name (fst a) = nm"
    and "setupTask_entry n L e a = Some (Inr a')"
  shows "Task_Child (fst a') = c \<and> Task_Name (fst a') = nm"
proof (cases "toString (fst e)")
  case None
  with assms show ?thesis by (simp add: setupTask_entry_def ok_def)
next
  case (Some kstr)
  obtain t0 s0 where a: "a = (t0, s0)" by (cases a) auto
  obtain t1 s1 where a': "a' = (t1, s1)" by (cases a') auto
  from Some assms(2) a a' have "updateTask n L kstr (snd e) (t0, s0) = ok (t1, s1)"
    by (simp add: setupTask_entry_def ok_def)
  from updateTask_links [OF this] assms(1) a a' show ?thesis by simp
qed

lemma setupTask_links:
  assumes "setupTask n L config (t, s) = ok (t', s')"
  shows "Task_Child t' = Task_Child t \<and> Task_Name t' = Task_Name t"
proof -
  have "Task_Child (fst (t', s')) = Task_Child t \<and> Task_Name (fst (t', s')) = Task_Name t"
  proof (rule forEachR_invariant
           [where P = "\<lambda>a. Task_Child (fst a) = Task_Child t \<and> Task_Name (fst a) = Task_Name t"
              and a = "(t, s)" and f = "setupTask_entry n L"])
    show "Task_Child (fst (t, s)) = Task_Child t \<and> Task_Name (fst (t, s)) = Task_Name t" by simp
    show "forEachR (ForEach (fst config) (snd config)) (setupTask_entry n L) (t, s)
            = Some (Inr (t', s'))"
      using assms by (simp add: setupTask_def ok_def)
  qed (rule setupTask_entry_links)
  then show ?thesis by simp
qed

lemma register_and_setup_result:
  assumes "register_and_setup n L name tb (w, s) = ok (ud, w1, s1)"
  shows "\<exists>p w' t. registerTask name w = (p, w') \<and> ud = LUserData (UTask p)
           \<and> w1 = w'\<lparr> taskHeap := (taskHeap w')[p := t] \<rparr>
           \<and> Task_Child t = Task_Child (taskHeap w' ! p)
           \<and> Task_Name t = Task_Name (taskHeap w' ! p)"
proof -
  obtain p w' where r: "registerTask name w = (p, w')" by (cases "registerTask name w") auto
  with assms obtain t s' where st: "setupTask n L tb (taskHeap w' ! p, s) = Some (Inr (t, s'))"
    and res: "(ud, w1, s1) = (LUserData (UTask p), w'\<lparr> taskHeap := (taskHeap w')[p := t] \<rparr>, s')"
    by (auto simp: register_and_setup_def ok_def dest!: bindR_ok)
  from st have "setupTask n L tb (taskHeap w' ! p, s) = ok (t, s')" by (simp add: ok_def)
  from setupTask_links [OF this] r res show ?thesis by auto
qed

lemma esshTask_anonymous:
  "esshTask n L D [LTable arr dict] ws = register_and_setup n L (DefaultTaskName D) (arr, dict) ws"
  by (simp add: esshTask_def CheckAny_def)

text \<open>
  Claim C10.  Two declarations \<open>task(config)\<close> with a table as only argument, the
  second in the world the first has left (the interpreter state may have moved on),
  both successful: each task is registered under the default task name; after the
  second, that name is mapped to the second task, no name is mapped to the first, and
  the first, still in the arena under the default name, is the override link of the
  second.
\<close>

theorem anonymous_tasks_shadow:
  assumes ok: "registry_ok KTask w"
    and d1: "esshTask n L D [LTable arr1 dict1] (w, s) = ok (ud1, w1, s1)"
    and d2: "esshTask m L D [LTable arr2 dict2] (w1, s1') = ok (ud2, w2, s2)"
  shows "\<exists>p1 p2. ud1 = LUserData (UTask p1) \<and> ud2 = LUserData (UTask p2)
           \<and> Task_Name (taskHeap w1 ! p1) = DefaultTaskName D
           \<and> Task_Name (taskHeap w2 ! p2) = DefaultTaskName D
           \<and> Tasks w1 (DefaultTaskName D) = Some p1
           \<and> Tasks w2 (DefaultTaskName D) = Some p2
           \<and> p2 \<noteq> p1 \<and> (\<forall>name. Tasks w2 name \<noteq> Some p1)
           \<and> Task_Child (taskHeap w2 ! p2) = Some p1
           \<and> p1 < length (taskHeap w2) \<and> Task_Name (taskHeap w2 ! p1) = DefaultTaskName D"
proof -
  let ?n = "DefaultTaskName D"
  from d1 have "register_and_setup n L ?n (arr1, dict1) (w, s) = ok (ud1, w1, s1)"
    by (simp add: esshTask_anonymous)
  from register_and_setup_result [OF this] obtain p1 w1' t1 where
    r1: "registerTask ?n w = (p1, w1')" and u1: "ud1 = LUserData (UTask p1)"
    and w1: "w1 = w1'\<lparr> taskHeap := (taskHeap w1')[p1 := t1] \<rparr>"
    and c1: "Task_Child t1 = Task_Child (taskHeap w1' ! p1)"
    and n1: "Task_Name t1 = Task_Name (taskHeap w1' ! p1)"
    by blast
  from d2 have "register_and_setup m L ?n (arr2, dict2) (w1, s1') = ok (ud2, w2, s2)"
    by (simp add: esshTask_anonymous)
  from register_and_setup_result [OF this] obtain p2 w2' t2 where
    r2: "registerTask ?n w1 = (p2, w2')" and u2: "ud2 = LUserData (UTask p2)"
    and w2: "w2 = w2'\<lparr> taskHeap := (taskHeap w2')[p2 := t2] \<rparr>"
    and c2: "Task_Child t2 = Task_Child (taskHeap w2' ! p2)"
    and n2: "Task_Name t2 = Task_Name (taskHeap w2' ! p2)"
    by blast
  from register_fresh [of KTask ?n w p1 w1'] r1 have
    f1: "p1 = length (taskHeap w)" "length (taskHeap w1') = Suc p1" "Tasks w1' = (Tasks w)(?n \<mapsto> p1)"
    by simp_all
  have l1: "length (taskHeap w1) = Suc p1" and t1': "Tasks w1 = (Tasks w)(?n \<mapsto> p1)"
    using w1 f1 by simp_all
  from register_fresh [of KTask ?n w1 p2 w2'] r2 have
    f2: "p2 = Suc p1" "length (taskHeap w2') = Suc p2" "Tasks w2' = (Tasks w1)(?n \<mapsto> p2)"
    using l1 by simp_all
  have l2: "length (taskHeap w2) = Suc p2" and t2': "Tasks w2 = (Tasks w1)(?n \<mapsto> p2)"
    using w2 f2 by simp_all
  have nm1: "Task_Name (taskHeap w1 ! p1) = ?n"
    using register_name [of KTask ?n w p1 w1'] r1 n1 w1 f1 by simp
  have nm2: "Task_Name (taskHeap w2 ! p2) = ?n"
    using register_name [of KTask ?n w1 p2 w2'] r2 n2 w2 f2 by simp
  have look1: "Tasks w1 ?n = Some p1" using t1' by simp
  have look2: "Tasks w2 ?n = Some p2" using t2' by simp
  have ne: "p2 \<noteq> p1" using f2 by simp
  have gone: "\<forall>name. Tasks w2 name \<noteq> Some p1"
  proof
    fix name
    show "Tasks w2 name \<noteq> Some p1"
    proof (cases "name = ?n")
      case True
      with look2 ne show ?thesis by simp
    next
      case False
      then have "Tasks w2 name = Tasks w name" using t1' t2' by simp
      moreover have "Tasks w name \<noteq> Some p1" using ok f1(1) by (auto simp: registry_ok_def)
      ultimately show ?thesis by simp
    qed
  qed
  have "override_predecessor KTask w2' p2 = Some p1"
    using register_link [of KTask w1 ?n p1 p2 w2'] look1 r2 by simp
  then have child: "Task_Child (taskHeap w2 ! p2) = Some p1"
    using c2 w2 f2 by simp
  have still: "p1 < length (taskHeap w2)" using l2 f2 by simp
  have "name_of KTask w2' p1 = name_of KTask w1 p1"
    using register_keeps_name [of p1 KTask w1 ?n p2 w2'] r2 l1 by simp
  then have nm1': "Task_Name (taskHeap w2 ! p1) = ?n"
    using nm1 w2 ne f2 by simp
  from u1 u2 nm1 nm2 look1 look2 ne gone child still nm1' show ?thesis by blast
qed


theorem anonymous_tasks_shadow_witness:
  "registry_ok KTask init_world
   \<and> esshTask 1 example_L example_D [LTable [] [(LString ''description'', LString ''first'')]]
         (init_world, 0) = ok (LUserData (UTask 0), anonymous_once, 0)
   \<and> esshTask 1 example_L example_D [LTable [] [(LString ''description'', LString ''second'')]]
         (anonymous_once, 0) = ok (LUserData (UTask 1), anonymous_twice, 0)
   \<and> Tasks anonymous_twice (DefaultTaskName example_D) = Some 1
   \<and> Task_Child (taskHeap anonymous_twice ! 1) = Some 0
   \<and> (\<forall>name. Tasks anonymous_twice name \<noteq> Some 0)"
proof -
  have h1: "registry_ok KTask init_world"
    by (simp add: registry_ok_def init_world_def)
  have h2: "esshTask 1 example_L example_D [LTable [] [(LString ''description'', LString ''first'')]]
         (init_world, 0) = ok (LUserData (UTask 0), anonymous_once, 0)"
    by (simp add: esshTask_anonymous register_and_setup_def registerTask_def setupTask_def
          setupTask_entry_def ForEach_def updateTask_body ok_def example_D_def init_world_def
          anonymous_once_def NewTask_def Let_def)
  have h3: "esshTask 1 example_L example_D [LTable [] [(LString ''description'', LString ''second'')]]
         (anonymous_once, 0) = ok (LUserData (UTask 1), anonymous_twice, 0)"
    by (simp add: esshTask_anonymous register_and_setup_def registerTask_def setupTask_def
          setupTask_entry_def ForEach_def updateTask_body ok_def example_D_def init_world_def
          anonymous_once_def anonymous_twice_def NewTask_def Let_def)
  from anonymous_tasks_shadow [OF h1 h2 h3] have
    "Tasks anonymous_twice (DefaultTaskName example_D) = Some 1
     \<and> Task_Child (taskHeap anonymous_twice ! 1) = Some 0
     \<and> (\<forall>name. Tasks anonymous_twice name \<noteq> Some 0)"
    by auto
  with h1 h2 h3 show ?thesis by blast
qed

section \<open>Properties of the module importer\<close>

lemma fetches_append: "fetches (xs @ ys) = fetches xs @ fetches ys"
  by (induction xs rule: fetches.induct) simp_all

lemma evaluations_append: "evaluations (xs @ ys) = evaluations xs @ evaluations ys"
  by (induction xs rule: evaluations.induct) simp_all

lemma Load_result:
  assumes "Load sys name update s = (evs, Inr s1)"
  shows "s1 = s\<lparr> fs := fs s1 \<rparr> \<and> evaluations evs = []
         \<and> fetches evs = (if \<not> update \<and> fs s (Dir sys s name) = Exists then []
                          else [(name, Dir sys s name)])"
  using assms
  by (auto simp: Load_def Let_def fetches_append evaluations_append
           split: if_splits sum.splits)

lemma esshImport_guards:
  "CheckString L args 1 = Inr name \<Longrightarrow> essh_global s \<Longrightarrow> essh_module s \<noteq> LNil \<Longrightarrow>
     esshImport sys L args s = ([], Inl (RaiseError nested_import))"
  "CheckString L args 1 = Inr name \<Longrightarrow> essh_global s \<Longrightarrow> essh_module s = LNil \<Longrightarrow>
     LoadedModules s name = Some loaded \<Longrightarrow>
     esshImport sys L args s = ([], Inr (Module_Value loaded, s))"
  by (simp_all add: esshImport_def)

lemma esshImport_success:
  assumes "esshImport sys L args s = (evs, Inr (v, s'))"
  shows "essh_global s \<and> essh_module s = LNil \<and> (\<exists>name. CheckString L args 1 = Inr name)"
  using assms by (auto simp: esshImport_def split: sum.splits if_splits)


lemma esshImport_first:
  assumes n: "CheckString L args 1 = Inr name"
    and fresh: "LoadedModules s name = None"
    and first: "esshImport sys L args s = (evs, Inr (v, s'))"
  shows "\<exists>lev s1 rets s3.
           Load sys name (refresh_forced s) s = (lev, Inr s1)
           \<and> fs s1 (IndexFile sys s1 name) = Exists
           \<and> DoFile sys (IndexFile sys s1 name)
                (s1\<lparr> essh_module := LTable []
                       [(LString ''path'', LString (filepath_Dir sys (IndexFile sys s1 name))),
                        (LString ''import_path'', LString name)] \<rparr>) = Inr (rets, s3)
           \<and> evs = lev @ [Stat (IndexFile sys s1 name), Eval (IndexFile sys s1 name)]
           \<and> v = last (args @ rets)
           \<and> s' = s3\<lparr> essh_module := LNil,
                       LoadedModules := (LoadedModules s3)
                          (name \<mapsto> \<lparr> Module_Name = name, Module_Value = v \<rparr>) \<rparr>"
proof -
  from esshImport_success [OF first] have g: "essh_global s" "essh_module s = LNil" by simp_all
  obtain lev lr where l: "Load sys name (refresh_forced s) s = (lev, lr)"
    by (cases "Load sys name (refresh_forced s) s") auto
  show ?thesis
  proof (cases lr)
    case (Inl err)
    with first n fresh g l show ?thesis
      by (simp add: esshImport_def refresh_forced_def)
  next
    case (Inr s1)
    show ?thesis
    proof (cases "fs s1 (IndexFile sys s1 name) = Exists")
      case False
      with first n fresh g l Inr show ?thesis
        by (simp add: esshImport_def refresh_forced_def Let_def)
    next
      case True
      let ?file = "IndexFile sys s1 name"
      let ?s2 = "s1\<lparr> essh_module := LTable []
                       [(LString ''path'', LString (filepath_Dir sys ?file)),
                        (LString ''import_path'', LString name)] \<rparr>"
      show ?thesis
      proof (cases "DoFile sys ?file ?s2")
        case (Inl err)
        with first n fresh g l Inr True show ?thesis
          by (simp add: esshImport_def refresh_forced_def Let_def)
      next
        case d: (Inr p)
        obtain rets s3 where p: "p = (rets, s3)" by (cases p) auto
        from first n fresh g l Inr True d p
        have "evs = lev @ [Stat ?file, Eval ?file] \<and> v = last (args @ rets)
              \<and> s' = s3\<lparr> essh_module := LNil,
                       LoadedModules := (LoadedModules s3)
                          (name \<mapsto> \<lparr> Module_Name = name, Module_Value = v \<rparr>) \<rparr>"
          by (auto simp: esshImport_def refresh_forced_def Let_def NewPackage_def)
        with l Inr True d p show ?thesis by blast
      qed
    qed
  qed
qed





text \<open>
  Claim C6.  An import attempted while the marker is set fails with the nested-import
  error and performs no I/O.  The marker is set when the entrypoint is evaluated: an
  entrypoint that itself issues an import, for any name, makes the enclosing first
  import fail with that error, after the stat of the entrypoint file and the start of
  its evaluation.  After an import has returned, the marker is cleared.
\<close>

theorem nested_import_rejected:
  "(CheckString L args 1 = Inr name \<and> essh_global s \<and> essh_module s \<noteq> LNil \<longrightarrow>
      esshImport sys L args s = ([], Inl (RaiseError nested_import)))
   \<and> (CheckString L args 1 = Inr name \<and> CheckString L inner 1 = Inr name2
        \<and> essh_global s \<and> essh_module s = LNil \<and> LoadedModules s name = None
        \<and> Load sys name (refresh_forced s) s = (lev, Inr s1)
        \<and> fs s1 (IndexFile sys s1 name) = Exists
        \<and> (\<forall>st. essh_global st \<and> essh_module st \<noteq> LNil \<longrightarrow>
               DoFile sys (IndexFile sys s1 name) st = importing_script sys L inner st) \<longrightarrow>
      esshImport sys L args s
        = (lev @ [Stat (IndexFile sys s1 name), Eval (IndexFile sys s1 name)],
           Inl (Panic nested_import)))
   \<and> (esshImport sys L args s = (evs, Inr (v, s')) \<longrightarrow> essh_module s' = LNil)"
proof -
  have a: "CheckString L args 1 = Inr name \<and> essh_global s \<and> essh_module s \<noteq> LNil \<longrightarrow>
      esshImport sys L args s = ([], Inl (RaiseError nested_import))"
    using esshImport_guards(1) [of L args name s sys] by blast
  have b: "CheckString L args 1 = Inr name \<and> CheckString L inner 1 = Inr name2
        \<and> essh_global s \<and> essh_module s = LNil \<and> LoadedModules s name = None
        \<and> Load sys name (refresh_forced s) s = (lev, Inr s1)
        \<and> fs s1 (IndexFile sys s1 name) = Exists
        \<and> (\<forall>st. essh_global st \<and> essh_module st \<noteq> LNil \<longrightarrow>
               DoFile sys (IndexFile sys s1 name) st = importing_script sys L inner st) \<longrightarrow>
      esshImport sys L args s
        = (lev @ [Stat (IndexFile sys s1 name), Eval (IndexFile sys s1 name)],
           Inl (Panic nested_import))"
  proof (intro impI, elim conjE)
    let ?file = "IndexFile sys s1 name"
    let ?s2 = "s1\<lparr> essh_module := LTable []
                     [(LString ''path'', LString (filepath_Dir sys ?file)),
                      (LString ''import_path'', LString name)] \<rparr>"
    assume n: "CheckString L args 1 = Inr name" and n2: "CheckString L inner 1 = Inr name2"
      and g: "essh_global s" and m: "essh_module s = LNil"
      and fresh: "LoadedModules s name = None"
      and l: "Load sys name (refresh_forced s) s = (lev, Inr s1)"
      and ex: "fs s1 ?file = Exists"
      and entry: "\<forall>st. essh_global st \<and> essh_module st \<noteq> LNil \<longrightarrow>
               DoFile sys ?file st = importing_script sys L inner st"
    from Load_result [OF l] have "s1 = s\<lparr> fs := fs s1 \<rparr>" by simp
    with g have g1: "essh_global s1" by (cases s) (cases s1, simp)
    then have g2: "essh_global ?s2" and m2: "essh_module ?s2 \<noteq> LNil" by simp_all
    from esshImport_guards(1) [OF n2 g2 m2]
    have "importing_script sys L inner ?s2 = Inl (RaiseError nested_import)"
      by (simp add: importing_script_def)
    with entry g2 m2 have d: "DoFile sys ?file ?s2 = Inl (RaiseError nested_import)" by metis
    from n g m fresh l ex d
    show "esshImport sys L args s = (lev @ [Stat ?file, Eval ?file], Inl (Panic nested_import))"
      by (simp add: esshImport_def refresh_forced_def Let_def)
  qed
  have c: "esshImport sys L args s = (evs, Inr (v, s')) \<longrightarrow> essh_module s' = LNil"
  proof
    assume r: "esshImport sys L args s = (evs, Inr (v, s'))"
    from esshImport_success [OF r] obtain nm where
      g: "essh_global s" "essh_module s = LNil" "CheckString L args 1 = Inr nm" by blast
    show "essh_module s' = LNil"
    proof (cases "LoadedModules s nm")
      case None
      from esshImport_first [OF g(3) None r] show ?thesis by auto
    next
      case (Some loaded)
      from esshImport_guards(2) [OF g(3) g(1,2) Some, of sys] r g(2) show ?thesis by simp
    qed
  qed
  show ?thesis
    by (intro conjI a b c)
qed

theorem nested_import_rejected_witness:
  "CheckString example_L [LString ''github.com/a/b''] 1 = Inr ''github.com/a/b''
   \<and> CheckString example_L [LString ''github.com/c/d''] 1 = Inr ''github.com/c/d''
   \<and> essh_global example_state \<and> essh_module example_state = LNil
   \<and> LoadedModules example_state ''github.com/a/b'' = None
   \<and> snd (esshImport nesting_sys example_L [LString ''github.com/a/b''] example_state)
       = Inl (Panic nested_import)
   \<and> essh_module (example_state\<lparr> essh_module := LBool True \<rparr>) \<noteq> LNil
   \<and> esshImport example_sys example_L [LString ''github.com/a/b'']
        (example_state\<lparr> essh_module := LBool True \<rparr>)
       = ([], Inl (RaiseError nested_import))"
proof -
  let ?n = "''github.com/a/b''"
  let ?file = "''/data/packages/github.com-a-b/index.lua''"
  have h1: "CheckString example_L [LString ?n] 1 = Inr ?n"
    by (simp add: CheckString_def)
  have h2: "CheckString example_L [LString ''github.com/c/d''] 1 = Inr ''github.com/c/d''"
    by (simp add: CheckString_def)
  have h3: "essh_global example_state" "essh_module example_state = LNil"
    "LoadedModules example_state ?n = None"
    by (simp_all add: example_state_def)
  obtain lev s1 where l: "Load nesting_sys ?n (refresh_forced example_state) example_state = (lev, Inr s1)"
    and f: "IndexFile nesting_sys s1 ?n = ?file" and ex: "fs s1 ?file = Exists"
    by (simp add: Load_def Dir_def IndexFile_def Key_def refresh_forced_def nesting_sys_def
          example_sys_def example_state_def Let_def)
  have entry: "\<forall>st. essh_global st \<and> essh_module st \<noteq> LNil \<longrightarrow>
          DoFile nesting_sys ?file st
            = importing_script nesting_sys example_L [LString ''github.com/c/d''] st"
  proof (intro allI impI, elim conjE)
    fix st :: "unit istate"
    assume st: "essh_global st" "essh_module st \<noteq> LNil"
    from nested_import_rejected [of example_L "[LString ''github.com/c/d'']" "''github.com/c/d''"
           st nesting_sys] h2 st
    have "esshImport nesting_sys example_L [LString ''github.com/c/d''] st
            = ([], Inl (RaiseError nested_import))" by blast
    with st show "DoFile nesting_sys ?file st
            = importing_script nesting_sys example_L [LString ''github.com/c/d''] st"
      by (simp add: importing_script_def nesting_sys_def)
  qed
  from nested_import_rejected [of example_L "[LString ?n]" ?n example_state nesting_sys
         "[LString ''github.com/c/d'']" "''github.com/c/d''" lev s1] h1 h2 h3 l ex entry f
  have r1: "snd (esshImport nesting_sys example_L [LString ?n] example_state)
       = Inl (Panic nested_import)"
    by simp
  have h4: "essh_module (example_state\<lparr> essh_module := LBool True \<rparr>) \<noteq> LNil"
    by simp
  from nested_import_rejected [of example_L "[LString ?n]" ?n
         "example_state\<lparr> essh_module := LBool True \<rparr>" example_sys] h1 h3(1) h4
  have r2: "esshImport example_sys example_L [LString ?n]
        (example_state\<lparr> essh_module := LBool True \<rparr>)
       = ([], Inl (RaiseError nested_import))"
    by simp
  show ?thesis
    by (intro conjI h1 h2 h3 r1 h4 r2)
qed

end
